(* ===== verification/CM_Prelude.thy ===== *)
theory CM_Prelude
  imports Complex_Main
begin

text \<open>
  Shared material of the countries-map development: the fact collections the component
  theories unfold with, the two JavaScript operators on possibly-missing values that the
  component uses everywhere (\<^verbatim>\<open>??\<close> and the \<^verbatim>\<open>x ? a : b\<close> test of an optional
  object), and generic lemmas on lists, options and maps:
  \<^item> \<open>assign_entries\<close>: the effect of a loop \<^verbatim>\<open>for (const [k, v] of entries) obj[f(k)] = g(v)\<close>
    on a map, with its domain, its lookups (the last entry with a given key wins), its
    independence of the starting map on the keys it writes, and its closed form as the
    map of the reversed list of entries;
  \<^item> running minimum and maximum over a list, related to \<open>Min\<close> and \<open>Max\<close> of its set;
  \<^item> \<open>and_then\<close>: sequencing of operations that may raise, an exception being the
    \<open>Inl\<close> of a sum.
  Nothing here is specific to one component.
\<close>

section \<open>Fact collections\<close>

named_theorems js_defs "definitions of the JavaScript operators and builtins of the model"
named_theorems cm_defs "definitions of the component's operations, unfolded by the proofs"
named_theorems cm_simps "derived equations of the component's operations"

section \<open>Definitions\<close>

type_synonym 'a optional = "'a option"

definition nullish :: "'a optional \<Rightarrow> 'a \<Rightarrow> 'a" where
  "nullish x d = (case x of None \<Rightarrow> d | Some v \<Rightarrow> v)"

definition is_some :: "'a optional \<Rightarrow> bool" where
  "is_some x = (case x of None \<Rightarrow> False | Some _ \<Rightarrow> True)"

type_synonym ('e, 'a) result = "'e + 'a"

definition and_then :: "('e, 'a) result \<Rightarrow> ('a \<Rightarrow> ('e, 'b) result) \<Rightarrow> ('e, 'b) result" where
  "and_then r f = (case r of Inl e \<Rightarrow> Inl e | Inr x \<Rightarrow> f x)"

fun assign_entries :: "('k \<Rightarrow> 'j) \<Rightarrow> ('v \<Rightarrow> 'w) \<Rightarrow> ('k \<times> 'v) list \<Rightarrow> ('j \<rightharpoonup> 'w) \<Rightarrow> ('j \<rightharpoonup> 'w)" where
  "assign_entries f g [] m = m"
| "assign_entries f g ((k, v) # es) m = assign_entries f g es (m(f k \<mapsto> g v))"

section \<open>Optional values\<close>

lemma nullish_simps [simp]:
  "nullish None d = d"
  "nullish (Some v) d = v"
  by (simp_all add: nullish_def)

lemma is_some_simps [simp]:
  "is_some None = False"
  "is_some (Some v) = True"
  by (simp_all add: is_some_def)

lemma is_some_iff: "is_some x \<longleftrightarrow> x \<noteq> None"
  by (cases x) simp_all

lemma is_some_conv: "is_some x \<longleftrightarrow> (\<exists>v. x = Some v)"
  by (cases x) simp_all

lemma nullish_Some_iff: "Some (nullish x d) = x \<longleftrightarrow> is_some x"
  by (cases x) simp_all

section \<open>Results\<close>

lemma and_then_simps [simp]:
  "and_then (Inl e) f = Inl e"
  "and_then (Inr x) f = f x"
  by (simp_all add: and_then_def)

lemma and_then_Inr_iff:
  "and_then r f = Inr y \<longleftrightarrow> (\<exists>x. r = Inr x \<and> f x = Inr y)"
  by (cases r) simp_all

lemma and_then_Inl_iff:
  "and_then r f = Inl e \<longleftrightarrow> r = Inl e \<or> (\<exists>x. r = Inr x \<and> f x = Inl e)"
  by (cases r) simp_all

lemma and_then_assoc: "and_then (and_then r f) g = and_then r (\<lambda>x. and_then (f x) g)"
  by (cases r) simp_all

section \<open>Assignments to the keys of a map, in order\<close>

lemma assign_entries_append [simp]:
  "assign_entries f g (xs @ ys) m = assign_entries f g ys (assign_entries f g xs m)"
  by (induction xs arbitrary: m) auto

lemma assign_entries_snoc:
  "assign_entries f g (xs @ [(k, v)]) m = (assign_entries f g xs m)(f k \<mapsto> g v)"
  by simp

lemma dom_assign_entries:
  "dom (assign_entries f g es m) = dom m \<union> f ` fst ` set es"
  by (induction es arbitrary: m) (simp_all add: insert_commute Un_insert_left Un_insert_right del: Un_insert_left Un_insert_right, force)

lemma assign_entries_other:
  "j \<notin> f ` fst ` set es \<Longrightarrow> assign_entries f g es m j = m j"
  by (induction es arbitrary: m) auto

lemma assign_entries_last:
  "f k = j \<Longrightarrow> j \<notin> f ` fst ` set ys \<Longrightarrow>
   assign_entries f g (xs @ (k, v) # ys) m j = Some (g v)"
  by (simp add: assign_entries_other)

lemma assign_entries_written:
  "j \<in> f ` fst ` set es \<Longrightarrow> assign_entries f g es m j = assign_entries f g es m' j"
proof (induction es arbitrary: m m' rule: rev_induct)
  case Nil
  then show ?case by simp
next
  case (snoc e es)
  obtain k v where e: "e = (k, v)" by (cases e)
  show ?case
  proof (cases "f k = j")
    case True
    with e show ?thesis by simp
  next
    case False
    with snoc.prems e have "j \<in> f ` fst ` set es" by auto
    then have "assign_entries f g es m j = assign_entries f g es m' j"
      by (rule snoc.IH)
    with False e show ?thesis by simp
  qed
qed

lemma assign_entries_ran:
  "assign_entries f g es m j = Some w \<Longrightarrow> m j = Some w \<or> (\<exists>(k, v) \<in> set es. f k = j \<and> w = g v)"
proof (induction es arbitrary: m)
  case Nil
  then show ?case by simp
next
  case (Cons e es)
  obtain k v where e: "e = (k, v)" by (cases e)
  from Cons.prems e have "assign_entries f g es (m(f k \<mapsto> g v)) j = Some w" by simp
  from Cons.IH [OF this] e show ?case
    by (auto split: if_splits)
qed

lemma assign_entries_inj_lookup:
  assumes "distinct (map (f \<circ> fst) es)" and "(k, v) \<in> set es"
  shows "assign_entries f g es m (f k) = Some (g v)"
  using assms
proof (induction es arbitrary: m)
  case Nil
  then show ?case by simp
next
  case (Cons e es)
  obtain k' v' where e: "e = (k', v')" by (cases e)
  show ?case
  proof (cases "(k, v) \<in> set es")
    case True
    with Cons e show ?thesis by simp
  next
    case False
    with Cons.prems e have kv: "k' = k" "v' = v" by auto
    from Cons.prems(1) e kv have "f k \<notin> f ` fst ` set es" by (auto simp: image_iff)
    with e kv show ?thesis by (simp add: assign_entries_other)
  qed
qed

lemma assign_entries_map_of:
  "assign_entries f g es m = m ++ map_of (rev (map (\<lambda>(k, v). (f k, g v)) es))"
proof (induction es arbitrary: m)
  case Nil
  show ?case by simp
next
  case (Cons e es)
  obtain k v where e: "e = (k, v)" by (cases e)
  show ?case unfolding e
    by (simp add: Cons) (auto simp: fun_eq_iff map_add_def split: option.split)
qed

section \<open>Running minimum and maximum\<close>

lemma fold_min_Min:
  fixes x :: "'a::linorder"
  shows "fold min xs x = Min (insert x (set xs))"
proof (induction xs arbitrary: x)
  case Nil
  then show ?case by simp
next
  case (Cons y ys)
  have "fold min (y # ys) x = Min (insert (min y x) (set ys))"
    by (simp add: Cons.IH)
  also have "\<dots> = Min (insert x (set (y # ys)))"
    by (cases "set ys = {}") (simp_all add: min.commute min.left_commute insert_commute)
  finally show ?case .
qed

lemma fold_max_Max:
  fixes x :: "'a::linorder"
  shows "fold max xs x = Max (insert x (set xs))"
proof (induction xs arbitrary: x)
  case Nil
  then show ?case by simp
next
  case (Cons y ys)
  have "fold max (y # ys) x = Max (insert (max y x) (set ys))"
    by (simp add: Cons.IH)
  also have "\<dots> = Max (insert x (set (y # ys)))"
    by (cases "set ys = {}") (simp_all add: max.commute max.left_commute insert_commute)
  finally show ?case .
qed

end
