(* ===== verification/JS_Number.thy ===== *)
theory JS_Number
  imports CM_Prelude
begin

text \<open>
  The JavaScript numbers the component computes with. A number is \<open>NaN\<close> or a finite
  value \<open>Num x\<close> with \<open>x\<close> real: the sentinel \<open>NaN\<close> is what the code tests
  (\<^verbatim>\<open>isNaN\<close>) and what its comparisons and arithmetic propagate, so it is a constructor of
  its own; finite doubles are idealised as reals (no rounding, no infinities, one zero).
  The arithmetic operators \<open>-\<close>, \<open>/\<close>, \<open>*\<close>, the comparisons \<open><\<close> and \<open>\<le>\<close> and
  the numerals are those of JavaScript on this type, given by instantiating the library's
  syntactic classes: \<open>NaN\<close> is absorbing for arithmetic and makes every comparison false,
  so \<open>\<le>\<close> is \<^emph>\<open>not\<close> a preorder here and no order class beyond \<open>ord\<close> is instantiated.
  Division by zero yields \<open>NaN\<close> in the model (JavaScript yields an infinity for a
  nonzero dividend); \<open>Value_Normalizer.range_nonzero\<close> shows the component never
  divides by zero.
  \<open>js_or\<close> is \<^verbatim>\<open>a || b\<close> on numbers, \<open>js_trunc\<close>, \<open>lead_digit\<close> and
  \<open>lead_frac\<close> serve \<open>parseInt_number\<close>, the composition
  \<^verbatim>\<open>parseInt(x.toString(), 10)\<close> for a number \<open>x\<close>.
\<close>

section \<open>Definitions\<close>

datatype jsnum = NaN | Num real

fun isNaN :: "jsnum \<Rightarrow> bool" where
  "isNaN NaN = True"
| "isNaN (Num x) = False"

fun falsy :: "jsnum \<Rightarrow> bool" where
  "falsy NaN = True"
| "falsy (Num x) = (x = 0)"

definition js_or :: "jsnum \<Rightarrow> jsnum \<Rightarrow> jsnum" where
  "js_or a b = (if falsy a then b else a)"

instantiation jsnum :: "{numeral, zero, minus, uminus, times, inverse, ord}"
begin

definition zero_jsnum :: jsnum where
  "zero_jsnum = Num 0"

definition one_jsnum :: jsnum where
  "one_jsnum = Num 1"

fun plus_jsnum :: "jsnum \<Rightarrow> jsnum \<Rightarrow> jsnum" where
  "plus_jsnum (Num a) (Num b) = Num (a + b)"
| "plus_jsnum _ _ = NaN"

fun minus_jsnum :: "jsnum \<Rightarrow> jsnum \<Rightarrow> jsnum" where
  "minus_jsnum (Num a) (Num b) = Num (a - b)"
| "minus_jsnum _ _ = NaN"

fun uminus_jsnum :: "jsnum \<Rightarrow> jsnum" where
  "uminus_jsnum (Num a) = Num (- a)"
| "uminus_jsnum NaN = NaN"

fun times_jsnum :: "jsnum \<Rightarrow> jsnum \<Rightarrow> jsnum" where
  "times_jsnum (Num a) (Num b) = Num (a * b)"
| "times_jsnum _ _ = NaN"

fun divide_jsnum :: "jsnum \<Rightarrow> jsnum \<Rightarrow> jsnum" where
  "divide_jsnum (Num a) (Num b) = (if b = 0 then NaN else Num (a / b))"
| "divide_jsnum _ _ = NaN"

definition inverse_jsnum :: "jsnum \<Rightarrow> jsnum" where
  "inverse_jsnum a = divide (Num 1) a"

fun less_jsnum :: "jsnum \<Rightarrow> jsnum \<Rightarrow> bool" where
  "less_jsnum (Num a) (Num b) = (a < b)"
| "less_jsnum _ _ = False"

fun less_eq_jsnum :: "jsnum \<Rightarrow> jsnum \<Rightarrow> bool" where
  "less_eq_jsnum (Num a) (Num b) = (a \<le> b)"
| "less_eq_jsnum _ _ = False"

instance
proof
  fix a b c :: jsnum
  show "a + b + c = a + (b + c)"
    by (cases a; cases b; cases c) simp_all
qed

end

definition js_trunc :: "real \<Rightarrow> int" where
  "js_trunc x = (if 0 \<le> x then \<lfloor>x\<rfloor> else \<lceil>x\<rceil>)"

fun lead_digit :: "nat \<Rightarrow> nat" where
  "lead_digit n = (if n < 10 then n else lead_digit (n div 10))"

function lead_frac :: "real \<Rightarrow> nat" where
  "lead_frac x = (if x \<le> 0 \<or> 1 \<le> x then nat \<lfloor>x\<rfloor> else lead_frac (10 * x))"
  by pat_completeness auto
termination
proof (relation "measure (\<lambda>x. nat \<lceil>1 / x\<rceil>)")
  show "wf (measure (\<lambda>x::real. nat \<lceil>1 / x\<rceil>))"
    by simp
next
  fix x :: real
  assume "\<not> (x \<le> 0 \<or> 1 \<le> x)"
  then have x: "0 < x" "x < 1" by auto
  define y where "y = 1 / x"
  define c where "c = \<lceil>y\<rceil>"
  from x have y: "1 < y" by (simp add: y_def)
  then have "2 \<le> c" unfolding c_def by linarith
  then have "2 \<le> real_of_int c" by linarith
  moreover have "y \<le> real_of_int c" unfolding c_def by (rule le_of_int_ceiling)
  ultimately have "y / 10 \<le> real_of_int (c - 1)" by simp
  then have "\<lceil>y / 10\<rceil> \<le> c - 1" by (simp only: ceiling_le_iff)
  moreover have "0 < c" using \<open>2 \<le> c\<close> by simp
  moreover have "1 / (10 * x) = y / 10" by (simp add: y_def)
  ultimately show "(10 * x, x) \<in> measure (\<lambda>x. nat \<lceil>1 / x\<rceil>)"
    by (simp add: y_def c_def mult.commute)
qed

definition parseInt_number :: "jsnum \<Rightarrow> jsnum" where
  "parseInt_number v =
     (case v of
        NaN \<Rightarrow> NaN
      | Num x \<Rightarrow>
          if x = 0 then Num 0
          else if 10 ^ 21 \<le> \<bar>x\<bar> then Num (sgn x * real (lead_digit (nat \<lfloor>\<bar>x\<bar>\<rfloor>)))
          else if \<bar>x\<bar> < 1 / 10 ^ 6 then Num (sgn x * real (lead_frac \<bar>x\<bar>))
          else Num (of_int (js_trunc x)))"

declare lead_digit.simps [simp del] lead_frac.simps [simp del]

section \<open>Numerals and constants\<close>

lemma zero_jsnum [simp, js_defs]: "(0::jsnum) = Num 0"
  by (simp add: zero_jsnum_def)

lemma one_jsnum [simp, js_defs]: "(1::jsnum) = Num 1"
  by (simp add: one_jsnum_def)

lemma numeral_jsnum [simp, js_defs]: "(numeral k :: jsnum) = Num (numeral k)"
proof (induction k)
  case One
  show ?case by (simp add: numeral_One)
next
  case (Bit0 k)
  have "(numeral (Num.Bit0 k) :: jsnum) = numeral k + numeral k"
    by (rule numeral_Bit0)
  also have "\<dots> = Num (numeral k + numeral k)"
    by (simp add: Bit0)
  finally show ?case by (simp only: numeral_Bit0)
next
  case (Bit1 k)
  have "(numeral (Num.Bit1 k) :: jsnum) = numeral k + numeral k + 1"
    by (rule numeral_Bit1)
  also have "\<dots> = Num (numeral k + numeral k + 1)"
    by (simp add: Bit1)
  finally show ?case by (simp only: numeral_Bit1)
qed

lemma neg_numeral_jsnum [simp]: "(- numeral k :: jsnum) = Num (- numeral k)"
  by simp

lemma inverse_jsnum [simp]: "inverse (a::jsnum) = Num 1 / a"
  by (simp add: inverse_jsnum_def)

section \<open>NaN\<close>

lemma isNaN_iff: "isNaN a \<longleftrightarrow> a = NaN"
  by (cases a) simp_all

lemma not_isNaN_conv: "\<not> isNaN a \<longleftrightarrow> (\<exists>x. a = Num x)"
  by (cases a) simp_all

lemma NaN_absorbs [simp]:
  "NaN - a = NaN" "a - NaN = NaN"
  "NaN * a = NaN" "a * NaN = NaN"
  "NaN / a = NaN" "a / NaN = NaN"
  "NaN + a = NaN" "a + NaN = NaN"
  by (cases a; simp)+

lemma NaN_compares [simp]:
  "\<not> NaN < a" "\<not> a < NaN" "\<not> NaN \<le> a" "\<not> a \<le> NaN"
  by (cases a; simp)+

section \<open>Comparisons of finite numbers\<close>

lemma jsnum_le_less: "a \<le> b \<longleftrightarrow> a < b \<or> (a = b \<and> \<not> isNaN a)" for a b :: jsnum
  by (cases a; cases b) auto

lemma jsnum_not_le: "\<not> isNaN a \<Longrightarrow> \<not> isNaN b \<Longrightarrow> \<not> a \<le> b \<longleftrightarrow> b < a" for a b :: jsnum
  by (cases a; cases b) auto

lemma jsnum_le_refl: "\<not> isNaN a \<Longrightarrow> a \<le> a" for a :: jsnum
  by (cases a) auto

lemma jsnum_le_trans: "a \<le> b \<Longrightarrow> b \<le> c \<Longrightarrow> a \<le> c" for a b c :: jsnum
  by (cases a; cases b; cases c) auto

lemma jsnum_less_imp_finite: "a < b \<Longrightarrow> \<not> isNaN a \<and> \<not> isNaN b" for a b :: jsnum
  by (cases a; cases b) auto

section \<open>The operator \<open>||\<close>\<close>

lemma js_or_simps [simp]:
  "js_or NaN b = b"
  "js_or (Num x) b = (if x = 0 then b else Num x)"
  by (simp_all add: js_or_def)

lemma js_or_truthy: "\<not> falsy b \<Longrightarrow> \<not> falsy (js_or a b)"
  by (simp add: js_or_def)

section \<open>Integer parts\<close>

lemma js_trunc_of_int [simp]: "js_trunc (of_int n) = n"
  by (simp add: js_trunc_def)

lemma js_trunc_0 [simp]: "js_trunc 0 = 0"
  by (simp add: js_trunc_def)

lemma js_trunc_numeral [simp]:
  "js_trunc (numeral k) = numeral k"
  "js_trunc (- numeral k) = - numeral k"
  "js_trunc 1 = 1"
  by (simp_all add: js_trunc_def)

lemma js_trunc_abs_le: "\<bar>of_int (js_trunc x)\<bar> \<le> \<bar>x\<bar>"
  by (simp add: js_trunc_def)

lemma js_trunc_close: "\<bar>x - of_int (js_trunc x)\<bar> < 1"
  by (simp add: js_trunc_def) linarith

lemma lead_digit_less_10: "lead_digit n < 10"
  by (induction n rule: lead_digit.induct) (subst lead_digit.simps, simp)

lemma lead_digit_pos: "0 < n \<Longrightarrow> 0 < lead_digit n"
proof (induction n rule: lead_digit.induct)
  case (1 n)
  show ?case
  proof (cases "n < 10")
    case True
    with "1.prems" show ?thesis by (subst lead_digit.simps) simp
  next
    case False
    then have "0 < n div 10" by simp
    with False "1.IH" show ?thesis by (subst lead_digit.simps) simp
  qed
qed

lemma lead_frac_less_10: "0 < x \<Longrightarrow> x < 1 \<Longrightarrow> lead_frac x < 10"
proof (induction x rule: lead_frac.induct)
  case (1 x)
  show ?case
  proof (cases "1 \<le> 10 * x")
    case True
    from "1.prems" have "\<lfloor>10 * x\<rfloor> < 10"
      by (simp add: floor_less_iff)
    then have "nat \<lfloor>10 * x\<rfloor> < 10"
      by linarith
    with True "1.prems" have "lead_frac (10 * x) < 10"
      by (subst lead_frac.simps) simp
    with "1.prems" show ?thesis by (subst lead_frac.simps) simp
  next
    case False
    with "1.prems" "1.IH" show ?thesis by (subst lead_frac.simps) simp
  qed
qed

section \<open>\<open>parseInt\<close> of a number\<close>

lemma parseInt_number_NaN [simp]: "parseInt_number NaN = NaN"
  by (simp add: parseInt_number_def)

lemma parseInt_number_positional:
  "x = 0 \<or> (1 / 10 ^ 6 \<le> \<bar>x\<bar> \<and> \<bar>x\<bar> < 10 ^ 21) \<Longrightarrow> parseInt_number (Num x) = Num (of_int (js_trunc x))"
  by (auto simp: parseInt_number_def)

lemma parseInt_number_int:
  "\<bar>n\<bar> < 10 ^ 21 \<Longrightarrow> parseInt_number (Num (of_int n)) = Num (of_int n)"
proof (cases "n = 0")
  case True
  then show ?thesis by (simp add: parseInt_number_def)
next
  case False
  assume "\<bar>n\<bar> < 10 ^ 21"
  then have "\<bar>real_of_int n\<bar> < 10 ^ 21"
    by (metis of_int_abs of_int_less_iff of_int_numeral of_int_power)
  moreover from False have "1 \<le> \<bar>real_of_int n\<bar>"
    by (metis abs_ge_zero abs_zero of_int_abs of_int_1_le_iff zero_less_abs_iff int_one_le_iff_zero_less)
  then have "1 / 10 ^ 6 \<le> \<bar>real_of_int n\<bar>" by simp
  ultimately show ?thesis by (simp add: parseInt_number_positional)
qed

lemma parseInt_number_finite: "\<not> isNaN (parseInt_number (Num x))"
  by (simp add: parseInt_number_def)

lemma parseInt_number_isNaN [simp]: "isNaN (parseInt_number v) \<longleftrightarrow> isNaN v"
  by (cases v) (simp_all add: parseInt_number_finite)

lemma parseInt_number_shape:
  "parseInt_number v = NaN \<or> (\<exists>n::int. parseInt_number v = Num (of_int n))"
proof (cases v)
  case NaN
  then show ?thesis by simp
next
  case (Num x)
  have *: "\<exists>n::int. sgn x * real k = of_int n" for k
  proof -
    have "sgn x * real k = of_int (sgn \<lfloor>x\<rfloor> * int k) \<or> sgn x * real k = of_int (- int k)
      \<or> sgn x * real k = of_int (int k)"
      by (cases "0 < x"; cases "x < 0") (auto simp: sgn_if)
    then show ?thesis by blast
  qed
  have "\<exists>n::int. (0::real) = of_int n"
    by (rule exI [of _ 0]) simp
  with Num * show ?thesis
    by (auto simp: parseInt_number_def)
qed

end
