(* ===== verification/JS_String.thy ===== *)
theory JS_String
  imports JS_Number
begin

text \<open>
  The JavaScript string operations the component calls, on \<open>string\<close> (a list of
  characters): \<open>toLowerCase\<close> and \<open>toUpperCase\<close> (the keys of \<^verbatim>\<open>mapData\<close>, the ids of
  the SVG elements, the country code of the select event) and \<open>parseInt\<close> with radix 10
  (\<^verbatim>\<open>countryNum\<close>). The model's strings are ASCII, as country codes, element ids and class
  names are: the case mappings move the letters \<^verbatim>\<open>A\<close>-\<^verbatim>\<open>Z\<close> and \<^verbatim>\<open>a\<close>-\<^verbatim>\<open>z\<close> by flipping bit 5
  of the character and leave every other character unchanged, and the white space that
  \<open>parseInt\<close> skips is the ASCII white space.
  \<open>parseInt\<close> follows the steps of the language definition: skip white space, read a sign,
  take the longest prefix of decimal digits, \<open>NaN\<close> if it is empty, else its value with
  the sign. \<open>int_toString\<close> prints an integer the way \<^verbatim>\<open>Number.prototype.toString\<close> does;
  it is the reference that \<open>parseInt\<close> and \<open>JS_Number.parseInt_number\<close> are checked against.
\<close>

section \<open>Definitions\<close>

definition is_upper :: "char \<Rightarrow> bool" where
  "is_upper c = (65 \<le> (of_char c :: nat) \<and> (of_char c :: nat) \<le> 90)"

definition is_lower :: "char \<Rightarrow> bool" where
  "is_lower c = (97 \<le> (of_char c :: nat) \<and> (of_char c :: nat) \<le> 122)"

fun set_bit5 :: "bool \<Rightarrow> char \<Rightarrow> char" where
  "set_bit5 b (Char b0 b1 b2 b3 b4 b5 b6 b7) = Char b0 b1 b2 b3 b4 b b6 b7"

definition lower_char :: "char \<Rightarrow> char" where
  "lower_char c = (if is_upper c then set_bit5 True c else c)"

definition upper_char :: "char \<Rightarrow> char" where
  "upper_char c = (if is_lower c then set_bit5 False c else c)"

definition toLowerCase :: "string \<Rightarrow> string" where
  "toLowerCase s = map lower_char s"

definition toUpperCase :: "string \<Rightarrow> string" where
  "toUpperCase s = map upper_char s"

definition is_space :: "char \<Rightarrow> bool" where
  "is_space c = ((9 \<le> (of_char c :: nat) \<and> (of_char c :: nat) \<le> 13) \<or> (of_char c :: nat) = 32)"

definition is_digit :: "char \<Rightarrow> bool" where
  "is_digit c = (48 \<le> (of_char c :: nat) \<and> (of_char c :: nat) \<le> 57)"

definition digit_val :: "char \<Rightarrow> nat" where
  "digit_val c = of_char c - 48"

definition digits_val :: "string \<Rightarrow> nat" where
  "digits_val ds = foldl (\<lambda>n c. 10 * n + digit_val c) 0 ds"

definition parseInt :: "string \<Rightarrow> jsnum" where
  "parseInt inputString =
     (let S = dropWhile is_space inputString;
          sign = (if S \<noteq> [] \<and> hd S = CHR ''-'' then - 1 else 1);
          S' = (if S \<noteq> [] \<and> (hd S = CHR ''+'' \<or> hd S = CHR ''-'') then tl S else S);
          Z = takeWhile is_digit S'
      in if Z = [] then NaN else Num (sign * real (digits_val Z)))"

definition digit_char :: "nat \<Rightarrow> char" where
  "digit_char d = (if d = 0 then CHR ''0'' else if d = 1 then CHR ''1'' else if d = 2 then CHR ''2''
     else if d = 3 then CHR ''3'' else if d = 4 then CHR ''4'' else if d = 5 then CHR ''5''
     else if d = 6 then CHR ''6'' else if d = 7 then CHR ''7'' else if d = 8 then CHR ''8''
     else CHR ''9'')"

fun nat_toString :: "nat \<Rightarrow> string" where
  "nat_toString n = (if n < 10 then [digit_char n] else nat_toString (n div 10) @ [digit_char (n mod 10)])"

definition int_toString :: "int \<Rightarrow> string" where
  "int_toString i = (if i < 0 then CHR ''-'' # nat_toString (nat (- i)) else nat_toString (nat i))"

declare nat_toString.simps [simp del]

lemmas char_class_defs [js_defs] =
  is_upper_def is_lower_def is_space_def is_digit_def digit_val_def

lemmas case_defs [js_defs] =
  toLowerCase_def toUpperCase_def lower_char_def upper_char_def

section \<open>Case mapping of one character\<close>

lemma of_char_set_bit5_True: "is_upper c \<Longrightarrow> (of_char (set_bit5 True c) :: nat) = of_char c + 32"
  by (cases c) (auto simp: is_upper_def of_bool_def split: if_splits)

lemma of_char_set_bit5_False: "is_lower c \<Longrightarrow> (of_char (set_bit5 False c) :: nat) = of_char c - 32"
  by (cases c) (auto simp: is_lower_def of_bool_def split: if_splits)

lemma set_bit5_set_bit5 [simp]: "set_bit5 a (set_bit5 b c) = set_bit5 a c"
  by (cases c) simp

lemma set_bit5_False_upper: "is_upper c \<Longrightarrow> set_bit5 False c = c"
  by (cases c) (auto simp: is_upper_def of_bool_def split: if_splits)

lemma set_bit5_True_lower: "is_lower c \<Longrightarrow> set_bit5 True c = c"
  by (cases c) (auto simp: is_lower_def of_bool_def split: if_splits)

lemma is_lower_set_bit5: "is_upper c \<Longrightarrow> is_lower (set_bit5 True c)"
  by (simp add: is_lower_def of_char_set_bit5_True) (simp add: is_upper_def)

lemma is_upper_set_bit5: "is_lower c \<Longrightarrow> is_upper (set_bit5 False c)"
  by (simp add: is_upper_def of_char_set_bit5_False) (auto simp: is_lower_def)

lemma upper_not_lower: "is_upper c \<Longrightarrow> \<not> is_lower c"
  by (simp add: is_upper_def is_lower_def)

lemma lower_not_upper: "is_lower c \<Longrightarrow> \<not> is_upper c"
  by (simp add: is_upper_def is_lower_def)

lemma not_upper_lower_char [simp]: "\<not> is_upper (lower_char c)"
  by (auto simp: lower_char_def dest: is_lower_set_bit5 lower_not_upper)

lemma not_lower_upper_char [simp]: "\<not> is_lower (upper_char c)"
  by (auto simp: upper_char_def dest: is_upper_set_bit5 upper_not_lower)

lemma lower_char_upper_char [simp]: "lower_char (upper_char c) = lower_char c"
  by (auto simp: lower_char_def upper_char_def is_upper_set_bit5 set_bit5_True_lower
      dest: upper_not_lower)

lemma upper_char_lower_char [simp]: "upper_char (lower_char c) = upper_char c"
  by (auto simp: lower_char_def upper_char_def is_lower_set_bit5 set_bit5_False_upper
      dest: upper_not_lower)

lemma lower_char_idem [simp]: "lower_char (lower_char c) = lower_char c"
  by (simp add: lower_char_def [of "lower_char c"])

lemma upper_char_idem [simp]: "upper_char (upper_char c) = upper_char c"
  by (simp add: upper_char_def [of "upper_char c"])

lemma lower_char_fixed: "\<not> is_upper c \<Longrightarrow> lower_char c = c"
  by (simp add: lower_char_def)

lemma upper_char_fixed: "\<not> is_lower c \<Longrightarrow> upper_char c = c"
  by (simp add: upper_char_def)

section \<open>Case mapping of strings\<close>

lemma length_toLowerCase [simp]: "length (toLowerCase s) = length s"
  by (simp add: toLowerCase_def)

lemma length_toUpperCase [simp]: "length (toUpperCase s) = length s"
  by (simp add: toUpperCase_def)

lemma toLowerCase_Nil [simp]: "toLowerCase [] = []"
  by (simp add: toLowerCase_def)

lemma toUpperCase_Nil [simp]: "toUpperCase [] = []"
  by (simp add: toUpperCase_def)

lemma toLowerCase_eq_Nil [simp]: "toLowerCase s = [] \<longleftrightarrow> s = []"
  by (simp add: toLowerCase_def)

lemma toUpperCase_eq_Nil [simp]: "toUpperCase s = [] \<longleftrightarrow> s = []"
  by (simp add: toUpperCase_def)

lemma toLowerCase_idem [simp]: "toLowerCase (toLowerCase s) = toLowerCase s"
  by (simp add: toLowerCase_def)

lemma toUpperCase_idem [simp]: "toUpperCase (toUpperCase s) = toUpperCase s"
  by (simp add: toUpperCase_def)

lemma toLowerCase_toUpperCase [simp]: "toLowerCase (toUpperCase s) = toLowerCase s"
  by (simp add: toLowerCase_def toUpperCase_def)

lemma toUpperCase_toLowerCase [simp]: "toUpperCase (toLowerCase s) = toUpperCase s"
  by (simp add: toLowerCase_def toUpperCase_def)

lemma toLowerCase_fixed: "\<forall>c \<in> set s. \<not> is_upper c \<Longrightarrow> toLowerCase s = s"
  by (induction s) (simp_all add: toLowerCase_def lower_char_fixed)

lemma toUpperCase_fixed: "\<forall>c \<in> set s. \<not> is_lower c \<Longrightarrow> toUpperCase s = s"
  by (induction s) (simp_all add: toUpperCase_def upper_char_fixed)

lemma toLowerCase_fixed_iff: "toLowerCase s = s \<longleftrightarrow> (\<forall>c \<in> set s. \<not> is_upper c)"
proof
  assume "toLowerCase s = s"
  then have "map lower_char s = map id s" by (simp add: toLowerCase_def)
  then have "\<forall>c \<in> set s. lower_char c = c" by (simp only: map_eq_conv) simp
  then show "\<forall>c \<in> set s. \<not> is_upper c"
    by (metis not_upper_lower_char)
qed (rule toLowerCase_fixed)

lemma same_lower_same_upper: "toLowerCase s = toLowerCase t \<longleftrightarrow> toUpperCase s = toUpperCase t"
  by (metis toLowerCase_toUpperCase toUpperCase_toLowerCase)

section \<open>Digits\<close>

lemma is_digit_digit_char [simp]: "d < 10 \<Longrightarrow> is_digit (digit_char d)"
  by (simp add: is_digit_def digit_char_def)

lemma digit_val_digit_char [simp]: "d < 10 \<Longrightarrow> digit_val (digit_char d) = d"
  by (simp add: digit_val_def digit_char_def)

lemma not_space_digit_char [simp]: "\<not> is_space (digit_char d)"
  by (simp add: is_space_def digit_char_def)

lemma digit_char_not_sign [simp]: "digit_char d \<noteq> CHR ''-''" "digit_char d \<noteq> CHR ''+''"
  by (simp_all add: digit_char_def)

lemma digits_val_snoc [simp]: "digits_val (ds @ [c]) = 10 * digits_val ds + digit_val c"
  by (simp add: digits_val_def)

lemma digits_val_Nil [simp]: "digits_val [] = 0"
  by (simp add: digits_val_def)

lemma nat_toString_nonempty [simp]: "nat_toString n \<noteq> []"
  by (subst nat_toString.simps) simp

lemma nat_toString_digits: "c \<in> set (nat_toString n) \<Longrightarrow> is_digit c"
proof (induction n rule: nat_toString.induct)
  case (1 n)
  then show ?case
    by (subst (asm) (2) nat_toString.simps) (auto split: if_splits)
qed

lemma all_digits_nat_toString [simp]: "takeWhile is_digit (nat_toString n) = nat_toString n"
  by (simp add: nat_toString_digits)

lemma hd_nat_toString:
  "\<not> is_space (hd (nat_toString n))" "hd (nat_toString n) \<noteq> CHR ''-''" "hd (nat_toString n) \<noteq> CHR ''+''"
proof -
  have "\<exists>d. hd (nat_toString n) = digit_char d"
  proof (induction n rule: nat_toString.induct)
    case (1 n)
    then show ?case
      by (subst nat_toString.simps) (auto simp: hd_append)
  qed
  then obtain d where "hd (nat_toString n) = digit_char d" ..
  then show "\<not> is_space (hd (nat_toString n))" "hd (nat_toString n) \<noteq> CHR ''-''"
    "hd (nat_toString n) \<noteq> CHR ''+''"
    by simp_all
qed

lemma digits_val_nat_toString [simp]: "digits_val (nat_toString n) = n"
proof (induction n rule: nat_toString.induct)
  case (1 n)
  show ?case
  proof (cases "n < 10")
    case True
    then show ?thesis
      by (subst nat_toString.simps) (simp add: digits_val_def)
  next
    case False
    with "1.IH" show ?thesis
      by (subst nat_toString.simps) simp
  qed
qed

section \<open>\<open>parseInt\<close>\<close>

lemma parseInt_Nil [simp]: "parseInt [] = NaN"
  by (simp add: parseInt_def)

lemma parseInt_shape: "parseInt s = NaN \<or> (\<exists>n::int. parseInt s = Num (of_int n))"
proof -
  have *: "\<exists>n::int. sg * real k = of_int n" if "sg = - 1 \<or> sg = 1" for sg :: real and k
  proof -
    from that have "sg * real k = of_int (- int k) \<or> sg * real k = of_int (int k)"
      by auto
    then show ?thesis by blast
  qed
  show ?thesis
    unfolding parseInt_def Let_def by (simp add: *)
qed

lemma parseInt_cases:
  obtains (nan) "parseInt s = NaN" | (int) n :: int where "parseInt s = Num (of_int n)"
  using parseInt_shape [of s] by blast

lemma dropWhile_space_nat_toString [simp]: "dropWhile is_space (nat_toString n) = nat_toString n"
  using hd_nat_toString(1) [of n] by (cases "nat_toString n") simp_all

lemma parseInt_nat_toString [simp]: "parseInt (nat_toString n) = Num (real n)"
  using hd_nat_toString(2,3) [of n] by (simp add: parseInt_def)

end
