(* ===== verification/Data_Types.thy ===== *)
theory Data_Types
  imports JS_String
begin

text \<open>
  The data the component exchanges with its host. The interfaces of \<^verbatim>\<open>data-types.ts\<close>
  (\<^verbatim>\<open>CountryData\<close>, \<^verbatim>\<open>DrawableCountry\<close>, \<^verbatim>\<open>Selection\<close>, \<^verbatim>\<open>SelectionExtra\<close>, the index types
  \<^verbatim>\<open>CountriesData\<close> and \<^verbatim>\<open>DrawableCountries\<close>) are not among the sources; they are modelled
  from the specification's data model and from the way the component reads and builds
  them. The events of \<^verbatim>\<open>chart-events.ts\<close> are modelled from that file.
  \<^item> A JavaScript object read by key and enumerated in order (\<^verbatim>\<open>CountriesData\<close>, the
    \<^verbatim>\<open>extra\<close> fields) is an association list in the order of \<^verbatim>\<open>Object.entries\<close>, with
    distinct keys (\<open>wf_object\<close>); an object only read and written by key
    (\<^verbatim>\<open>DrawableCountries\<close>) is a map.
  \<^item> An optional field is an \<open>option\<close>; a value that may be \<^verbatim>\<open>undefined\<close>, a number or a
    string is a \<open>js_value\<close>.
  \<^item> \<^verbatim>\<open>DrawableCountry\<close> extends \<^verbatim>\<open>CountryData\<close> by \<^verbatim>\<open>percentage\<close>, as a record extension, so
    that the spread \<^verbatim>\<open>{...countryVal, percentage}\<close> is \<open>CountryData.extend\<close>.
  \<^item> The fields of a record are constants of the theory, and the source uses the same
    names for fields of several interfaces, for local variables and for a function
    (\<^verbatim>\<open>extra\<close>, \<^verbatim>\<open>country\<close>, \<^verbatim>\<open>countryName\<close>, \<^verbatim>\<open>value\<close>, \<^verbatim>\<open>id\<close>). So every field carries a
    prefix that names its record: \<open>cd_\<close> for \<^verbatim>\<open>CountryData\<close>, \<open>se_\<close> for \<^verbatim>\<open>SelectionExtra\<close>,
    \<open>sel_\<close> for \<^verbatim>\<open>Selection\<close>, \<open>ev_\<close> for \<^verbatim>\<open>ChartSelectEvent\<close>, \<open>err_\<close> for
    \<^verbatim>\<open>ChartErrorEvent\<close>; \<open>percentage\<close> keeps its name.
\<close>

section \<open>Definitions\<close>

datatype js_value = Undefined | JNumber jsnum | JString string

type_synonym 'v js_object = "(string \<times> 'v) list"

definition wf_object :: "'v js_object \<Rightarrow> bool" where
  "wf_object obj = distinct (map fst obj)"

definition get_prop :: "'v js_object \<Rightarrow> string \<Rightarrow> 'v option" where
  "get_prop obj k = map_of obj k"

type_synonym CountryExtraData = "js_value js_object"

record CountryData =
  cd_value :: js_value
  cd_extra :: "CountryExtraData option"

type_synonym CountriesData = "CountryData js_object"

record DrawableCountry = CountryData +
  percentage :: jsnum

type_synonym DrawableCountries = "string \<rightharpoonup> DrawableCountry"

record SelectionExtra =
  se_key :: string
  se_val :: js_value

record Selection =
  sel_countryId :: string
  sel_countryName :: string
  sel_extra :: "SelectionExtra list option"

record ChartSelectEvent =
  ev_selected :: bool
  ev_value :: "jsnum option"
  ev_country :: string
  ev_extra :: "CountryExtraData option"

datatype ChartErrorCode = Loading

datatype error_id = Code ChartErrorCode | Custom string

record ChartErrorEvent =
  err_id :: error_id
  err_message :: string
  err_detailedMessage :: "string option"

fun error_id_string :: "error_id \<Rightarrow> string" where
  "error_id_string (Code Loading) = ''loading''"
| "error_id_string (Custom s) = s"

section \<open>Objects\<close>

lemma get_prop_Nil [simp]: "get_prop [] k = None"
  by (simp add: get_prop_def)

lemma get_prop_Cons [simp]:
  "get_prop ((k', v) # obj) k = (if k = k' then Some v else get_prop obj k)"
  by (simp add: get_prop_def)

lemma get_prop_Some_mem: "get_prop obj k = Some v \<Longrightarrow> (k, v) \<in> set obj"
  by (simp add: get_prop_def map_of_SomeD)

lemma get_prop_mem: "wf_object obj \<Longrightarrow> (k, v) \<in> set obj \<Longrightarrow> get_prop obj k = Some v"
  by (simp add: get_prop_def wf_object_def)

lemma get_prop_None_iff: "get_prop obj k = None \<longleftrightarrow> k \<notin> fst ` set obj"
  by (simp add: get_prop_def map_of_eq_None_iff)

lemma wf_object_Nil [simp]: "wf_object []"
  by (simp add: wf_object_def)

lemma wf_object_Cons [simp]: "wf_object ((k, v) # obj) \<longleftrightarrow> k \<notin> fst ` set obj \<and> wf_object obj"
  by (simp add: wf_object_def)

section \<open>Records\<close>

lemma extend_fields [simp]:
  "cd_value (CountryData.extend c \<lparr>percentage = p\<rparr>) = cd_value c"
  "cd_extra (CountryData.extend c \<lparr>percentage = p\<rparr>) = cd_extra c"
  "percentage (CountryData.extend c \<lparr>percentage = p\<rparr>) = p"
  by (simp_all add: CountryData.defs)

lemma truncate_extend [simp]:
  "CountryData.truncate (CountryData.extend c \<lparr>percentage = p\<rparr>) = c"
  by (simp add: CountryData.defs)

end
