(* ===== verification/Value_Normalizer.thy ===== *)
theory Value_Normalizer
  imports Data_Types
begin

text \<open>
  The value normaliser: the helpers \<^verbatim>\<open>exists\<close> and \<^verbatim>\<open>countryNum\<close> and the first half of
  \<^verbatim>\<open>initializeMap\<close> (the body of \<^verbatim>\<open>if (data)\<close>), one definition per step of the code:
  \<^item> \<open>scan_step\<close> is the body of the loop over \<^verbatim>\<open>Object.values(data)\<close>, \<open>scan_values\<close> the
    loop, \<open>compute_bounds\<close> the guard around it and the two defaults;
  \<^item> \<open>range_of\<close> is \<^verbatim>\<open>maxVal - minVal || 1\<close>, \<open>percentage_of\<close> the chain of tests that
    gives a country its percentage, \<open>drawable\<close> the record stored for it;
  \<^item> \<open>build_mapData\<close> is the loop over \<^verbatim>\<open>Object.entries(data)\<close> that assigns
    \<^verbatim>\<open>mapData[countryId.toLowerCase()]\<close>, and \<open>normalize\<close> the whole computation of
    \<^verbatim>\<open>mapData\<close> from the inputs, the branch for missing data included.
  The abstract specification is \<open>spec_bounds\<close> (the minimum and maximum of the
  parseable values, 0 and 1 without any), \<open>pct_ok\<close> (a percentage is -1 or within 0
  and 100), \<open>spec_percentage\<close> (the exception marker or the clamped position between the
  bounds) and \<open>spec_normalize\<close> (the resolved map as the finite map of the entries, the
  last entry of a key first). The lemmas show that the scan computes running extrema
  from whatever the inputs supply, that the range is never zero, the percentage on each
  branch, its bounds and monotonicity, and the keys and entries of the resolved map; the
  theorems include the refinement of the specification by the two loops and the number
  that \<open>countryNum\<close> reads from a numeric value.
\<close>

section \<open>Definitions\<close>

definition exists :: "'a option \<Rightarrow> bool" where
  "exists item = (item \<noteq> None)"

definition countryNum :: "'a CountryData_scheme \<Rightarrow> jsnum" where
  "countryNum item =
     (case cd_value item of
        Undefined \<Rightarrow> parseInt ''undefined''
      | JNumber x \<Rightarrow> parseInt_number x
      | JString s \<Rightarrow> parseInt s)"

type_synonym bounds_acc = "jsnum option \<times> jsnum option"

definition scan_step :: "bounds_acc \<Rightarrow> CountryData \<Rightarrow> bounds_acc" where
  "scan_step acc countryVal =
     (let minVal = fst acc; maxVal = snd acc; numVal = countryNum countryVal
      in if \<not> isNaN numVal
         then (if \<not> exists minVal \<or> numVal < the minVal then Some numVal else minVal,
               if \<not> exists maxVal \<or> numVal > the maxVal then Some numVal else maxVal)
         else (minVal, maxVal))"

fun scan_values :: "CountryData list \<Rightarrow> bounds_acc \<Rightarrow> bounds_acc" where
  "scan_values [] acc = acc"
| "scan_values (countryVal # rest) acc = scan_values rest (scan_step acc countryVal)"

definition compute_bounds :: "CountriesData \<Rightarrow> jsnum option \<Rightarrow> jsnum option \<Rightarrow> jsnum \<times> jsnum" where
  "compute_bounds data minValue maxValue =
     (let acc = (if \<not> exists minValue \<or> \<not> exists maxValue
                 then scan_values (map snd data) (minValue, maxValue)
                 else (minValue, maxValue))
      in (nullish (fst acc) 0, nullish (snd acc) 1))"

definition range_of :: "jsnum \<Rightarrow> jsnum \<Rightarrow> jsnum" where
  "range_of minVal maxVal = js_or (maxVal - minVal) 1"

definition percentage_of :: "jsnum \<Rightarrow> jsnum \<Rightarrow> jsnum \<Rightarrow> jsnum \<Rightarrow> jsnum" where
  "percentage_of numVal minVal maxVal range' =
     (if isNaN numVal then - 1
      else if numVal \<le> minVal then 0
      else if numVal \<ge> maxVal then 100
      else ((numVal - minVal) / range') * 100)"

definition drawable :: "jsnum \<Rightarrow> jsnum \<Rightarrow> jsnum \<Rightarrow> CountryData \<Rightarrow> DrawableCountry" where
  "drawable minVal maxVal range' countryVal =
     CountryData.extend countryVal
       \<lparr>percentage = percentage_of (countryNum countryVal) minVal maxVal range'\<rparr>"

fun build_mapData ::
  "jsnum \<Rightarrow> jsnum \<Rightarrow> jsnum \<Rightarrow> CountriesData \<Rightarrow> DrawableCountries \<Rightarrow> DrawableCountries" where
  "build_mapData minVal maxVal range' [] mapData = mapData"
| "build_mapData minVal maxVal range' ((countryId, countryVal) # rest) mapData =
     build_mapData minVal maxVal range' rest
       (mapData(toLowerCase countryId \<mapsto> drawable minVal maxVal range' countryVal))"

definition normalize :: "CountriesData option \<Rightarrow> jsnum option \<Rightarrow> jsnum option \<Rightarrow> DrawableCountries" where
  "normalize data minValue maxValue =
     (case data of
        None \<Rightarrow> Map.empty
      | Some d \<Rightarrow>
          (let bounds = compute_bounds d minValue maxValue;
               minVal = fst bounds; maxVal = snd bounds;
               range' = range_of minVal maxVal
           in build_mapData minVal maxVal range' d Map.empty))"

text \<open>The abstract specification.\<close>

definition parseable :: "CountryData list \<Rightarrow> real list" where
  "parseable vs = List.map_filter (\<lambda>v. case countryNum v of NaN \<Rightarrow> None | Num x \<Rightarrow> Some x) vs"

definition spec_bounds :: "CountriesData \<Rightarrow> jsnum \<times> jsnum" where
  "spec_bounds data =
     (let xs = parseable (map snd data)
      in if xs = [] then (Num 0, Num 1) else (Num (Min (set xs)), Num (Max (set xs))))"

fun run_min :: "jsnum option \<Rightarrow> real list \<Rightarrow> jsnum option" where
  "run_min None [] = None"
| "run_min None (x # xs) = Some (Num (fold min xs x))"
| "run_min (Some NaN) xs = Some NaN"
| "run_min (Some (Num a)) xs = Some (Num (fold min xs a))"

fun run_max :: "jsnum option \<Rightarrow> real list \<Rightarrow> jsnum option" where
  "run_max None [] = None"
| "run_max None (x # xs) = Some (Num (fold max xs x))"
| "run_max (Some NaN) xs = Some NaN"
| "run_max (Some (Num a)) xs = Some (Num (fold max xs a))"

definition pct_ok :: "jsnum \<Rightarrow> bool" where
  "pct_ok p = (case p of NaN \<Rightarrow> False | Num x \<Rightarrow> x = - 1 \<or> (0 \<le> x \<and> x \<le> 100))"

definition clamp_pct :: "real \<Rightarrow> real \<Rightarrow> real \<Rightarrow> real" where
  "clamp_pct x a b = (if x \<le> a then 0 else if b \<le> x then 100 else (x - a) / (b - a) * 100)"

definition spec_percentage :: "jsnum \<Rightarrow> jsnum \<times> jsnum \<Rightarrow> jsnum" where
  "spec_percentage numVal bounds =
     (case (numVal, bounds) of
        (NaN, _) \<Rightarrow> - 1
      | (Num x, Num a, Num b) \<Rightarrow> Num (clamp_pct x a b)
      | _ \<Rightarrow> NaN)"

definition spec_normalize :: "CountriesData \<Rightarrow> jsnum \<times> jsnum \<Rightarrow> DrawableCountries" where
  "spec_normalize d bounds =
     map_of (rev (map (\<lambda>(k, v). (toLowerCase k,
        CountryData.extend v \<lparr>percentage = spec_percentage (countryNum v) bounds\<rparr>)) d))"

definition resolve :: "CountriesData \<Rightarrow> jsnum option \<Rightarrow> jsnum option \<Rightarrow> CountryData \<Rightarrow> DrawableCountry" where
  "resolve d minValue maxValue =
     (let bounds = compute_bounds d minValue maxValue
      in drawable (fst bounds) (snd bounds) (range_of (fst bounds) (snd bounds)))"

definition example_data :: CountriesData where
  "example_data =
     [(''FR'', \<lparr>cd_value = JNumber 10, cd_extra = None\<rparr>),
      (''DE'', \<lparr>cd_value = JNumber 90, cd_extra = None\<rparr>),
      (''It'', \<lparr>cd_value = JString ''30.5'', cd_extra = None\<rparr>),
      (''XX'', \<lparr>cd_value = JString ''n/a'', cd_extra = None\<rparr>)]"

definition finite_bound :: "jsnum option \<Rightarrow> bool" where
  "finite_bound b = (b \<noteq> Some NaN)"

lemmas normalizer_defs [cm_defs] =
  compute_bounds_def range_of_def percentage_of_def drawable_def normalize_def

lemmas normalizer_eval =
  normalizer_defs scan_step_def countryNum_def parseInt_number_def parseInt_def
  digits_val_def char_class_defs case_defs Let_def

section \<open>\<open>exists\<close> and \<open>countryNum\<close>\<close>

lemma exists_simps [simp]:
  "exists None = False"
  "exists (Some x) = True"
  by (simp_all add: exists_def)

lemma exists_is_some: "exists item = is_some item"
  by (simp add: exists_def is_some_iff)

lemma parseInt_undefined [simp]: "parseInt ''undefined'' = NaN"
  by (simp add: parseInt_def js_defs)

lemma countryNum_simps:
  "cd_value item = Undefined \<Longrightarrow> countryNum item = NaN"
  "cd_value item = JNumber x \<Longrightarrow> countryNum item = parseInt_number x"
  "cd_value item = JString s \<Longrightarrow> countryNum item = parseInt s"
  by (simp_all add: countryNum_def)

lemma countryNum_extend [simp]:
  "countryNum (CountryData.extend c \<lparr>percentage = p\<rparr>) = countryNum c"
  by (simp add: countryNum_def)

section \<open>The scan for the bounds\<close>

lemma parseable_Nil [simp]: "parseable [] = []"
  by (simp add: parseable_def map_filter_simps)

lemma parseable_Cons:
  "parseable (v # vs) = (case countryNum v of NaN \<Rightarrow> parseable vs | Num x \<Rightarrow> x # parseable vs)"
  by (simp add: parseable_def map_filter_simps split: jsnum.split)

lemma set_parseable: "set (parseable vs) = {x. \<exists>v \<in> set vs. countryNum v = Num x}"
  by (induction vs) (auto simp: parseable_Cons split: jsnum.splits)

lemma run_min_step: "run_min (run_min mn [x]) xs = run_min mn (x # xs)"
  by (cases "(mn, [x])" rule: run_min.cases) (simp_all add: min.commute)

lemma run_max_step: "run_max (run_max mx [x]) xs = run_max mx (x # xs)"
  by (cases "(mx, [x])" rule: run_max.cases) (simp_all add: max.commute)

lemma run_min_Nil [simp]: "run_min mn [] = mn"
  by (cases "(mn, [] :: real list)" rule: run_min.cases) simp_all

lemma run_max_Nil [simp]: "run_max mx [] = mx"
  by (cases "(mx, [] :: real list)" rule: run_max.cases) simp_all

lemma scan_step_NaN: "countryNum v = NaN \<Longrightarrow> scan_step acc v = acc"
  by (simp add: scan_step_def)

lemma scan_step_Num:
  "countryNum v = Num x \<Longrightarrow> scan_step (mn, mx) v = (run_min mn [x], run_max mx [x])"
proof -
  assume v: "countryNum v = Num x"
  have "(if \<not> exists mn \<or> Num x < the mn then Some (Num x) else mn) = run_min mn [x]"
    by (cases "(mn, [x])" rule: run_min.cases) (auto simp: min_def)
  moreover have "(if \<not> exists mx \<or> the mx < Num x then Some (Num x) else mx) = run_max mx [x]"
    by (cases "(mx, [x])" rule: run_max.cases) (auto simp: max_def)
  ultimately show ?thesis using v by (simp add: scan_step_def)
qed

lemma scan_values_run:
  "scan_values vs (mn, mx) = (run_min mn (parseable vs), run_max mx (parseable vs))"
proof (induction vs arbitrary: mn mx)
  case Nil
  show ?case by simp
next
  case (Cons v vs)
  show ?case
  proof (cases "countryNum v")
    case NaN
    then show ?thesis by (simp add: scan_step_NaN parseable_Cons Cons.IH)
  next
    case (Num x)
    then show ?thesis
      by (simp add: scan_step_Num parseable_Cons Cons.IH run_min_step run_max_step)
  qed
qed

lemma run_min_finite: "finite_bound mn \<Longrightarrow> finite_bound (run_min mn xs)"
  by (cases "(mn, xs)" rule: run_min.cases) (simp_all add: finite_bound_def)

lemma run_max_finite: "finite_bound mx \<Longrightarrow> finite_bound (run_max mx xs)"
  by (cases "(mx, xs)" rule: run_max.cases) (simp_all add: finite_bound_def)

lemma nullish_finite: "finite_bound b \<Longrightarrow> \<not> isNaN d \<Longrightarrow> \<not> isNaN (nullish b d)"
  by (cases b) (simp_all add: finite_bound_def isNaN_iff)

lemma compute_bounds_explicit [simp]:
  "compute_bounds data (Some a) (Some b) = (a, b)"
  by (simp add: compute_bounds_def)

lemma compute_bounds_run:
  "minValue = None \<or> maxValue = None \<Longrightarrow>
   compute_bounds data minValue maxValue =
     (nullish (run_min minValue (parseable (map snd data))) 0,
      nullish (run_max maxValue (parseable (map snd data))) 1)"
  by (auto simp: compute_bounds_def scan_values_run exists_def)

lemma compute_bounds_finite:
  assumes "finite_bound minValue" and "finite_bound maxValue"
  shows "\<not> isNaN (fst (compute_bounds data minValue maxValue))"
    and "\<not> isNaN (snd (compute_bounds data minValue maxValue))"
proof -
  define acc where "acc = (if \<not> exists minValue \<or> \<not> exists maxValue
    then scan_values (map snd data) (minValue, maxValue) else (minValue, maxValue))"
  from assms have "finite_bound (fst acc)" and "finite_bound (snd acc)"
    by (simp_all add: acc_def scan_values_run run_min_finite run_max_finite)
  then have "\<not> isNaN (nullish (fst acc) 0)" and "\<not> isNaN (nullish (snd acc) 1)"
    by (simp_all add: nullish_finite)
  then show "\<not> isNaN (fst (compute_bounds data minValue maxValue))"
    and "\<not> isNaN (snd (compute_bounds data minValue maxValue))"
    unfolding compute_bounds_def Let_def acc_def by simp_all
qed

lemma compute_bounds_spec: "compute_bounds data None None = spec_bounds data"
proof (cases "parseable (map snd data)")
  case Nil
  then show ?thesis by (simp add: compute_bounds_run spec_bounds_def)
next
  case (Cons x xs)
  then show ?thesis
    by (simp add: compute_bounds_run spec_bounds_def fold_min_Min fold_max_Max)
qed

lemma spec_bounds_Num: "\<exists>a b. spec_bounds d = (Num a, Num b)"
  by (simp add: spec_bounds_def Let_def)

section \<open>The range\<close>

lemma range_of_Num: "range_of (Num a) (Num b) = Num (if b = a then 1 else b - a)"
  by (simp add: range_of_def)

lemma range_of_NaN [simp]:
  "range_of NaN maxVal = Num 1"
  "range_of minVal NaN = Num 1"
  by (simp_all add: range_of_def)

lemma range_of_truthy: "\<not> falsy (range_of minVal maxVal)"
  by (cases minVal; cases maxVal) (simp_all add: range_of_def)

lemma range_of_cases:
  obtains r where "range_of minVal maxVal = Num r" and "r \<noteq> 0"
  using range_of_truthy [of minVal maxVal] by (cases "range_of minVal maxVal") simp_all

section \<open>The percentage\<close>

lemma percentage_of_NaN [simp]: "percentage_of NaN minVal maxVal r = Num (- 1)"
  by (simp add: percentage_of_def)

lemma percentage_of_low: "numVal \<le> minVal \<Longrightarrow> percentage_of numVal minVal maxVal r = Num 0"
  by (cases numVal) (simp_all add: percentage_of_def)

lemma percentage_of_high:
  "\<not> numVal \<le> minVal \<Longrightarrow> maxVal \<le> numVal \<Longrightarrow> percentage_of numVal minVal maxVal r = Num 100"
  by (cases numVal) (simp_all add: percentage_of_def)

lemma percentage_of_mid:
  "\<not> isNaN numVal \<Longrightarrow> \<not> numVal \<le> minVal \<Longrightarrow> \<not> maxVal \<le> numVal \<Longrightarrow>
   percentage_of numVal minVal maxVal r = ((numVal - minVal) / r) * 100"
  by (simp add: percentage_of_def)

lemma percentage_of_clamp:
  "percentage_of (Num x) (Num a) (Num b) (range_of (Num a) (Num b)) = Num (clamp_pct x a b)"
  by (auto simp: percentage_of_def range_of_Num clamp_pct_def)

lemma interpolate_interior:
  fixes x a b :: real
  assumes "a < x" and "x < b"
  shows "0 < (x - a) / (b - a) * 100" and "(x - a) / (b - a) * 100 < 100"
proof -
  define t where "t = (x - a) / (b - a)"
  from assms have "0 < t" and "t < 1"
    by (simp_all add: t_def)
  then show "0 < (x - a) / (b - a) * 100" and "(x - a) / (b - a) * 100 < 100"
    unfolding t_def [symmetric] by linarith+
qed

lemma interpolate_mono:
  fixes x y a b :: real
  assumes "a < b" and "x \<le> y"
  shows "(x - a) / (b - a) * 100 \<le> (y - a) / (b - a) * 100"
proof -
  from assms have "(x - a) / (b - a) \<le> (y - a) / (b - a)"
    by (simp add: divide_right_mono)
  then show ?thesis by (rule mult_right_mono) simp
qed

lemma clamp_pct_interior:
  "a < x \<Longrightarrow> x < b \<Longrightarrow> 0 < clamp_pct x a b \<and> clamp_pct x a b < 100"
  using interpolate_interior [of a x b] by (simp add: clamp_pct_def del: times_divide_eq_left)

lemma clamp_pct_bounds: "0 \<le> clamp_pct x a b \<and> clamp_pct x a b \<le> 100"
proof (cases "x \<le> a \<or> b \<le> x")
  case True
  then show ?thesis by (auto simp: clamp_pct_def)
next
  case False
  then have "a < x" "x < b" by auto
  from clamp_pct_interior [OF this] show ?thesis by simp
qed

lemma clamp_pct_mono: "x \<le> y \<Longrightarrow> clamp_pct x a b \<le> clamp_pct y a b"
proof (cases "x \<le> a")
  case True
  then show ?thesis using clamp_pct_bounds [of y a b] by (simp add: clamp_pct_def)
next
  case xa: False
  assume xy: "x \<le> y"
  show ?thesis
  proof (cases "b \<le> y")
    case True
    with xa xy show ?thesis using clamp_pct_bounds [of x a b] by (simp add: clamp_pct_def)
  next
    case False
    with xa xy have "a < b" by auto
    from interpolate_mono [OF this xy] xa xy False show ?thesis
      by (simp add: clamp_pct_def del: times_divide_eq_left)
  qed
qed

lemma clamp_pct_max_min:
  "a < b \<Longrightarrow> clamp_pct x a b = max 0 (min 100 ((x - a) / (b - a) * 100))"
proof -
  assume ab: "a < b"
  define u where "u = (x - a) / (b - a)"
  have eq: "clamp_pct x a b = (if x \<le> a then 0 else if b \<le> x then 100 else u * 100)"
    by (simp add: clamp_pct_def u_def)
  consider "x \<le> a" | "b \<le> x" "a < x" | "a < x" "x < b" by linarith
  then have "clamp_pct x a b = max 0 (min 100 (u * 100))"
  proof cases
    case 1
    with ab have "u \<le> 0"
      by (simp add: divide_le_0_iff u_def)
    with 1 show ?thesis
      unfolding eq by (simp add: max_def min_def)
  next
    case 2
    with ab have "1 \<le> u"
      by (simp add: le_divide_eq u_def)
    with 2 show ?thesis
      unfolding eq by (simp add: max_def min_def)
  next
    case 3
    then have "0 < u" "u < 1"
      by (simp_all add: u_def)
    with 3 show ?thesis
      unfolding eq by (simp add: max_def min_def)
  qed
  then show ?thesis by (simp only: u_def)
qed

lemma percentage_of_exception_iff:
  "percentage_of numVal minVal maxVal (range_of minVal maxVal) = Num (- 1) \<longleftrightarrow> isNaN numVal"
proof (cases numVal)
  case NaN
  then show ?thesis by simp
next
  case (Num x)
  show ?thesis
  proof (cases minVal)
    case NaN
    with Num show ?thesis by (simp add: percentage_of_def)
  next
    case a: (Num a)
    show ?thesis
    proof (cases maxVal)
      case NaN
      with Num a show ?thesis by (simp add: percentage_of_def)
    next
      case b: (Num b)
      from clamp_pct_bounds [of x a b] have "clamp_pct x a b \<noteq> - 1" by linarith
      with Num a b show ?thesis by (simp add: percentage_of_clamp)
    qed
  qed
qed

lemma pct_ok_simps [simp]:
  "pct_ok NaN = False"
  "pct_ok (Num x) \<longleftrightarrow> x = - 1 \<or> (0 \<le> x \<and> x \<le> 100)"
  by (simp_all add: pct_ok_def)

lemma percentage_of_ok:
  "\<not> isNaN minVal \<Longrightarrow> \<not> isNaN maxVal \<Longrightarrow>
   pct_ok (percentage_of numVal minVal maxVal (range_of minVal maxVal))"
proof (cases numVal)
  case NaN
  then show ?thesis by simp
next
  case (Num x)
  assume "\<not> isNaN minVal" and "\<not> isNaN maxVal"
  then obtain a b where "minVal = Num a" "maxVal = Num b"
    by (auto simp: not_isNaN_conv)
  with Num show ?thesis
    using clamp_pct_bounds [of x a b] by (simp add: percentage_of_clamp)
qed

section \<open>The resolved map\<close>

lemma build_mapData_assign:
  "build_mapData minVal maxVal r es m = assign_entries toLowerCase (drawable minVal maxVal r) es m"
  by (induction es arbitrary: m) auto

lemma normalize_None [simp]: "normalize None minValue maxValue = Map.empty"
  by (simp add: normalize_def)

lemma normalize_Some:
  "normalize (Some d) minValue maxValue =
     assign_entries toLowerCase (resolve d minValue maxValue) d Map.empty"
  by (simp add: normalize_def resolve_def Let_def build_mapData_assign)

lemma percentage_resolve:
  "percentage (resolve d minValue maxValue v) =
     percentage_of (countryNum v) (fst (compute_bounds d minValue maxValue))
       (snd (compute_bounds d minValue maxValue))
       (range_of (fst (compute_bounds d minValue maxValue)) (snd (compute_bounds d minValue maxValue)))"
  by (simp add: resolve_def drawable_def Let_def)

lemma truncate_resolve [simp]: "CountryData.truncate (resolve d minValue maxValue v) = v"
  by (simp add: resolve_def drawable_def Let_def)

lemma countryNum_resolve [simp]: "countryNum (resolve d minValue maxValue v) = countryNum v"
  by (simp add: resolve_def drawable_def Let_def)

lemma cd_extra_resolve [simp]: "cd_extra (resolve d minValue maxValue v) = cd_extra v"
  by (simp add: resolve_def drawable_def Let_def)

lemma normalize_entry:
  assumes "normalize data minValue maxValue j = Some dc"
  obtains d k v where "data = Some d" and "(k, v) \<in> set d" and "toLowerCase k = j"
    and "dc = resolve d minValue maxValue v"
proof (cases data)
  case None
  with assms show ?thesis by simp
next
  case (Some d)
  with assms have "assign_entries toLowerCase (resolve d minValue maxValue) d Map.empty j = Some dc"
    by (simp add: normalize_Some)
  from assign_entries_ran [OF this] Some that show ?thesis by auto
qed

lemma normalize_key_lower:
  "normalize data minValue maxValue j = Some dc \<Longrightarrow> toLowerCase j = j"
  by (erule normalize_entry) auto

lemma normalize_lookup:
  assumes "distinct (map (toLowerCase \<circ> fst) d)" and "(k, v) \<in> set d"
  shows "normalize (Some d) minValue maxValue (toLowerCase k) = Some (resolve d minValue maxValue v)"
  using assms by (simp add: normalize_Some assign_entries_inj_lookup)

lemma drawable_spec:
  "drawable (Num a) (Num b) (range_of (Num a) (Num b)) v =
     CountryData.extend v \<lparr>percentage = spec_percentage (countryNum v) (Num a, Num b)\<rparr>"
  by (cases "countryNum v") (simp_all add: drawable_def spec_percentage_def percentage_of_clamp)

lemma normalize_spec:
  assumes "compute_bounds d lo hi = (Num a, Num b)"
  shows "normalize (Some d) lo hi = spec_normalize d (Num a, Num b)"
  using assms
  by (simp add: normalize_Some resolve_def assign_entries_map_of spec_normalize_def drawable_spec)

lemma normalize_None_iff:
  "normalize (Some d) lo hi j = None \<longleftrightarrow> j \<notin> toLowerCase ` fst ` set d"
proof -
  have "normalize (Some d) lo hi j = None \<longleftrightarrow> j \<notin> dom (normalize (Some d) lo hi)"
    by (simp add: domIff)
  then show ?thesis by (simp add: normalize_Some dom_assign_entries)
qed

lemma pct_ok_resolve:
  "finite_bound lo \<Longrightarrow> finite_bound hi \<Longrightarrow> pct_ok (percentage (resolve d lo hi entry))"
  by (simp add: percentage_resolve percentage_of_ok compute_bounds_finite)

lemma exception_resolve:
  "percentage (resolve d lo hi entry) = Num (- 1) \<longleftrightarrow> isNaN (countryNum entry)"
  by (simp add: percentage_resolve percentage_of_exception_iff)

text \<open>C1: Every record of the resolved map has a percentage that is the exception marker
  -1 or lies within 0 and 100, whatever the data, provided an explicit bound is not
  \<open>NaN\<close>.\<close>

theorem normalize_percentage_range:
  assumes "finite_bound minValue" and "finite_bound maxValue"
    and "normalize data minValue maxValue j = Some dc"
  shows "pct_ok (percentage dc)"
  using assms(3)
proof (rule normalize_entry)
  fix d k v
  assume "dc = resolve d minValue maxValue v"
  with compute_bounds_finite [OF assms(1,2), of d] show ?thesis
    by (simp add: percentage_resolve percentage_of_ok)
qed

theorem normalize_percentage_range_witness:
  "finite_bound None \<and> finite_bound (Some (Num 100)) \<and>
   normalize (Some example_data) None (Some (Num 100)) ''it'' =
     Some (CountryData.extend \<lparr>cd_value = JString ''30.5'', cd_extra = None\<rparr> \<lparr>percentage = Num (200 / 9)\<rparr>) \<and>
   pct_ok (Num (200 / 9))"
proof -
  have f: "finite_bound None" "finite_bound (Some (Num 100))"
    by (simp_all add: finite_bound_def)
  have n: "normalize (Some example_data) None (Some (Num 100)) ''it'' =
     Some (CountryData.extend \<lparr>cd_value = JString ''30.5'', cd_extra = None\<rparr> \<lparr>percentage = Num (200 / 9)\<rparr>)"
    by (simp add: example_data_def normalizer_eval)
  from normalize_percentage_range [OF f n] f n show ?thesis by simp
qed

text \<open>C4: The loop that fills the resolved map implements the specification of the
  normaliser: the resolved map is the finite map that sends every lower-cased country code to
  the record of the last entry with that code, extended by the percentage of the
  specification (-1 for a value that does not parse, otherwise the position of the value
  between the bounds, clamped to 0 and 100). The bounds are the minimum and the maximum of
  the values that parse (0 and 1 when none parses) when neither bound is supplied, and the
  supplied bounds when both are.\<close>

theorem normalize_reference:
  "normalize (Some d) None None = spec_normalize d (spec_bounds d) \<and>
   normalize (Some d) (Some (Num a)) (Some (Num b)) = spec_normalize d (Num a, Num b)"
  using spec_bounds_Num [of d] by (auto simp: normalize_spec compute_bounds_spec)

text \<open>C37: The range that the percentages are divided by is never zero and never
  \<open>NaN\<close>, whatever the bounds: \<^verbatim>\<open>maxVal - minVal || 1\<close> replaces both by 1. So the
  division of the interpolation is defined for every finite value.\<close>

theorem range_nonzero:
  "range_of minVal maxVal \<noteq> NaN \<and> range_of minVal maxVal \<noteq> Num 0 \<and>
   \<not> isNaN (Num x / range_of minVal maxVal)"
  by (rule range_of_cases [of minVal maxVal]) simp

text \<open>C19: A resolved record carries the exception marker -1 exactly when the value of
  its country does not parse as a number; a value that parses never yields -1.\<close>

theorem normalize_exception_iff:
  assumes "normalize data minValue maxValue j = Some dc"
  shows "percentage dc = Num (- 1) \<longleftrightarrow> isNaN (countryNum dc)"
  using assms
  by (rule normalize_entry) (simp add: percentage_resolve percentage_of_exception_iff)

theorem normalize_exception_iff_witness:
  "map_option percentage (normalize (Some example_data) None None ''xx'') = Some (Num (- 1)) \<and>
   map_option (\<lambda>dc. isNaN (countryNum dc)) (normalize (Some example_data) None None ''xx'') = Some True"
proof -
  let ?dc = "CountryData.extend \<lparr>cd_value = JString ''n/a'', cd_extra = None\<rparr> \<lparr>percentage = Num (- 1)\<rparr>"
  have n: "normalize (Some example_data) None None ''xx'' = Some ?dc"
    by (simp add: example_data_def normalizer_eval)
  from normalize_exception_iff [OF n] n show ?thesis by simp
qed

text \<open>The keys of the resolved map are exactly the lower-cased country codes of the
  data: every input country has an entry and nothing else has.\<close>

lemma normalize_keys:
  "dom (normalize (Some d) minValue maxValue) = toLowerCase ` fst ` set d"
  by (simp add: normalize_Some dom_assign_entries)

text \<open>C15: The join is insensitive to case: when no two country codes of the data agree
  up to case, a code written in any case finds, under its lower-cased form, the record
  resolved from that country's data.\<close>

theorem normalize_case_insensitive:
  assumes "distinct (map (toLowerCase \<circ> fst) d)" and "(k, v) \<in> set d"
    and "toUpperCase k' = toUpperCase k"
  shows "normalize (Some d) minValue maxValue (toLowerCase k') = Some (resolve d minValue maxValue v)"
proof -
  from assms(3) have "toLowerCase k' = toLowerCase k"
    by (simp add: same_lower_same_upper)
  with normalize_lookup [OF assms(1,2)] show ?thesis by simp
qed

theorem normalize_case_insensitive_witness:
  "distinct (map (toLowerCase \<circ> fst) example_data) \<and>
   (''It'', \<lparr>cd_value = JString ''30.5'', cd_extra = None\<rparr>) \<in> set example_data \<and>
   toUpperCase ''iT'' = toUpperCase ''It'' \<and>
   normalize (Some example_data) None None (toLowerCase ''iT'') =
     Some (resolve example_data None None \<lparr>cd_value = JString ''30.5'', cd_extra = None\<rparr>)"
proof -
  have a: "distinct (map (toLowerCase \<circ> fst) example_data)"
    by (simp add: example_data_def case_defs char_class_defs)
  have b: "(''It'', \<lparr>cd_value = JString ''30.5'', cd_extra = None\<rparr>) \<in> set example_data"
    by (simp add: example_data_def)
  have c: "toUpperCase ''iT'' = toUpperCase ''It''"
    by (simp add: case_defs char_class_defs)
  from normalize_case_insensitive [OF a b c] a b c show ?thesis by simp
qed

text \<open>C25: When only one of the two bounds is supplied, the scan runs with the supplied
  bound as its starting value, so the data can move it: a supplied minimum becomes the
  least of itself and the parseable values, a supplied maximum the greatest. The
  supplied bound is kept as it is only when both are supplied.\<close>

theorem one_sided_bound_widened:
  "fst (compute_bounds data (Some (Num a)) None) = Num (Min (insert a (set (parseable (map snd data))))) \<and>
   snd (compute_bounds data None (Some (Num b))) = Num (Max (insert b (set (parseable (map snd data))))) \<and>
   compute_bounds data (Some (Num a)) (Some (Num b)) = (Num a, Num b)"
  by (simp add: compute_bounds_run fold_min_Min fold_max_Max)

text \<open>C35: For finite bounds the percentage does not decrease when the value grows.\<close>

theorem percentage_monotone:
  assumes "Num x \<le> Num y"
  shows "percentage_of (Num x) (Num a) (Num b) (range_of (Num a) (Num b))
       \<le> percentage_of (Num y) (Num a) (Num b) (range_of (Num a) (Num b))"
  using assms by (simp add: percentage_of_clamp clamp_pct_mono)

theorem percentage_monotone_witness:
  "Num 30 \<le> Num 50 \<and>
   percentage_of (Num 30) (Num 10) (Num 90) (range_of (Num 10) (Num 90))
     \<le> percentage_of (Num 50) (Num 10) (Num 90) (range_of (Num 10) (Num 90))"
proof -
  have h: "Num 30 \<le> Num 50" by simp
  from percentage_monotone [OF h, of 10 90] h show ?thesis by simp
qed

text \<open>C36: With equal bounds (one parseable value, or all equal, or equal explicit bounds)
  the range is replaced by 1 and every parseable value resolves to 0 or to 100: 0 up to
  the bound, 100 above it. A value equal to both bounds resolves to 0.\<close>

theorem degenerate_range:
  "range_of (Num a) (Num a) = Num 1 \<and>
   percentage_of (Num x) (Num a) (Num a) (range_of (Num a) (Num a)) = (if x \<le> a then Num 0 else Num 100)"
  by (simp add: range_of_Num percentage_of_def)





end
