(* ===== verification/Svg_Dom.thy ===== *)
theory Svg_Dom
  imports Data_Types
begin

text \<open>
  The part of the document the component reads and writes, as far as it uses it. The
  document itself (the static SVG template of \<^verbatim>\<open>base-map.component.ts\<close>) and the DOM
  interfaces are not among the sources; they are modelled from the specification (a
  background element and one element per country, each with an identifier and a marker
  class) and from the calls the component makes.
  \<^item> An element is a tree node with its own data (\<open>attrs\<close>: id, class list, inline style,
    the two pointer handlers) and the list of its child elements. A node is referred to
    by its path from a root, the list of child indices: a path is what a JavaScript
    reference to a node of that tree is.
  \<^item> \<open>get_at\<close> and \<open>update_at\<close> read and mutate the node behind a path;
    \<open>querySelectorAll\<close> lists the paths of the proper descendants that carry a class,
    in document order; \<open>forEach_at\<close> runs a mutation over a list of paths, as
    \<^verbatim>\<open>NodeList.forEach\<close> with a callback that mutates its item.
  \<^item> Of the inline style only the four properties the component writes are kept. The
    fill is \<open>Unset\<close>, a colour given by the host, or the three parts of the
    \<^verbatim>\<open>color-mix(in oklch, max p%, min)\<close> text: the text itself is not built.
  \<^item> A handler is the bound call it stands for: \<open>CountryHover h\<close> on an element is
    \<^verbatim>\<open>this.countryHover.bind(this, item, h)\<close> for that element.
  \<^item> \<open>node\<close> is what the walk towards the root of \<^verbatim>\<open>onMapSelect\<close> can meet: an element,
    or the document, which has no class list.
  The lemmas give the effect of \<open>update_at\<close> and \<open>forEach_at\<close> on the data of every
  node (\<open>attrs_at\<close>), the set of paths \<open>querySelectorAll\<close> returns, and extensionality:
  two trees with the same data at every path are equal.
\<close>

section \<open>Definitions\<close>

datatype css_value = Unset | Plain string | ColorMix string jsnum string

record style =
  st_fill :: css_value
  st_stroke :: string
  st_strokeWidth :: string
  st_backgroundColor :: string

datatype handler = CountryHover bool

record attrs =
  at_id :: string
  at_classList :: "string list"
  at_style :: style
  at_onmouseenter :: "handler option"
  at_onmouseleave :: "handler option"

datatype element = Element (attrs: attrs) (children: "element list")

datatype node = ElementNode attrs | DocumentNode

type_synonym path = "nat list"

definition has_class :: "string \<Rightarrow> attrs \<Rightarrow> bool" where
  "has_class cls a = (cls \<in> set (at_classList a))"

definition map_attrs :: "(attrs \<Rightarrow> attrs) \<Rightarrow> element \<Rightarrow> element" where
  "map_attrs g e = Element (g (attrs e)) (children e)"

fun get_at :: "element \<Rightarrow> path \<Rightarrow> element option" where
  "get_at e [] = Some e"
| "get_at e (i # p) = (if i < length (children e) then get_at (children e ! i) p else None)"

definition attrs_at :: "element \<Rightarrow> path \<Rightarrow> attrs option" where
  "attrs_at e p = map_option attrs (get_at e p)"

fun update_at :: "path \<Rightarrow> (element \<Rightarrow> element) \<Rightarrow> element \<Rightarrow> element" where
  "update_at [] f e = f e"
| "update_at (i # p) f e =
     (if i < length (children e)
      then Element (attrs e) ((children e)[i := update_at p f (children e ! i)])
      else e)"

fun descendant_paths :: "element \<Rightarrow> path list"
  and child_paths :: "nat \<Rightarrow> element list \<Rightarrow> path list" where
  "descendant_paths (Element a cs) = child_paths 0 cs"
| "child_paths i [] = []"
| "child_paths i (c # cs) = ([i] # map ((#) i) (descendant_paths c)) @ child_paths (Suc i) cs"

definition querySelectorAll :: "string \<Rightarrow> element \<Rightarrow> path list" where
  "querySelectorAll cls e =
     filter (\<lambda>p. case attrs_at e p of None \<Rightarrow> False | Some a \<Rightarrow> has_class cls a) (descendant_paths e)"

fun forEach_at :: "path list \<Rightarrow> (element \<Rightarrow> element) \<Rightarrow> element \<Rightarrow> element" where
  "forEach_at [] f e = e"
| "forEach_at (p # ps) f e = forEach_at ps f (update_at p f e)"

fun elements_along :: "element \<Rightarrow> path \<Rightarrow> element list" where
  "elements_along e [] = [e]"
| "elements_along e (i # p) =
     e # (if i < length (children e) then elements_along (children e ! i) p else [])"

definition firstChild :: "element \<Rightarrow> element option" where
  "firstChild e = (case children e of [] \<Rightarrow> None | c # cs \<Rightarrow> Some c)"

definition leaf :: "attrs \<Rightarrow> element" where
  "leaf a = Element a []"

definition plain_attrs :: "string \<Rightarrow> string list \<Rightarrow> attrs" where
  "plain_attrs i cl =
     \<lparr>at_id = i, at_classList = cl,
      at_style = \<lparr>st_fill = Unset, st_stroke = [], st_strokeWidth = [], st_backgroundColor = []\<rparr>,
      at_onmouseenter = None, at_onmouseleave = None\<rparr>"

section \<open>Reading a node\<close>

lemma attrs_at_Nil [simp]: "attrs_at e [] = Some (attrs e)"
  by (simp add: attrs_at_def)

lemma attrs_at_Cons:
  "attrs_at e (i # p) = (if i < length (children e) then attrs_at (children e ! i) p else None)"
  by (simp add: attrs_at_def)

lemma attrs_at_Element [simp]:
  "attrs_at (Element a cs) (i # p) = (if i < length cs then attrs_at (cs ! i) p else None)"
  by (simp add: attrs_at_Cons)

lemma get_at_append:
  "get_at e (p @ q) = (case get_at e p of None \<Rightarrow> None | Some x \<Rightarrow> get_at x q)"
  by (induction p arbitrary: e) auto

lemma attrs_at_append:
  "attrs_at e (p @ q) = (case get_at e p of None \<Rightarrow> None | Some x \<Rightarrow> attrs_at x q)"
  by (simp add: attrs_at_def get_at_append split: option.split)

lemma attrs_at_None_iff: "attrs_at e p = None \<longleftrightarrow> get_at e p = None"
  by (simp add: attrs_at_def)

lemma attrs_map_attrs [simp]: "attrs (map_attrs g e) = g (attrs e)"
  by (simp add: map_attrs_def)

lemma children_map_attrs [simp]: "children (map_attrs g e) = children e"
  by (simp add: map_attrs_def)

lemma attrs_at_map_attrs:
  "attrs_at (map_attrs g e) p = (if p = [] then Some (g (attrs e)) else attrs_at e p)"
  by (cases p) (simp_all add: attrs_at_Cons)

text \<open>Extensionality: a tree is determined by the data at its paths.\<close>

lemma element_eqI:
  "(\<And>p. attrs_at a p = attrs_at b p) \<Longrightarrow> a = b"
proof (induction a arbitrary: b)
  case (Element x cs)
  obtain y ds where b: "b = Element y ds" by (cases b)
  from Element.prems [of "[]"] b have xy: "x = y" by simp
  have len: "length cs = length ds"
  proof (rule ccontr)
    assume "length cs \<noteq> length ds"
    then consider "length cs < length ds" | "length ds < length cs" by linarith
    then show False
    proof cases
      case 1
      with Element.prems [of "[length cs]"] b show False by simp
    next
      case 2
      with Element.prems [of "[length ds]"] b show False by simp
    qed
  qed
  have "cs ! i = ds ! i" if i: "i < length cs" for i
  proof (rule Element.IH)
    from i show "cs ! i \<in> set cs" by simp
  next
    fix p
    from Element.prems [of "i # p"] b i len show "attrs_at (cs ! i) p = attrs_at (ds ! i) p"
      by simp
  qed
  with len have "cs = ds" by (simp add: list_eq_iff_nth_eq)
  with xy b show ?case by simp
qed

section \<open>Mutating a node\<close>

lemma children_update_at_length [simp]:
  "length (children (update_at (i # p) f e)) = length (children e)"
  by simp

lemma attrs_at_update_at:
  "attrs_at (update_at q (map_attrs g) e) p =
     (if p = q then map_option g (attrs_at e p) else attrs_at e p)"
proof (induction q arbitrary: e p)
  case Nil
  show ?case by (simp add: attrs_at_map_attrs)
next
  case (Cons i q)
  show ?case
  proof (cases p)
    case Nil
    then show ?thesis by simp
  next
    case p: (Cons j p')
    show ?thesis
    proof (cases "i < length (children e)")
      case False
      with p show ?thesis by (auto simp: attrs_at_Cons)
    next
      case True
      with p Cons.IH [of "children e ! i" p'] show ?thesis
        by (auto simp: attrs_at_Cons nth_list_update)
    qed
  qed
qed

lemma update_at_append: "update_at (p @ q) f e = update_at p (update_at q f) e"
  by (induction p arbitrary: e) simp_all

lemma update_at_id: "update_at p (\<lambda>x. x) e = e"
proof (induction p arbitrary: e)
  case Nil
  show ?case by simp
next
  case (Cons i p)
  then show ?case by (cases e) (simp add: list_update_same_conv)
qed

lemma attrs_at_forEach_at:
  assumes "distinct ps"
  shows "attrs_at (forEach_at ps (map_attrs g) e) p =
     (if p \<in> set ps then map_option g (attrs_at e p) else attrs_at e p)"
  using assms
proof (induction ps arbitrary: e)
  case Nil
  show ?case by simp
next
  case (Cons q ps)
  then show ?case by (auto simp: attrs_at_update_at)
qed

lemma get_at_None_forEach_at:
  "attrs_at (forEach_at ps (map_attrs g) e) p = None \<longleftrightarrow> attrs_at e p = None"
proof (induction ps arbitrary: e)
  case Nil
  show ?case by simp
next
  case (Cons q ps)
  then show ?case by (simp add: attrs_at_update_at)
qed

section \<open>The paths of the descendants\<close>

lemma descendant_paths_children: "descendant_paths e = child_paths 0 (children e)"
  by (cases e) simp

lemma child_paths_D:
  "p \<in> set (child_paths i cs) \<Longrightarrow>
   \<exists>j q. p = (i + j) # q \<and> j < length cs \<and> (q = [] \<or> q \<in> set (descendant_paths (cs ! j)))"
proof (induction cs arbitrary: i)
  case Nil
  then show ?case by simp
next
  case (Cons c cs)
  from Cons.prems consider "p = [i]" | q where "p = i # q" "q \<in> set (descendant_paths c)"
    | "p \<in> set (child_paths (Suc i) cs)"
    by auto
  then show ?case
  proof cases
    case 1
    then show ?thesis by (auto intro: exI [of _ 0])
  next
    case 2
    then show ?thesis by (auto intro: exI [of _ 0])
  next
    case 3
    from Cons.IH [OF this] obtain j q where "p = (Suc i + j) # q" "j < length cs"
      "q = [] \<or> q \<in> set (descendant_paths (cs ! j))"
      by blast
    then show ?thesis by (auto intro!: exI [of _ "Suc j"])
  qed
qed

lemma child_paths_I:
  assumes "j < length cs" and "q = [] \<or> q \<in> set (descendant_paths (cs ! j))"
  shows "(i + j) # q \<in> set (child_paths i cs)"
  using assms
proof (induction cs arbitrary: i j)
  case Nil
  then show ?case by simp
next
  case (Cons c cs)
  show ?case
  proof (cases j)
    case 0
    with Cons.prems show ?thesis by auto
  next
    case (Suc j')
    with Cons.prems Cons.IH [of j' "Suc i"] show ?thesis by simp
  qed
qed

lemma set_child_paths:
  "set (child_paths i cs) =
     {p. \<exists>j q. p = (i + j) # q \<and> j < length cs \<and> (q = [] \<or> q \<in> set (descendant_paths (cs ! j)))}"
  by (auto dest: child_paths_D intro: child_paths_I)

lemma set_descendant_paths: "set (descendant_paths e) = {p. p \<noteq> [] \<and> get_at e p \<noteq> None}"
proof (induction e)
  case (Element a cs)
  show ?case
  proof (rule set_eqI)
    fix p
    show "p \<in> set (descendant_paths (Element a cs)) \<longleftrightarrow>
      p \<in> {p. p \<noteq> [] \<and> get_at (Element a cs) p \<noteq> None}"
    proof (cases p)
      case Nil
      then show ?thesis by (auto simp: set_child_paths)
    next
      case (Cons j q)
      show ?thesis
      proof (cases "j < length cs")
        case False
        with Cons show ?thesis by (auto simp: set_child_paths)
      next
        case True
        then have "cs ! j \<in> set cs" by simp
        from Element.IH [OF this] True Cons show ?thesis
          by (cases q) (auto simp: set_child_paths)
      qed
    qed
  qed
qed

lemma distinct_child_paths:
  "(\<And>c. c \<in> set cs \<Longrightarrow> distinct (descendant_paths c)) \<Longrightarrow> distinct (child_paths i cs)"
proof (induction cs arbitrary: i)
  case Nil
  show ?case by simp
next
  case (Cons c cs)
  have "i < hd p" if "p \<in> set (child_paths (Suc i) cs)" for p
    using that by (auto simp: set_child_paths)
  then have "set ([i] # map ((#) i) (descendant_paths c)) \<inter> set (child_paths (Suc i) cs) = {}"
    by fastforce
  moreover have "distinct ([i] # map ((#) i) (descendant_paths c))"
    using Cons.prems [of c] by (auto simp: distinct_map set_descendant_paths)
  moreover have "distinct (child_paths (Suc i) cs)"
    using Cons.prems by (intro Cons.IH) simp
  ultimately show ?case by simp
qed

lemma distinct_descendant_paths: "distinct (descendant_paths e)"
  by (induction e) (simp add: distinct_child_paths)

lemma set_querySelectorAll:
  "set (querySelectorAll cls e) = {p. p \<noteq> [] \<and> (\<exists>a. attrs_at e p = Some a \<and> has_class cls a)}"
  by (auto simp: querySelectorAll_def set_descendant_paths attrs_at_def split: option.splits)

lemma distinct_querySelectorAll [simp]: "distinct (querySelectorAll cls e)"
  by (simp add: querySelectorAll_def distinct_descendant_paths)

lemma Nil_notin_querySelectorAll [simp]: "[] \<notin> set (querySelectorAll cls e)"
  by (simp add: set_querySelectorAll)

lemma attrs_forEach_at:
  "distinct ps \<Longrightarrow> attrs (forEach_at ps (map_attrs g) e) = (if [] \<in> set ps then g (attrs e) else attrs e)"
  using attrs_at_forEach_at [of ps g e "[]"] by (auto split: if_splits)

lemma attrs_forEach_querySelectorAll [simp]:
  "attrs (forEach_at (querySelectorAll cls e') (map_attrs g) e) = attrs e"
  by (simp add: attrs_forEach_at)

lemma attrs_at_update_at_sub:
  "attrs_at (update_at p f e) q =
     (case get_at e p of
        None \<Rightarrow> attrs_at e q
      | Some x \<Rightarrow> if take (length p) q = p then attrs_at (f x) (drop (length p) q) else attrs_at e q)"
proof (induction p arbitrary: e q)
  case Nil
  show ?case by simp
next
  case (Cons i p)
  show ?case
  proof (cases q)
    case Nil
    then show ?thesis by (simp split: option.split)
  next
    case q: (Cons j q')
    show ?thesis
    proof (cases "i < length (children e)")
      case False
      with q show ?thesis by (simp add: attrs_at_Cons)
    next
      case True
      with q Cons.IH [of "children e ! i" q'] show ?thesis
        by (auto simp: attrs_at_Cons nth_list_update split: option.splits)
    qed
  qed
qed

lemma get_at_update_at_same: "get_at (update_at p f e) p = map_option f (get_at e p)"
  by (induction p arbitrary: e) (auto simp: nth_list_update)

lemma firstChild_Some_iff:
  "firstChild e = Some x \<longleftrightarrow> children e \<noteq> [] \<and> get_at e [0] = Some x"
  by (cases "children e") (auto simp: firstChild_def)

lemma firstChild_update_at_0: "firstChild (update_at [0] f e) = map_option f (firstChild e)"
  by (cases e; cases "children e") (auto simp: firstChild_def)

end
