(* ===== verification/Component_State.thy ===== *)
theory Component_State
  imports Value_Normalizer Svg_Dom
begin

text \<open>
  The state of \<^verbatim>\<open>CountriesMapComponent\<close>: one record with a field per member of the
  class, under the member's name.
  \<^item> The inputs (\<open>data\<close> to \<open>exceptionColor\<close>) are what the host last supplied; \<open>data\<close>
    is optional because \<^verbatim>\<open>initializeMap\<close> tests it.
  \<^item> \<open>mapContent\<close> is the view child: absent before the view exists, otherwise the host
    element of the base map (its first child is the SVG root), the ancestors of that
    element and whether they end in the document.
  \<^item> \<open>loading\<close>, \<open>selection\<close> and \<open>mapData\<close> are the component's own state.
  \<^item> An output is what it has emitted: \<open>emitted\<close> lists the events of \<^verbatim>\<open>chartReady\<close>,
    \<^verbatim>\<open>chartError\<close> and \<^verbatim>\<open>chartSelect\<close>, oldest first.
  \<^item> \<open>getName\<close> is the lookup of the \<^verbatim>\<open>country-list\<close> package, a function the component
    only calls; it is carried in the record so that the operations can call it.
  \<open>init_component\<close> is the state after the field initialisers have run, \<open>onChartReady\<close>
  and \<open>onChartError\<close> are the two emitters, and \<open>js_error\<close> names the exceptions the
  operations can raise.
\<close>

section \<open>Definitions\<close>

datatype js_error = TypeError | ViewChildMissing

record view =
  host :: element
  above :: "attrs list"
  attached :: bool

datatype out_event = ChartReady | ChartError ChartErrorEvent | ChartSelect ChartSelectEvent

record component =
  data :: "CountriesData option"
  countryLabel :: string
  valueLabel :: string
  showCaption :: bool
  captionBelow :: bool
  minValue :: "jsnum option"
  maxValue :: "jsnum option"
  minColor :: string
  maxColor :: string
  backgroundColor :: string
  noDataColor :: string
  exceptionColor :: string
  mapContent :: "view option"
  loading :: bool
  selection :: "Selection option"
  mapData :: DrawableCountries
  emitted :: "out_event list"
  getName :: "string \<Rightarrow> string option"

definition init_component :: "CountriesData option \<Rightarrow> (string \<Rightarrow> string option) \<Rightarrow> component" where
  "init_component d gn =
     \<lparr>data = d, countryLabel = ''Country'', valueLabel = ''Value'',
      showCaption = True, captionBelow = True,
      minValue = None, maxValue = None,
      minColor = ''oklch(100% 0 0)'', maxColor = ''oklch(55% 0.25 25)'',
      backgroundColor = ''white'', noDataColor = ''#CFCFCF'', exceptionColor = ''#FFEE58'',
      mapContent = None, loading = True, selection = None, mapData = Map.empty,
      emitted = [], getName = gn\<rparr>"

definition emit :: "out_event \<Rightarrow> component \<Rightarrow> component" where
  "emit ev c = c\<lparr>emitted := emitted c @ [ev]\<rparr>"

definition onChartReady :: "component \<Rightarrow> component" where
  "onChartReady c = emit ChartReady (c\<lparr>loading := False\<rparr>)"

definition onChartError :: "ChartErrorEvent \<Rightarrow> component \<Rightarrow> component" where
  "onChartError error c = emit (ChartError error) c"

lemmas state_defs [cm_defs] = emit_def onChartReady_def onChartError_def

section \<open>The emitters\<close>

lemma emitted_emit [simp]: "emitted (emit ev c) = emitted c @ [ev]"
  by (simp add: emit_def)

lemma emit_frame [simp]:
  "loading (emit ev c) = loading c"
  "selection (emit ev c) = selection c"
  "mapData (emit ev c) = mapData c"
  "mapContent (emit ev c) = mapContent c"
  "data (emit ev c) = data c"
  "minValue (emit ev c) = minValue c"
  "maxValue (emit ev c) = maxValue c"
  "getName (emit ev c) = getName c"
  by (simp_all add: emit_def)

lemma onChartReady_simps [simp]:
  "loading (onChartReady c) = False"
  "emitted (onChartReady c) = emitted c @ [ChartReady]"
  "selection (onChartReady c) = selection c"
  "mapData (onChartReady c) = mapData c"
  "mapContent (onChartReady c) = mapContent c"
  "data (onChartReady c) = data c"
  "minValue (onChartReady c) = minValue c"
  "maxValue (onChartReady c) = maxValue c"
  by (simp_all add: onChartReady_def)

lemma onChartError_simps [simp]:
  "loading (onChartError e c) = loading c"
  "emitted (onChartError e c) = emitted c @ [ChartError e]"
  "selection (onChartError e c) = selection c"
  "mapData (onChartError e c) = mapData c"
  "mapContent (onChartError e c) = mapContent c"
  "data (onChartError e c) = data c"
  "minValue (onChartError e c) = minValue c"
  "maxValue (onChartError e c) = maxValue c"
  by (simp_all add: onChartError_def)

end
