(* ===== verification/Render_Binder.thy ===== *)
theory Render_Binder
  imports Component_State
begin

text \<open>
  The render binder: the constants and the two stroke helpers of the module, the second
  half of \<^verbatim>\<open>initializeMap\<close> (from \<^verbatim>\<open>mapEl.children[0]\<close> to the end of the \<^verbatim>\<open>forEach\<close>) and
  \<^verbatim>\<open>countryHover\<close>.
  \<^item> \<open>fill_of\<close> is the choice of the fill of one country element (\<^verbatim>\<open>mapItem\<close>,
    \<^verbatim>\<open>isException\<close>, \<^verbatim>\<open>hasData\<close> and the three branches), \<open>bind_item\<close> the whole callback of
    the \<^verbatim>\<open>forEach\<close>: the fill and the two handlers.
  \<^item> \<open>render\<close> takes the host element of the base map: its first child is the SVG root,
    and reading the style of a missing child is the \<open>TypeError\<close> that the \<^verbatim>\<open>try\<close> of
    \<^verbatim>\<open>initializeMap\<close> catches. It sets the background colour and binds every element with
    the country class.
  \<^item> \<open>countryHover\<close> sets the stroke of an element and of its descendants with the land
    class; \<open>fire\<close> dispatches a pointer event to the element at a path, that is, runs
    the handler installed there, if any.
  The lemmas give the data of every node after \<open>render\<close> and after \<open>countryHover\<close>
  (which nodes change, and to what), from which the theorems on the fill policy, on what
  a render leaves alone and on hovering follow.
\<close>

section \<open>Definitions\<close>

definition COUNTRY_CLASS :: string where
  "COUNTRY_CLASS = ''countryxx''"

definition OCEAN_ID :: string where
  "OCEAN_ID = ''ocean''"

definition LAND_CLASS :: string where
  "LAND_CLASS = ''landxx''"

definition getStrokeWidth :: "bool \<Rightarrow> string" where
  "getStrokeWidth isHovered = (if isHovered then ''0.2%'' else ''0.1%'')"

definition getStrokeColor :: "bool \<Rightarrow> string" where
  "getStrokeColor isHovered = (if isHovered then ''#888'' else ''#afafaf'')"

definition fill_of :: "component \<Rightarrow> attrs \<Rightarrow> css_value" where
  "fill_of c item =
     (let mapItem = mapData c (toLowerCase (at_id item));
          isException = (case mapItem of None \<Rightarrow> False | Some m \<Rightarrow> percentage m < 0);
          hasData = (case mapItem of None \<Rightarrow> False | Some m \<Rightarrow> percentage m \<ge> 0)
      in if isException then Plain (exceptionColor c)
         else if hasData then ColorMix (maxColor c) (percentage (the mapItem)) (minColor c)
         else Plain (noDataColor c))"

definition bind_item :: "component \<Rightarrow> attrs \<Rightarrow> attrs" where
  "bind_item c item =
     item\<lparr>at_style := (at_style item)\<lparr>st_fill := fill_of c item\<rparr>,
          at_onmouseenter := Some (CountryHover True),
          at_onmouseleave := Some (CountryHover False)\<rparr>"

definition set_background :: "string \<Rightarrow> attrs \<Rightarrow> attrs" where
  "set_background col a = a\<lparr>at_style := (at_style a)\<lparr>st_backgroundColor := col\<rparr>\<rparr>"

definition render_svg :: "component \<Rightarrow> element \<Rightarrow> element" where
  "render_svg c svgMap =
     (let svgMap' = map_attrs (set_background (backgroundColor c)) svgMap
      in forEach_at (querySelectorAll COUNTRY_CLASS svgMap') (map_attrs (bind_item c)) svgMap')"

definition render :: "component \<Rightarrow> element \<Rightarrow> js_error + element" where
  "render c mapEl =
     (case firstChild mapEl of
        None \<Rightarrow> Inl TypeError
      | Some svgMap \<Rightarrow> Inr (update_at [0] (render_svg c) mapEl))"

definition set_stroke :: "bool \<Rightarrow> attrs \<Rightarrow> attrs" where
  "set_stroke hovered a =
     a\<lparr>at_style := (at_style a)\<lparr>st_strokeWidth := getStrokeWidth hovered,
                                 st_stroke := getStrokeColor hovered\<rparr>\<rparr>"

definition countryHover :: "element \<Rightarrow> bool \<Rightarrow> element" where
  "countryHover item hovered =
     (let item' = map_attrs (set_stroke hovered) item
      in forEach_at (querySelectorAll LAND_CLASS item') (map_attrs (set_stroke hovered)) item')"

datatype pointer = MouseEnter | MouseLeave

definition handler_of :: "pointer \<Rightarrow> attrs \<Rightarrow> handler option" where
  "handler_of ev a = (case ev of MouseEnter \<Rightarrow> at_onmouseenter a | MouseLeave \<Rightarrow> at_onmouseleave a)"

definition fire :: "pointer \<Rightarrow> path \<Rightarrow> element \<Rightarrow> element" where
  "fire ev p svg =
     (case attrs_at svg p of
        None \<Rightarrow> svg
      | Some a \<Rightarrow>
          (case handler_of ev a of
             None \<Rightarrow> svg
           | Some (CountryHover hovered) \<Rightarrow> update_at p (\<lambda>item. countryHover item hovered) svg))"

definition hovered_by :: "element \<Rightarrow> path \<Rightarrow> bool" where
  "hovered_by item q =
     (q = [] \<or> (case attrs_at item q of None \<Rightarrow> False | Some a \<Rightarrow> has_class LAND_CLASS a))"

definition baseline :: "attrs \<Rightarrow> bool" where
  "baseline a = (st_strokeWidth (at_style a) = getStrokeWidth False \<and>
                 st_stroke (at_style a) = getStrokeColor False)"

definition at_baseline :: "element \<Rightarrow> bool" where
  "at_baseline item =
     list_all (\<lambda>q. case attrs_at item q of None \<Rightarrow> True | Some a \<Rightarrow> baseline a)
       ([] # querySelectorAll LAND_CLASS item)"

definition hover_cycle :: "element \<Rightarrow> element" where
  "hover_cycle item = countryHover (countryHover item True) False"

definition example_svg :: element where
  "example_svg =
     Element (plain_attrs ''svg'' [])
       [leaf (plain_attrs ''ocean'' []),
        leaf (plain_attrs ''FR'' [''countryxx'']),
        Element (plain_attrs ''de'' [''countryxx''])
          [leaf (plain_attrs [] [''landxx'']), leaf (plain_attrs [] [''landxx''])],
        leaf (plain_attrs ''xx'' [''countryxx''])]"

definition example_component :: component where
  "example_component =
     (init_component None (\<lambda>code. None))
       \<lparr>mapData := [''fr'' \<mapsto> \<lparr>cd_value = JNumber 10, cd_extra = None, percentage = 0\<rparr>,
                    ''xx'' \<mapsto> \<lparr>cd_value = JString ''n/a'', cd_extra = None, percentage = - 1\<rparr>]\<rparr>"

lemmas render_defs [cm_defs] =
  fill_of_def bind_item_def set_background_def render_svg_def render_def
  set_stroke_def countryHover_def getStrokeWidth_def getStrokeColor_def

section \<open>The fill of a country\<close>

lemma fill_of_no_record:
  "mapData c (toLowerCase (at_id item)) = None \<Longrightarrow> fill_of c item = Plain (noDataColor c)"
  by (simp add: fill_of_def)

lemma fill_of_record:
  "mapData c (toLowerCase (at_id item)) = Some m \<Longrightarrow>
   fill_of c item =
     (if percentage m < 0 then Plain (exceptionColor c)
      else if 0 \<le> percentage m then ColorMix (maxColor c) (percentage m) (minColor c)
      else Plain (noDataColor c))"
  by (simp add: fill_of_def)

lemma fill_of_pct_ok:
  assumes "mapData c (toLowerCase (at_id item)) = Some m" and "pct_ok (percentage m)"
  shows "fill_of c item =
     (if percentage m = Num (- 1) then Plain (exceptionColor c)
      else ColorMix (maxColor c) (percentage m) (minColor c))"
proof (cases "percentage m")
  case NaN
  with assms show ?thesis by simp
next
  case (Num x)
  with assms show ?thesis by (auto simp: fill_of_record)
qed

lemma fill_of_bind_item [simp]: "fill_of c (bind_item c' a) = fill_of c a"
  by (simp add: fill_of_def bind_item_def)

lemma fill_of_set_stroke [simp]: "fill_of c (set_stroke h a) = fill_of c a"
  by (simp add: fill_of_def set_stroke_def)

lemma bind_item_bind_item [simp]: "bind_item c (bind_item c' a) = bind_item c a"
  by (simp add: bind_item_def fill_of_def)

lemma set_background_set_background [simp]:
  "set_background col (set_background col' a) = set_background col a"
  by (simp add: set_background_def)

section \<open>The data of the nodes after a render\<close>

lemma class_set_background [simp]: "has_class cls (set_background col a) = has_class cls a"
  by (simp add: has_class_def set_background_def)

lemma class_bind_item [simp]: "has_class cls (bind_item c a) = has_class cls a"
  by (simp add: has_class_def bind_item_def)

lemma class_set_stroke [simp]: "has_class cls (set_stroke h a) = has_class cls a"
  by (simp add: has_class_def set_stroke_def)

lemma attrs_at_render_svg:
  "attrs_at (render_svg c svgMap) p =
     (case attrs_at svgMap p of
        None \<Rightarrow> None
      | Some a \<Rightarrow>
          Some (if p = [] then set_background (backgroundColor c) a
                else if has_class COUNTRY_CLASS a then bind_item c a else a))"
proof (cases p)
  case Nil
  then show ?thesis
    by (simp add: render_svg_def Let_def attrs_at_forEach_at set_querySelectorAll)
next
  case (Cons i q)
  then show ?thesis
    by (auto simp: render_svg_def Let_def attrs_at_forEach_at set_querySelectorAll
        attrs_at_map_attrs split: option.splits)
qed

lemma render_svg_render_svg [simp]: "render_svg c' (render_svg c svgMap) = render_svg c' svgMap"
  by (rule element_eqI) (auto simp: attrs_at_render_svg split: option.split)

lemma render_Inl_iff: "render c mapEl = Inl e \<longleftrightarrow> children mapEl = [] \<and> e = TypeError"
  by (auto simp: render_def firstChild_def split: list.splits)

lemma render_Inr:
  "children mapEl \<noteq> [] \<Longrightarrow> render c mapEl = Inr (update_at [0] (render_svg c) mapEl)"
  by (auto simp: render_def firstChild_def split: list.splits)

section \<open>The data of the nodes after a hover\<close>

lemma attrs_at_countryHover:
  "attrs_at (countryHover item h) q =
     (case attrs_at item q of
        None \<Rightarrow> None
      | Some a \<Rightarrow> Some (if hovered_by item q then set_stroke h a else a))"
proof (cases q)
  case Nil
  then show ?thesis
    by (simp add: countryHover_def Let_def attrs_at_forEach_at set_querySelectorAll hovered_by_def)
next
  case (Cons i q')
  then show ?thesis
    by (auto simp: countryHover_def Let_def attrs_at_forEach_at set_querySelectorAll
        attrs_at_map_attrs hovered_by_def split: option.splits)
qed

lemma hovered_by_countryHover [simp]:
  "hovered_by (countryHover item h) q = hovered_by item q"
  by (auto simp: hovered_by_def attrs_at_countryHover split: option.splits)

lemma set_stroke_set_stroke [simp]: "set_stroke h (set_stroke h' a) = set_stroke h a"
  by (simp add: set_stroke_def)

lemma set_stroke_baseline: "baseline a \<Longrightarrow> set_stroke False a = a"
  by (simp add: set_stroke_def baseline_def)

lemma baseline_set_stroke [simp]: "baseline (set_stroke False a)"
  by (simp add: set_stroke_def baseline_def)

lemma countryHover_countryHover [simp]: "countryHover (countryHover item h') h = countryHover item h"
  by (rule element_eqI) (auto simp: attrs_at_countryHover split: option.split)

lemma hovered_by_iff:
  "attrs_at item q = Some a \<Longrightarrow> hovered_by item q \<longleftrightarrow> q \<in> set ([] # querySelectorAll LAND_CLASS item)"
  by (auto simp: hovered_by_def set_querySelectorAll)

lemma countryHover_at_baseline: "at_baseline item \<Longrightarrow> countryHover item False = item"
proof (rule element_eqI)
  fix q
  assume "at_baseline item"
  then have "baseline a" if "attrs_at item q = Some a" and "hovered_by item q" for a
    using that hovered_by_iff [of item q a] by (auto simp: at_baseline_def list_all_iff)
  then show "attrs_at (countryHover item False) q = attrs_at item q"
    by (auto simp: attrs_at_countryHover set_stroke_baseline split: option.split)
qed

lemma at_baseline_countryHover [simp]: "at_baseline (countryHover item False)"
  by (auto simp: at_baseline_def list_all_iff attrs_at_countryHover set_querySelectorAll
      hovered_by_def split: option.split)

section \<open>Evaluation on examples\<close>

lemmas dom_eval =
  example_svg_def leaf_def plain_attrs_def querySelectorAll_def attrs_at_def has_class_def
  COUNTRY_CLASS_def LAND_CLASS_def OCEAN_ID_def

lemmas render_eval =
  dom_eval example_component_def init_component_def render_defs case_defs char_class_defs
  baseline_def at_baseline_def hovered_by_def handler_of_def fire_def map_attrs_def Let_def

section \<open>Properties of the render\<close>

text \<open>
  C5: After a render, the fill of every element with the country class is chosen by
  the record that \<open>mapData\<close> holds under the element's lower-cased id: the no-data
  colour when there is none, the exception colour when its percentage is negative, and
  otherwise the mix of the maximum and minimum colours at that percentage (the no-data
  colour again when the percentage is \<open>NaN\<close>).
\<close>
theorem render_fill_policy:
  assumes "attrs_at svgMap p = Some a" and "p \<noteq> []" and "has_class COUNTRY_CLASS a"
  shows "map_option (\<lambda>b. st_fill (at_style b)) (attrs_at (render_svg c svgMap) p) =
     Some (case mapData c (toLowerCase (at_id a)) of
             None \<Rightarrow> Plain (noDataColor c)
           | Some m \<Rightarrow>
               if percentage m < 0 then Plain (exceptionColor c)
               else if 0 \<le> percentage m then ColorMix (maxColor c) (percentage m) (minColor c)
               else Plain (noDataColor c))"
  using assms
  by (simp add: attrs_at_render_svg bind_item_def fill_of_record fill_of_no_record
      split: option.split)

theorem render_fill_policy_witness:
  "map_option (\<lambda>b. st_fill (at_style b)) (attrs_at (render_svg example_component example_svg) [1]) =
     Some (ColorMix ''oklch(55% 0.25 25)'' 0 ''oklch(100% 0 0)'') \<and>
   map_option (\<lambda>b. st_fill (at_style b)) (attrs_at (render_svg example_component example_svg) [2]) =
     Some (Plain ''#CFCFCF'') \<and>
   map_option (\<lambda>b. st_fill (at_style b)) (attrs_at (render_svg example_component example_svg) [3]) =
     Some (Plain ''#FFEE58'')"
  using render_fill_policy [of example_svg "[1]" "plain_attrs ''FR'' [''countryxx'']" example_component]
    render_fill_policy [of example_svg "[2]" "plain_attrs ''de'' [''countryxx'']" example_component]
    render_fill_policy [of example_svg "[3]" "plain_attrs ''xx'' [''countryxx'']" example_component]
  by (simp add: render_eval)

text \<open>
  A render overwrites what an earlier render wrote: rendering with one state the
  host that a render with another state left gives the host that rendering with the
  first state alone gives. No fill, handler or background of the earlier pass survives,
  and rendering twice with the same state is rendering once.
\<close>
lemma render_overwrites:
  "render c mapEl = Inr m \<Longrightarrow> render c' m = render c' mapEl"
  by (cases "children mapEl")
    (auto simp: render_def firstChild_def map_option_case render_svg_render_svg
      split: list.splits option.splits)

text \<open>
  C29: A render keeps the shape of the document, the id, the classes and the stroke of
  every element, and it leaves every element that is neither the root nor of the country
  class exactly as it was.
\<close>
theorem render_frame:
  "map_option (\<lambda>b. (at_id b, at_classList b, st_stroke (at_style b), st_strokeWidth (at_style b)))
      (attrs_at (render_svg c svgMap) p) =
   map_option (\<lambda>b. (at_id b, at_classList b, st_stroke (at_style b), st_strokeWidth (at_style b)))
      (attrs_at svgMap p) \<and>
   (p \<noteq> [] \<and> (\<forall>a. attrs_at svgMap p = Some a \<longrightarrow> \<not> has_class COUNTRY_CLASS a) \<longrightarrow>
      attrs_at (render_svg c svgMap) p = attrs_at svgMap p)"
  by (auto simp: attrs_at_render_svg bind_item_def set_background_def split: option.split)

theorem render_frame_witness:
  "attrs_at (render_svg example_component example_svg) [0] = Some (plain_attrs ''ocean'' []) \<and>
   attrs_at (render_svg example_component example_svg) [2, 1] = Some (plain_attrs [] [''landxx''])"
  using render_frame [of example_component example_svg "[0]"]
    render_frame [of example_component example_svg "[2, 1]"]
  by (simp add: render_eval)

text \<open>
  After a render, a pointer entering an element with the country class runs
  \<open>countryHover\<close> on that element with \<open>True\<close>, and a pointer leaving it runs it with
  \<open>False\<close>.
\<close>
lemma render_binds_hover:
  assumes "attrs_at svgMap p = Some a" and "p \<noteq> []" and "has_class COUNTRY_CLASS a"
  shows "fire ev p (render_svg c svgMap) =
     update_at p (\<lambda>item. countryHover item (ev = MouseEnter)) (render_svg c svgMap)"
  using assms
  by (cases ev) (simp_all add: fire_def attrs_at_render_svg handler_of_def bind_item_def)

section \<open>Properties of hovering\<close>

text \<open>
  Any number of enter and leave cycles, at least one, leaves an element in the state
  that a single leave gives: the element and its descendants with the land class carry
  the width and colour of the stroke that are not hovered.
\<close>
lemma hover_cycles: "(hover_cycle ^^ Suc n) item = countryHover item False"
  by (induction n) (simp_all add: hover_cycle_def)

text \<open>
  C27: An element whose stroke and whose land descendants' strokes are those of the state
  not hovered is exactly restored by any number of enter and leave cycles.
\<close>
theorem hover_restores_baseline: "at_baseline item \<Longrightarrow> (hover_cycle ^^ n) item = item"
  by (induction n) (simp_all add: hover_cycle_def countryHover_at_baseline)

theorem hover_restores_baseline_witness:
  "(hover_cycle ^^ 2) (countryHover example_svg False) = countryHover example_svg False"
  using hover_restores_baseline [of "countryHover example_svg False" 2] by simp

text \<open>
  Hovering changes nothing but the width and the colour of strokes: the document
  after \<open>countryHover\<close> agrees with the document before at every node once both strokes
  are set alike, so ids, classes, fills, the background and the handlers are kept.
\<close>
lemma hover_stroke_only:
  "map_option (set_stroke h) (attrs_at (countryHover item h') q) =
   map_option (set_stroke h) (attrs_at item q)"
  by (auto simp: attrs_at_countryHover split: option.split)

end
