(* ===== verification/Selection_Controller.thy ===== *)
theory Selection_Controller
  imports Render_Binder
begin

text \<open>
  The selection controller: \<^verbatim>\<open>countryName\<close>, \<^verbatim>\<open>selectionValue\<close>, \<^verbatim>\<open>getExtraSelected\<close>,
  \<^verbatim>\<open>selectCountry\<close> and \<^verbatim>\<open>onMapSelect\<close>.
  \<^item> A click is given to \<open>onMapSelect\<close> as the chain of nodes from its target towards the
    root (the target first, the empty chain for no target): this is all the handler
    reads of the event. \<open>node_chain\<close> computes the chain of a node of the view from its
    path.
  \<^item> \<open>closest_country\<close> is the \<^verbatim>\<open>while\<close> loop: it ends at the first element with the
    country class, or with no element when the chain ends (\<^verbatim>\<open>parentNode\<close> is \<^verbatim>\<open>null\<close>), or
    with a \<open>TypeError\<close> at the document, whose \<^verbatim>\<open>classList\<close> is undefined. It is a
    structural recursion over the chain, which is finite: the loop terminates.
  \<^item> \<open>select_item\<close> is the second half of \<^verbatim>\<open>onMapSelect\<close>, from the lookup of the record
    of the element found to the emission of the event.
  \<^item> Every operation that can raise returns a \<open>result\<close>: \<open>getExtraSelected\<close> raises when
    the data has no entry under the code it is given (the destructuring of \<^verbatim>\<open>undefined\<close>),
    \<open>selectCountry\<close> passes that on, and \<open>onMapSelect\<close> raises from the loop or from
    \<open>selectCountry\<close>, in which case nothing is emitted.
  The lemmas give \<open>onMapSelect\<close> on each of its branches; the theorems state the
  transitions of the selection, the events, the error paths, and what \<open>selectionValue\<close>
  reads.
\<close>

section \<open>Definitions\<close>

definition countryName :: "component \<Rightarrow> string \<Rightarrow> string" where
  "countryName c countryCode = nullish (getName c countryCode) countryCode"

definition selectionValue :: "component \<Rightarrow> (js_error, js_value option) result" where
  "selectionValue c =
     (case selection c of
        None \<Rightarrow> Inr None
      | Some sel \<Rightarrow>
          (case data c of
             None \<Rightarrow> Inl TypeError
           | Some d \<Rightarrow>
               Inr (case get_prop d (sel_countryId sel) of
                      None \<Rightarrow> None
                    | Some entry \<Rightarrow>
                        (case cd_value entry of Undefined \<Rightarrow> None | v \<Rightarrow> Some v))))"

definition extra_pairs :: "CountryExtraData \<Rightarrow> SelectionExtra list" where
  "extra_pairs ex =
     map (\<lambda>k. \<lparr>se_key = k, se_val = nullish (get_prop ex k) Undefined\<rparr>) (map fst ex)"

definition getExtraSelected :: "component \<Rightarrow> string \<Rightarrow> (js_error, SelectionExtra list option) result" where
  "getExtraSelected c code =
     (case data c of
        None \<Rightarrow> Inl TypeError
      | Some d \<Rightarrow>
          (case get_prop d code of
             None \<Rightarrow> Inl TypeError
           | Some entry \<Rightarrow> Inr (map_option extra_pairs (cd_extra entry))))"

definition selectCountry :: "string option \<Rightarrow> component \<Rightarrow> (js_error, component) result" where
  "selectCountry code c =
     (if code \<noteq> None \<and> code \<noteq> Some []
      then and_then (getExtraSelected c (the code))
             (\<lambda>ex. Inr (c\<lparr>selection := Some \<lparr>sel_countryId = the code,
                                             sel_countryName = countryName c (the code),
                                             sel_extra = ex\<rparr>\<rparr>))
      else Inr (c\<lparr>selection := None\<rparr>))"

fun closest_country :: "node list \<Rightarrow> (js_error, attrs option) result" where
  "closest_country [] = Inr None"
| "closest_country (DocumentNode # rest) = Inl TypeError"
| "closest_country (ElementNode a # rest) =
     (if has_class COUNTRY_CLASS a then Inr (Some a) else closest_country rest)"

definition target_id :: "node list \<Rightarrow> string option" where
  "target_id chain = (case chain of ElementNode a # rest \<Rightarrow> Some (at_id a) | _ \<Rightarrow> None)"

definition unselected_event :: ChartSelectEvent where
  "unselected_event = \<lparr>ev_selected = False, ev_value = None, ev_country = [], ev_extra = None\<rparr>"

definition selected_event :: "attrs \<Rightarrow> DrawableCountry \<Rightarrow> ChartSelectEvent" where
  "selected_event newItem found =
     \<lparr>ev_selected = True, ev_value = Some (countryNum found),
      ev_country = toUpperCase (at_id newItem), ev_extra = cd_extra found\<rparr>"

definition select_item :: "attrs option \<Rightarrow> component \<Rightarrow> (js_error, component) result" where
  "select_item newItem c =
     (case (case newItem of None \<Rightarrow> None | Some item \<Rightarrow> mapData c (at_id item)) of
        Some found \<Rightarrow>
          and_then (selectCountry (Some (ev_country (selected_event (the newItem) found))) c)
            (\<lambda>c'. Inr (emit (ChartSelect (selected_event (the newItem) found)) c'))
      | None \<Rightarrow>
          and_then (selectCountry None c)
            (\<lambda>c'. Inr (emit (ChartSelect unselected_event) c')))"

definition onMapSelect :: "node list \<Rightarrow> component \<Rightarrow> (js_error, component) result" where
  "onMapSelect chain c =
     and_then
       (if target_id chain = Some OCEAN_ID
        then and_then (selectCountry None c) (\<lambda>c'. Inr (None, c'))
        else and_then (closest_country chain) (\<lambda>newItem. Inr (newItem, c)))
       (\<lambda>(newItem, c'). select_item newItem c')"

definition node_chain :: "view \<Rightarrow> path \<Rightarrow> node list" where
  "node_chain v p =
     map (\<lambda>e. ElementNode (attrs e)) (rev (elements_along (host v) p))
       @ map ElementNode (above v)
       @ (if attached v then [DocumentNode] else [])"

definition wf_selection :: "component \<Rightarrow> bool" where
  "wf_selection c =
     (case selection c of
        None \<Rightarrow> True
      | Some sel \<Rightarrow>
          sel_countryId sel \<noteq> [] \<and> toUpperCase (sel_countryId sel) = sel_countryId sel \<and>
          sel_countryName sel = countryName c (sel_countryId sel))"

definition example_names :: "string \<Rightarrow> string option" where
  "example_names code = (if code = ''FR'' then Some ''France'' else None)"

definition example_loaded :: "string \<Rightarrow> component" where
  "example_loaded k =
     (init_component
        (Some [(k, \<lparr>cd_value = JNumber 42, cd_extra = Some [(''capital'', JString ''Paris'')]\<rparr>)])
        example_names)
       \<lparr>mapData := [toLowerCase k \<mapsto>
                      \<lparr>cd_value = JNumber 42, cd_extra = Some [(''capital'', JString ''Paris'')],
                       percentage = 0\<rparr>]\<rparr>"

definition example_view :: view where
  "example_view =
     \<lparr>host = Element (plain_attrs ''map'' []) [Element (plain_attrs ''svg'' [])
               [leaf (plain_attrs ''ocean'' []),
                Element (plain_attrs ''fr'' [''countryxx'']) [leaf (plain_attrs [] [''landxx''])],
                leaf (plain_attrs ''de'' [''countryxx''])]],
      above = [plain_attrs ''countries-map'' [], plain_attrs ''body'' []],
      attached = True\<rparr>"

lemmas selection_defs [cm_defs] =
  countryName_def selectionValue_def getExtraSelected_def selectCountry_def
  target_id_def unselected_event_def selected_event_def select_item_def onMapSelect_def

section \<open>The extra fields and the selection\<close>

lemma extra_pairs_wf:
  "wf_object ex \<Longrightarrow> extra_pairs ex = map (\<lambda>(k, v). \<lparr>se_key = k, se_val = v\<rparr>) ex"
  by (auto simp: extra_pairs_def wf_object_def get_prop_def)

lemma map_se_key_extra_pairs [simp]: "map se_key (extra_pairs ex) = map fst ex"
  by (simp add: extra_pairs_def comp_def)

lemma getExtraSelected_Inr:
  "data c = Some d \<Longrightarrow> get_prop d code = Some entry \<Longrightarrow>
   getExtraSelected c code = Inr (map_option extra_pairs (cd_extra entry))"
  by (simp add: getExtraSelected_def)

lemma getExtraSelected_Inl_iff:
  "getExtraSelected c code = Inl e \<longleftrightarrow>
     e = TypeError \<and> (case data c of None \<Rightarrow> True | Some d \<Rightarrow> get_prop d code = None)"
  by (auto simp: getExtraSelected_def split: option.splits)

lemma selectCountry_falsy [simp]:
  "selectCountry None c = Inr (c\<lparr>selection := None\<rparr>)"
  "selectCountry (Some []) c = Inr (c\<lparr>selection := None\<rparr>)"
  by (simp_all add: selectCountry_def)

lemma selectCountry_truthy:
  "code \<noteq> [] \<Longrightarrow>
   selectCountry (Some code) c =
     and_then (getExtraSelected c code)
       (\<lambda>ex. Inr (c\<lparr>selection := Some \<lparr>sel_countryId = code, sel_countryName = countryName c code,
                                        sel_extra = ex\<rparr>\<rparr>))"
  by (simp add: selectCountry_def)

lemma selectCountry_Inl_iff:
  "selectCountry code c = Inl e \<longleftrightarrow>
     (\<exists>k. code = Some k \<and> k \<noteq> [] \<and> getExtraSelected c k = Inl e)"
  by (cases code) (auto simp: selectCountry_def and_then_Inl_iff)

lemma getExtraSelected_Inr_iff:
  "getExtraSelected c code = Inr ex \<longleftrightarrow>
     (\<exists>d entry. data c = Some d \<and> get_prop d code = Some entry \<and>
        ex = map_option extra_pairs (cd_extra entry))"
  by (auto simp: getExtraSelected_def split: option.splits)

lemma selectCountry_Inr_iff:
  "selectCountry code c = Inr c' \<longleftrightarrow>
     (if code = None \<or> code = Some [] then c' = c\<lparr>selection := None\<rparr>
      else \<exists>ex. getExtraSelected c (the code) = Inr ex \<and>
             c' = c\<lparr>selection := Some \<lparr>sel_countryId = the code,
                                        sel_countryName = countryName c (the code),
                                        sel_extra = ex\<rparr>\<rparr>)"
  by (auto simp: selectCountry_def and_then_Inr_iff)

lemma selectCountry_frame:
  assumes "selectCountry code c = Inr c'"
  shows "c' = c\<lparr>selection := selection c'\<rparr>"
  using assms by (auto simp: selectCountry_def and_then_Inr_iff split: if_splits)

section \<open>The walk to the country element\<close>

lemma closest_country_elements:
  "closest_country (map ElementNode pre @ chain) =
     (case find (has_class COUNTRY_CLASS) pre of
        None \<Rightarrow> closest_country chain
      | Some a \<Rightarrow> Inr (Some a))"
  by (induction pre) simp_all

lemma closest_country_has_class:
  "closest_country chain = Inr (Some a) \<Longrightarrow> has_class COUNTRY_CLASS a \<and> ElementNode a \<in> set chain"
  by (induction chain rule: closest_country.induct) (auto split: if_splits)

lemma node_chain_elements:
  "node_chain v p =
     map ElementNode (map attrs (rev (elements_along (host v) p)) @ above v)
       @ (if attached v then [DocumentNode] else [])"
  by (simp add: node_chain_def)

lemma closest_country_none:
  assumes "\<forall>a \<in> set pre. \<not> has_class COUNTRY_CLASS a"
  shows "closest_country (map ElementNode pre @ chain) = closest_country chain"
proof -
  from assms have "find (has_class COUNTRY_CLASS) pre = None" by (simp add: find_None_iff)
  then show ?thesis by (simp add: closest_country_elements)
qed

lemma closest_country_Document:
  "(\<forall>a \<in> set pre. \<not> has_class COUNTRY_CLASS a) \<Longrightarrow>
   closest_country (map ElementNode pre @ DocumentNode # rest) = Inl TypeError"
  by (simp add: closest_country_none)

lemma closest_country_Inl_D:
  "closest_country chain = Inl e \<Longrightarrow>
   e = TypeError \<and>
   (\<exists>pre rest. chain = map ElementNode pre @ DocumentNode # rest \<and>
      (\<forall>a \<in> set pre. \<not> has_class COUNTRY_CLASS a))"
proof (induction chain rule: closest_country.induct)
  case 1
  then show ?case by simp
next
  case (2 rest)
  then show ?case by (auto intro: exI [of _ "[]"])
next
  case (3 a rest)
  then obtain pre rest' where "e = TypeError" "rest = map ElementNode pre @ DocumentNode # rest'"
    "\<forall>b \<in> set pre. \<not> has_class COUNTRY_CLASS b" "\<not> has_class COUNTRY_CLASS a"
    by (auto split: if_splits)
  then show ?case by (auto intro!: exI [of _ "a # pre"])
qed

lemma closest_country_Inl_iff:
  "closest_country chain = Inl e \<longleftrightarrow>
     e = TypeError \<and>
     (\<exists>pre rest. chain = map ElementNode pre @ DocumentNode # rest \<and>
        (\<forall>a \<in> set pre. \<not> has_class COUNTRY_CLASS a))"
  using closest_country_Inl_D [of chain e] closest_country_Document by blast

section \<open>The branches of the click handler\<close>

lemma onMapSelect_ocean:
  "target_id chain = Some OCEAN_ID \<Longrightarrow>
   onMapSelect chain c = Inr (emit (ChartSelect unselected_event) (c\<lparr>selection := None\<rparr>))"
  by (simp add: onMapSelect_def select_item_def)

lemma onMapSelect_walk:
  "target_id chain \<noteq> Some OCEAN_ID \<Longrightarrow>
   onMapSelect chain c =
     and_then (closest_country chain)
       (\<lambda>newItem.
          case (case newItem of None \<Rightarrow> None | Some item \<Rightarrow> mapData c (at_id item)) of
            Some found \<Rightarrow>
              and_then (selectCountry (Some (toUpperCase (at_id (the newItem)))) c)
                (\<lambda>c'. Inr (emit (ChartSelect (selected_event (the newItem) found)) c'))
          | None \<Rightarrow> Inr (emit (ChartSelect unselected_event) (c\<lparr>selection := None\<rparr>)))"
  by (cases "closest_country chain")
    (simp_all add: onMapSelect_def select_item_def selected_event_def split: option.splits)

lemma onMapSelect_Inr_cases:
  assumes "onMapSelect chain c = Inr c'"
  obtains (unselected) "c' = emit (ChartSelect unselected_event) (c\<lparr>selection := None\<rparr>)"
  | (empty_id) item found where "closest_country chain = Inr (Some item)"
      and "mapData c (at_id item) = Some found" and "at_id item = []"
      and "c' = emit (ChartSelect (selected_event item found)) (c\<lparr>selection := None\<rparr>)"
  | (selected) item found d entry where "closest_country chain = Inr (Some item)"
      and "mapData c (at_id item) = Some found" and "at_id item \<noteq> []"
      and "data c = Some d" and "get_prop d (toUpperCase (at_id item)) = Some entry"
      and "c' = emit (ChartSelect (selected_event item found))
                 (c\<lparr>selection := Some \<lparr>sel_countryId = toUpperCase (at_id item),
                                        sel_countryName = countryName c (toUpperCase (at_id item)),
                                        sel_extra = map_option extra_pairs (cd_extra entry)\<rparr>\<rparr>)"
proof (cases "target_id chain = Some OCEAN_ID")
  case True
  with assms unselected show ?thesis by (simp add: onMapSelect_ocean)
next
  case False
  with assms obtain newItem where w: "closest_country chain = Inr newItem"
    and r: "(case (case newItem of None \<Rightarrow> None | Some item \<Rightarrow> mapData c (at_id item)) of
            Some found \<Rightarrow>
              and_then (selectCountry (Some (toUpperCase (at_id (the newItem)))) c)
                (\<lambda>c'. Inr (emit (ChartSelect (selected_event (the newItem) found)) c'))
          | None \<Rightarrow> Inr (emit (ChartSelect unselected_event) (c\<lparr>selection := None\<rparr>))) = Inr c'"
    by (auto simp: onMapSelect_walk and_then_Inr_iff)
  show ?thesis
  proof (cases "case newItem of None \<Rightarrow> None | Some item \<Rightarrow> mapData c (at_id item)")
    case None
    with r unselected show ?thesis by simp
  next
    case (Some found)
    then obtain item where i: "newItem = Some item" "mapData c (at_id item) = Some found"
      by (cases newItem) auto
    with r Some obtain c'' where s: "selectCountry (Some (toUpperCase (at_id item))) c = Inr c''"
      and e: "c' = emit (ChartSelect (selected_event item found)) c''"
      by (auto simp: and_then_Inr_iff)
    show ?thesis
    proof (cases "at_id item = []")
      case True
      with s e i w empty_id show ?thesis by simp
    next
      case False
      with s e i w selected show ?thesis
        by (auto simp: selectCountry_Inr_iff getExtraSelected_Inr_iff)
    qed
  qed
qed

lemma select_item_Inl_iff:
  "select_item newItem c = Inl e \<longleftrightarrow>
     (\<exists>item found. newItem = Some item \<and> mapData c (at_id item) = Some found \<and>
        at_id item \<noteq> [] \<and> getExtraSelected c (toUpperCase (at_id item)) = Inl e)"
  by (cases newItem)
    (auto simp: select_item_def selected_event_def and_then_Inl_iff selectCountry_Inl_iff
      split: option.splits)

lemma onMapSelect_frame:
  assumes "onMapSelect chain c = Inr c'"
  shows "mapData c' = mapData c" and "data c' = data c" and "getName c' = getName c"
  using assms by (cases rule: onMapSelect_Inr_cases; simp)+

lemmas selection_eval =
  selection_defs extra_pairs_def example_names_def example_loaded_def example_view_def
  node_chain_def init_component_def emit_def and_then_def nullish_def wf_selection_def
  leaf_def plain_attrs_def has_class_def COUNTRY_CLASS_def OCEAN_ID_def
  case_defs char_class_defs countryNum_def parseInt_number_def

section \<open>Properties of the click handler\<close>

text \<open>
  C3: A click whose nearest element with the country class has a record in \<open>mapData\<close>
  under its id, and whose upper-cased id is a key of the data, selects the country: the
  selection holds the upper-cased id, its display name and the extra fields of the data
  entry as pairs of key and value, and one event is emitted with \<open>selected\<close> true, the
  parsed value of the record, the upper-cased id and the extra fields of the record as
  they are.
\<close>
theorem click_country:
  assumes "target_id chain \<noteq> Some OCEAN_ID"
    and "closest_country chain = Inr (Some item)"
    and "mapData c (at_id item) = Some found"
    and "data c = Some d"
    and "get_prop d (toUpperCase (at_id item)) = Some entry"
    and "at_id item \<noteq> []"
  shows "onMapSelect chain c =
     Inr (c\<lparr>selection := Some \<lparr>sel_countryId = toUpperCase (at_id item),
                                sel_countryName = countryName c (toUpperCase (at_id item)),
                                sel_extra = map_option extra_pairs (cd_extra entry)\<rparr>,
            emitted := emitted c @ [ChartSelect \<lparr>ev_selected = True,
                                                 ev_value = Some (countryNum found),
                                                 ev_country = toUpperCase (at_id item),
                                                 ev_extra = cd_extra found\<rparr>]\<rparr>)"
  using assms
  by (simp add: onMapSelect_walk selectCountry_truthy getExtraSelected_Inr emit_def
      selected_event_def)

theorem click_country_witness:
  "onMapSelect (node_chain example_view [0, 1, 0]) (example_loaded ''FR'') =
     Inr ((example_loaded ''FR'')
           \<lparr>selection := Some \<lparr>sel_countryId = ''FR'', sel_countryName = ''France'',
                                sel_extra = Some [\<lparr>se_key = ''capital'', se_val = JString ''Paris''\<rparr>]\<rparr>,
            emitted := [ChartSelect \<lparr>ev_selected = True, ev_value = Some 42, ev_country = ''FR'',
                                      ev_extra = Some [(''capital'', JString ''Paris'')]\<rparr>]\<rparr>)"
  using click_country [of "node_chain example_view [0, 1, 0]" "plain_attrs ''fr'' [''countryxx'']"
      "example_loaded ''FR''"
      "\<lparr>cd_value = JNumber 42, cd_extra = Some [(''capital'', JString ''Paris'')], percentage = 0\<rparr>"
      "[(''FR'', \<lparr>cd_value = JNumber 42, cd_extra = Some [(''capital'', JString ''Paris'')]\<rparr>)]"
      "\<lparr>cd_value = JNumber 42, cd_extra = Some [(''capital'', JString ''Paris'')]\<rparr>"]
  by (simp add: selection_eval)

text \<open>
  C18: The click handler raises in exactly two situations, and then a \<open>TypeError\<close>: the
  target is not the ocean and either the walk reaches the document before an element
  with the country class, or it ends at a country element with a non-empty id and a
  record in \<open>mapData\<close> while the data is missing or has no key equal to the upper-cased
  id. In every other case the handler returns; in particular a click on the ocean never
  raises.
\<close>
theorem onMapSelect_raises_iff:
  "onMapSelect chain c = Inl e \<longleftrightarrow>
     e = TypeError \<and> target_id chain \<noteq> Some OCEAN_ID \<and>
     ((\<exists>pre rest. chain = map ElementNode pre @ DocumentNode # rest \<and>
         (\<forall>a \<in> set pre. \<not> has_class COUNTRY_CLASS a)) \<or>
      (\<exists>item found. closest_country chain = Inr (Some item) \<and>
         mapData c (at_id item) = Some found \<and> at_id item \<noteq> [] \<and>
         (case data c of None \<Rightarrow> True | Some d \<Rightarrow> get_prop d (toUpperCase (at_id item)) = None)))"
proof (cases "target_id chain = Some OCEAN_ID")
  case True
  then show ?thesis by (simp add: onMapSelect_ocean)
next
  case False
  then have "onMapSelect chain c = and_then (closest_country chain) (\<lambda>newItem. select_item newItem c)"
    by (cases "closest_country chain") (simp_all add: onMapSelect_def)
  with False show ?thesis
    by (cases "closest_country chain")
      (auto simp: select_item_Inl_iff getExtraSelected_Inl_iff closest_country_Inl_iff
        closest_country_Document)
qed

theorem onMapSelect_raises_iff_witness:
  "onMapSelect (node_chain example_view [0]) (example_loaded ''FR'') = Inl TypeError \<and>
   onMapSelect (node_chain example_view [0, 1]) (example_loaded ''fr'') = Inl TypeError \<and>
   (\<forall>e. onMapSelect (node_chain example_view [0, 0]) (example_loaded ''FR'') \<noteq> Inl e) \<and>
   (\<forall>e. onMapSelect (node_chain example_view [0, 1]) (example_loaded ''FR'') \<noteq> Inl e)"
  using onMapSelect_raises_iff [of "node_chain example_view [0]" "example_loaded ''FR''" TypeError]
    onMapSelect_raises_iff [of "node_chain example_view [0, 1]" "example_loaded ''fr''" TypeError]
    onMapSelect_raises_iff [of "node_chain example_view [0, 0]" "example_loaded ''FR''"]
    onMapSelect_raises_iff [of "node_chain example_view [0, 1]" "example_loaded ''FR''"]
  by (simp add: selection_eval)

text \<open>
  A click on the element with the ocean id clears the selection and emits one event,
  with \<open>selected\<close> false, no value, the empty country and no extra fields.
\<close>
lemma click_ocean:
  "target_id chain = Some OCEAN_ID \<Longrightarrow>
   onMapSelect chain c =
     Inr (c\<lparr>selection := None,
            emitted := emitted c @ [ChartSelect \<lparr>ev_selected = False, ev_value = None,
                                                 ev_country = [], ev_extra = None\<rparr>]\<rparr>)"
  by (simp add: onMapSelect_ocean emit_def unselected_event_def)

text \<open>
  A click that is not on the ocean and whose walk ends at no element, or at a
  country element with no record in \<open>mapData\<close> under its id, clears the selection and
  emits the same event as a click on the ocean.
\<close>
lemma click_no_record:
  assumes "target_id chain \<noteq> Some OCEAN_ID"
    and "closest_country chain = Inr newItem"
    and "\<forall>item. newItem = Some item \<longrightarrow> mapData c (at_id item) = None"
  shows "onMapSelect chain c =
     Inr (c\<lparr>selection := None,
            emitted := emitted c @ [ChartSelect \<lparr>ev_selected = False, ev_value = None,
                                                 ev_country = [], ev_extra = None\<rparr>]\<rparr>)"
  using assms
  by (cases newItem) (simp_all add: onMapSelect_walk emit_def unselected_event_def)

text \<open>
  C11: A click on a country element that has a record raises a \<open>TypeError\<close> when the data
  has no key equal to the upper-cased id of the element, as when the data is keyed in
  lower or mixed case: \<open>getExtraSelected\<close> reads the data under the upper-cased id and
  destructures the missing entry. No event is emitted and the selection is not set.
\<close>
theorem click_raises_without_uppercase_key:
  assumes "target_id chain \<noteq> Some OCEAN_ID"
    and "closest_country chain = Inr (Some item)"
    and "mapData c (at_id item) = Some found"
    and "at_id item \<noteq> []"
    and "\<forall>d. data c = Some d \<longrightarrow> get_prop d (toUpperCase (at_id item)) = None"
  shows "onMapSelect chain c = Inl TypeError"
proof -
  from assms(5) have "getExtraSelected c (toUpperCase (at_id item)) = Inl TypeError"
    by (auto simp: getExtraSelected_Inl_iff split: option.split)
  with assms show ?thesis by (simp add: onMapSelect_walk selectCountry_truthy)
qed

theorem click_raises_without_uppercase_key_witness:
  "onMapSelect (node_chain example_view [0, 1, 0]) (example_loaded ''fr'') = Inl TypeError \<and>
   onMapSelect (node_chain example_view [0, 1]) (example_loaded ''Fr'') = Inl TypeError"
  using click_raises_without_uppercase_key [of "node_chain example_view [0, 1, 0]"
      "plain_attrs ''fr'' [''countryxx'']" "example_loaded ''fr''"
      "\<lparr>cd_value = JNumber 42, cd_extra = Some [(''capital'', JString ''Paris'')], percentage = 0\<rparr>"]
    click_raises_without_uppercase_key [of "node_chain example_view [0, 1]"
      "plain_attrs ''fr'' [''countryxx'']" "example_loaded ''Fr''"
      "\<lparr>cd_value = JNumber 42, cd_extra = Some [(''capital'', JString ''Paris'')], percentage = 0\<rparr>"]
  by (simp add: selection_eval)

text \<open>
  C12: A click on a node that is not the ocean and that has no element with the country
  class on the way to the root raises a \<open>TypeError\<close> when the view is attached to a
  document, because the walk reaches the document node, which has no class list; in a
  detached view the walk ends at no element and the click clears the selection.
\<close>
theorem click_outside_country:
  assumes "target_id (node_chain v p) \<noteq> Some OCEAN_ID"
    and "\<forall>e \<in> set (elements_along (host v) p). \<not> has_class COUNTRY_CLASS (attrs e)"
    and "\<forall>a \<in> set (above v). \<not> has_class COUNTRY_CLASS a"
  shows "onMapSelect (node_chain v p) c =
     (if attached v then Inl TypeError
      else Inr (c\<lparr>selection := None,
                  emitted := emitted c @ [ChartSelect \<lparr>ev_selected = False, ev_value = None,
                                                       ev_country = [], ev_extra = None\<rparr>]\<rparr>))"
proof -
  from assms(2,3) have "closest_country (node_chain v p) =
      closest_country (if attached v then [DocumentNode] else [])"
    unfolding node_chain_elements by (intro closest_country_none) auto
  with assms(1) show ?thesis
    by (simp add: onMapSelect_walk emit_def unselected_event_def)
qed

theorem click_outside_country_witness:
  "onMapSelect (node_chain example_view [0]) (example_loaded ''FR'') = Inl TypeError \<and>
   onMapSelect (node_chain (example_view\<lparr>attached := False\<rparr>) [0]) (example_loaded ''FR'') =
     Inr ((example_loaded ''FR'')\<lparr>selection := None,
            emitted := [ChartSelect \<lparr>ev_selected = False, ev_value = None,
                                      ev_country = [], ev_extra = None\<rparr>]\<rparr>)"
  using click_outside_country [of example_view "[0]" "example_loaded ''FR''"]
    click_outside_country [of "example_view\<lparr>attached := False\<rparr>" "[0]" "example_loaded ''FR''"]
  by (simp add: selection_eval)

text \<open>
  C8: The selection round trip: a click that selects a country followed by a click on the
  ocean leaves nothing selected and has emitted two events, the first with \<open>selected\<close>
  true and the upper-cased id, the second with \<open>selected\<close> false and the empty country.
\<close>
theorem selection_round_trip:
  assumes "target_id chain \<noteq> Some OCEAN_ID"
    and "closest_country chain = Inr (Some item)"
    and "mapData c (at_id item) = Some found"
    and "data c = Some d"
    and "get_prop d (toUpperCase (at_id item)) = Some entry"
    and "at_id item \<noteq> []"
    and "target_id chain' = Some OCEAN_ID"
  shows "and_then (onMapSelect chain c) (onMapSelect chain') =
     Inr (c\<lparr>selection := None,
            emitted := emitted c @
              [ChartSelect \<lparr>ev_selected = True, ev_value = Some (countryNum found),
                            ev_country = toUpperCase (at_id item), ev_extra = cd_extra found\<rparr>,
               ChartSelect \<lparr>ev_selected = False, ev_value = None, ev_country = [],
                            ev_extra = None\<rparr>]\<rparr>)"
  using assms
  by (simp add: onMapSelect_walk onMapSelect_ocean selectCountry_truthy getExtraSelected_Inr
      emit_def selected_event_def unselected_event_def)

theorem selection_round_trip_witness:
  "and_then (onMapSelect (node_chain example_view [0, 1, 0]) (example_loaded ''FR''))
     (onMapSelect (node_chain example_view [0, 0])) =
   Inr ((example_loaded ''FR'')\<lparr>selection := None,
          emitted := [ChartSelect \<lparr>ev_selected = True, ev_value = Some 42, ev_country = ''FR'',
                                    ev_extra = Some [(''capital'', JString ''Paris'')]\<rparr>,
                      ChartSelect \<lparr>ev_selected = False, ev_value = None, ev_country = [],
                                    ev_extra = None\<rparr>]\<rparr>)"
  using selection_round_trip [of "node_chain example_view [0, 1, 0]"
      "plain_attrs ''fr'' [''countryxx'']" "example_loaded ''FR''"
      "\<lparr>cd_value = JNumber 42, cd_extra = Some [(''capital'', JString ''Paris'')], percentage = 0\<rparr>"
      "[(''FR'', \<lparr>cd_value = JNumber 42, cd_extra = Some [(''capital'', JString ''Paris'')]\<rparr>)]"
      "\<lparr>cd_value = JNumber 42, cd_extra = Some [(''capital'', JString ''Paris'')]\<rparr>"
      "node_chain example_view [0, 0]"]
  by (simp add: selection_eval)

text \<open>
  C20: A click that returns changes the selection and appends exactly one selection event,
  and nothing else of the state. The selection it leaves is well formed (a non-empty,
  upper-case id with its display name under that id); when a country is selected the
  event says so and carries the same id, and the id is a key of the data whose extra
  fields the selection holds; an event with \<open>selected\<close> false is the unselected event
  and leaves nothing selected.
\<close>
theorem onMapSelect_effect:
  assumes "onMapSelect chain c = Inr c'"
  shows "\<exists>e. c' = c\<lparr>selection := selection c', emitted := emitted c @ [ChartSelect e]\<rparr> \<and>
     wf_selection c' \<and>
     (case selection c' of
        None \<Rightarrow> True
      | Some sel \<Rightarrow>
          ev_selected e \<and> ev_country e = sel_countryId sel \<and>
          (\<exists>d entry. data c = Some d \<and> get_prop d (sel_countryId sel) = Some entry \<and>
             sel_extra sel = map_option extra_pairs (cd_extra entry))) \<and>
     (\<not> ev_selected e \<longrightarrow> e = unselected_event \<and> selection c' = None)"
  using assms
  by (cases rule: onMapSelect_Inr_cases)
    (auto simp: emit_def selected_event_def unselected_event_def wf_selection_def countryName_def)

theorem onMapSelect_effect_witness:
  "\<exists>c'. onMapSelect (node_chain example_view [0, 1, 0]) (example_loaded ''FR'') = Inr c' \<and>
     wf_selection c' \<and> map_option sel_countryId (selection c') = Some ''FR''"
proof -
  have "\<exists>c'. onMapSelect (node_chain example_view [0, 1, 0]) (example_loaded ''FR'') = Inr c' \<and>
      map_option sel_countryId (selection c') = Some ''FR''"
    by (simp add: selection_eval)
  then obtain c' where r: "onMapSelect (node_chain example_view [0, 1, 0]) (example_loaded ''FR'') = Inr c'"
    and s: "map_option sel_countryId (selection c') = Some ''FR''" by blast
  from onMapSelect_effect [OF r] r s show ?thesis by blast
qed

section \<open>Properties of the selected value\<close>

text \<open>
  C30: After a click that selects a country, \<open>selectionValue\<close> is read from the data of
  the moment and not kept from the click: with the data of the click it is the raw value
  of the selected entry, and after the data is replaced it is the value the new data has
  under the selected id, or none when the new data has no such key.
\<close>
theorem selectionValue_live:
  assumes "onMapSelect chain c = Inr c'" and "selection c' = Some sel"
  shows "selectionValue (c'\<lparr>data := Some d'\<rparr>) =
     Inr (case get_prop d' (sel_countryId sel) of
            None \<Rightarrow> None
          | Some entry \<Rightarrow> (case cd_value entry of Undefined \<Rightarrow> None | v \<Rightarrow> Some v)) \<and>
   (\<exists>d entry. data c' = Some d \<and> get_prop d (sel_countryId sel) = Some entry \<and>
      selectionValue c' = Inr (case cd_value entry of Undefined \<Rightarrow> None | v \<Rightarrow> Some v))"
  using assms
  by (cases rule: onMapSelect_Inr_cases) (auto simp: selectionValue_def emit_def)

theorem selectionValue_live_witness:
  "\<exists>c'. onMapSelect (node_chain example_view [0, 1, 0]) (example_loaded ''FR'') = Inr c' \<and>
     selectionValue c' = Inr (Some (JNumber 42)) \<and>
     selectionValue (c'\<lparr>data := Some [(''FR'', \<lparr>cd_value = JString ''7'', cd_extra = None\<rparr>)]\<rparr>) =
       Inr (Some (JString ''7'')) \<and>
     selectionValue (c'\<lparr>data := Some []\<rparr>) = Inr None"
proof -
  have "\<exists>c' sel. onMapSelect (node_chain example_view [0, 1, 0]) (example_loaded ''FR'') = Inr c' \<and>
      selection c' = Some sel \<and> sel_countryId sel = ''FR'' \<and> selectionValue c' = Inr (Some (JNumber 42))"
    by (simp add: selection_eval)
  then obtain c' sel
    where r: "onMapSelect (node_chain example_view [0, 1, 0]) (example_loaded ''FR'') = Inr c'"
      and s: "selection c' = Some sel" "sel_countryId sel = ''FR''"
      and v: "selectionValue c' = Inr (Some (JNumber 42))" by blast
  from selectionValue_live [OF r s(1), of "[(''FR'', \<lparr>cd_value = JString ''7'', cd_extra = None\<rparr>)]"]
    selectionValue_live [OF r s(1), of "[]"] r s v
  show ?thesis by auto
qed

end
