(* ===== verification/Countries_Map.thy ===== *)
theory Countries_Map
  imports Selection_Controller
begin

text \<open>
  The render pass as a whole: \<^verbatim>\<open>initializeMap\<close>, which the effect of the constructor runs.
  \<^item> \<open>initializeMap\<close> composes the value normaliser and the render binder in the order
    of the source: \<^verbatim>\<open>loading\<close> is set, the view child is read (outside the \<^verbatim>\<open>try\<close>: with no
    view child the exception escapes, and the state it leaves has \<^verbatim>\<open>loading\<close> set),
    \<^verbatim>\<open>mapData\<close> is replaced by the normalised data, the document is rendered, and the
    ready event is emitted; an exception of the render is caught and the loading error
    is emitted instead.
  \<^item> The result is \<open>Inl\<close> of the exception and of the state at the throw, or \<open>Inr\<close> of
    the state after the pass.
  The theorems give the state after a pass on each of the three paths and show that a
  pass repeated on its own result changes nothing but the list of events.
\<close>

section \<open>Definitions\<close>

definition loading_error :: ChartErrorEvent where
  "loading_error =
     \<lparr>err_id = Code Loading, err_message = ''Could not load'', err_detailedMessage = None\<rparr>"

definition initializeMap :: "component \<Rightarrow> (js_error \<times> component, component) result" where
  "initializeMap c =
     (let c1 = c\<lparr>loading := True\<rparr> in
      case mapContent c1 of
        None \<Rightarrow> Inl (ViewChildMissing, c1)
      | Some v \<Rightarrow>
          (let c2 = c1\<lparr>mapData := normalize (data c1) (minValue c1) (maxValue c1)\<rparr> in
           case render c2 (host v) of
             Inl e \<Rightarrow> Inr (onChartError loading_error c2)
           | Inr mapEl \<Rightarrow> Inr (onChartReady (c2\<lparr>mapContent := Some (v\<lparr>host := mapEl\<rparr>)\<rparr>))))"

definition example_map :: component where
  "example_map =
     (init_component (Some example_data) example_names)
       \<lparr>mapContent := Some \<lparr>host = Element (plain_attrs ''map'' []) [example_svg],
                             above = [plain_attrs ''countries-map'' []], attached = True\<rparr>\<rparr>"

lemmas lifecycle_defs [cm_defs] = loading_error_def initializeMap_def

section \<open>The three paths of a pass\<close>

lemma render_svg_cong:
  assumes "mapData c = mapData c'" and "backgroundColor c = backgroundColor c'"
    and "noDataColor c = noDataColor c'" and "exceptionColor c = exceptionColor c'"
    and "minColor c = minColor c'" and "maxColor c = maxColor c'"
  shows "render_svg c = render_svg c'"
proof -
  from assms have "bind_item c = bind_item c'"
    by (simp add: bind_item_def fill_of_def fun_eq_iff Let_def)
  with assms(2) show ?thesis unfolding render_svg_def by simp
qed

lemma initializeMap_no_view:
  "mapContent c = None \<Longrightarrow> initializeMap c = Inl (ViewChildMissing, c\<lparr>loading := True\<rparr>)"
  by (simp add: initializeMap_def)

lemma initializeMap_no_svg:
  "mapContent c = Some v \<Longrightarrow> children (host v) = [] \<Longrightarrow>
   initializeMap c =
     Inr (c\<lparr>loading := True, mapData := normalize (data c) (minValue c) (maxValue c),
            emitted := emitted c @ [ChartError loading_error]\<rparr>)"
  by (simp add: initializeMap_def render_def firstChild_def onChartError_def emit_def)

lemma initializeMap_svg:
  "mapContent c = Some v \<Longrightarrow> children (host v) \<noteq> [] \<Longrightarrow>
   initializeMap c =
     Inr (c\<lparr>loading := False, mapData := normalize (data c) (minValue c) (maxValue c),
            mapContent := Some (v\<lparr>host := update_at [0]
              (render_svg (c\<lparr>mapData := normalize (data c) (minValue c) (maxValue c)\<rparr>)) (host v)\<rparr>),
            emitted := emitted c @ [ChartReady]\<rparr>)"
  by (simp add: initializeMap_def render_Inr onChartReady_def emit_def
      render_svg_cong [of "c\<lparr>loading := True, mapData := m\<rparr>" "c\<lparr>mapData := m\<rparr>" for m])

lemma initializeMap_Inr_cases:
  assumes "initializeMap c = Inr c'"
  obtains (failed) v where "mapContent c = Some v" and "children (host v) = []"
      and "c' = c\<lparr>loading := True, mapData := normalize (data c) (minValue c) (maxValue c),
                   emitted := emitted c @ [ChartError loading_error]\<rparr>"
  | (ready) v where "mapContent c = Some v" and "children (host v) \<noteq> []"
      and "c' = c\<lparr>loading := False, mapData := normalize (data c) (minValue c) (maxValue c),
            mapContent := Some (v\<lparr>host := update_at [0]
              (render_svg (c\<lparr>mapData := normalize (data c) (minValue c) (maxValue c)\<rparr>)) (host v)\<rparr>),
            emitted := emitted c @ [ChartReady]\<rparr>"
proof (cases "mapContent c")
  case None
  with assms show ?thesis by (simp add: initializeMap_no_view)
next
  case (Some v)
  with assms failed [of v] ready [of v] show ?thesis
    by (cases "children (host v) = []") (simp_all add: initializeMap_no_svg initializeMap_svg)
qed

lemma update_at_0_twice:
  "update_at [0] f (update_at [0] g e) = update_at [0] (\<lambda>x. f (g x)) e"
  by (cases e) (simp add: list_update_overwrite)

lemma fill_after_pass:
  assumes "mapContent c = Some v" and "firstChild (host v) = Some svgMap"
    and "attrs_at svgMap p = Some a" and "p \<noteq> []" and "has_class COUNTRY_CLASS a"
  obtains c' v' where "initializeMap c = Inr c'" and "mapContent c' = Some v'"
    and "mapData c' = normalize (data c) (minValue c) (maxValue c)"
    and "map_option (\<lambda>b. st_fill (at_style b)) (attrs_at (host v') (0 # p)) =
           Some (fill_of (c\<lparr>mapData := normalize (data c) (minValue c) (maxValue c)\<rparr>) a)"
proof -
  from assms(2) have ch: "children (host v) \<noteq> []" and g: "get_at (host v) [0] = Some svgMap"
    by (auto simp: firstChild_Some_iff)
  let ?c2 = "c\<lparr>mapData := normalize (data c) (minValue c) (maxValue c)\<rparr>"
  let ?v = "v\<lparr>host := update_at [0] (render_svg ?c2) (host v)\<rparr>"
  have "attrs_at (host ?v) (0 # p) = attrs_at (render_svg ?c2 svgMap) p"
    using g by (simp add: attrs_at_update_at_sub del: update_at.simps get_at.simps)
  with assms(3-5) have "map_option (\<lambda>b. st_fill (at_style b)) (attrs_at (host ?v) (0 # p)) =
      Some (fill_of ?c2 a)"
    by (simp add: attrs_at_render_svg bind_item_def)
  with initializeMap_svg [OF assms(1) ch] that [of _ ?v] show ?thesis by simp
qed

lemmas lifecycle_eval =
  example_map_def initializeMap_def render_eval firstChild_def onChartReady_def onChartError_def
  emit_def loading_error_def example_names_def

section \<open>Properties of the render pass\<close>

text \<open>
  C10: A pass over a view whose host has the SVG as its first child succeeds: it leaves
  \<open>loading\<close> false, \<open>mapData\<close> replaced by the normalised data of the inputs, the SVG
  rendered from that \<open>mapData\<close> and the colours of the inputs, and the ready event
  appended to the events; the selection and the inputs are kept.
\<close>
theorem initializeMap_ready:
  assumes "mapContent c = Some v" and "firstChild (host v) = Some svgMap"
  shows "initializeMap c =
     Inr (c\<lparr>loading := False, mapData := normalize (data c) (minValue c) (maxValue c),
            mapContent := Some (v\<lparr>host := update_at [0]
              (render_svg (c\<lparr>mapData := normalize (data c) (minValue c) (maxValue c)\<rparr>)) (host v)\<rparr>),
            emitted := emitted c @ [ChartReady]\<rparr>)"
  using assms by (intro initializeMap_svg) (auto simp: firstChild_def split: list.splits)

theorem initializeMap_ready_witness:
  "map_option loading (case initializeMap example_map of Inl x \<Rightarrow> None | Inr c' \<Rightarrow> Some c') = Some False \<and>
   map_option emitted (case initializeMap example_map of Inl x \<Rightarrow> None | Inr c' \<Rightarrow> Some c') = Some [ChartReady]"
  using initializeMap_ready [of example_map
      "\<lparr>host = Element (plain_attrs ''map'' []) [example_svg],
        above = [plain_attrs ''countries-map'' []], attached = True\<rparr>" example_svg]
  by (simp add: example_map_def init_component_def firstChild_def)

text \<open>
  C16: A pass over a view whose host has no child fails inside the \<^verbatim>\<open>try\<close>: the loading
  error, with the message \<^verbatim>\<open>Could not load\<close>, is appended to the events and no ready
  event is; \<open>loading\<close> is left true, \<open>mapData\<close> has already been replaced by the
  normalised data, and the view is untouched.
\<close>
theorem initializeMap_failure:
  assumes "mapContent c = Some v" and "firstChild (host v) = None"
  shows "initializeMap c =
     Inr (c\<lparr>loading := True, mapData := normalize (data c) (minValue c) (maxValue c),
            emitted := emitted c @
              [ChartError \<lparr>err_id = Code Loading, err_message = ''Could not load'',
                           err_detailedMessage = None\<rparr>]\<rparr>)"
  using assms
  by (simp add: initializeMap_no_svg firstChild_def loading_error_def split: list.splits)

theorem initializeMap_failure_witness:
  "initializeMap (example_map\<lparr>loading := False,
       mapContent := Some \<lparr>host = leaf (plain_attrs ''map'' []), above = [], attached = True\<rparr>\<rparr>) =
   Inr (example_map\<lparr>loading := True, mapData := normalize (Some example_data) None None,
       mapContent := Some \<lparr>host = leaf (plain_attrs ''map'' []), above = [], attached = True\<rparr>,
       emitted := [ChartError \<lparr>err_id = Code Loading, err_message = ''Could not load'',
                                 err_detailedMessage = None\<rparr>]\<rparr>)"
  using initializeMap_failure [of "example_map\<lparr>loading := False,
       mapContent := Some \<lparr>host = leaf (plain_attrs ''map'' []), above = [], attached = True\<rparr>\<rparr>"
      "\<lparr>host = leaf (plain_attrs ''map'' []), above = [], attached = True\<rparr>"]
  by (simp add: example_map_def init_component_def firstChild_def leaf_def)

text \<open>
  C26: A pass before the view child exists raises outside the \<^verbatim>\<open>try\<close>: the exception
  escapes \<open>initializeMap\<close>, no event is emitted, and the state is left with \<open>loading\<close>
  true and everything else as it was. This is the only exception that escapes: with a
  view child, a pass returns.
\<close>
theorem initializeMap_uncaught:
  "(mapContent c = None \<longrightarrow> initializeMap c = Inl (ViewChildMissing, c\<lparr>loading := True\<rparr>)) \<and>
   (mapContent c \<noteq> None \<longrightarrow> (\<exists>c'. initializeMap c = Inr c'))"
  by (auto simp: initializeMap_def Let_def split: option.splits sum.splits)

theorem initializeMap_uncaught_witness:
  "initializeMap (init_component (Some example_data) example_names) =
     Inl (ViewChildMissing, init_component (Some example_data) example_names)"
  using initializeMap_uncaught [of "init_component (Some example_data) example_names"]
  by (simp add: init_component_def)

text \<open>
  A pass is idempotent up to the events: run again on the state it returned, with no
  input changed in between, it returns that state with its last event emitted once more;
  \<open>mapData\<close>, the document, \<open>loading\<close> and the selection are the same.
\<close>
lemma initializeMap_idempotent:
  assumes "initializeMap c = Inr c'"
  shows "initializeMap c' = Inr (c'\<lparr>emitted := emitted c' @ [last (emitted c')]\<rparr>)"
  using assms
proof (cases rule: initializeMap_Inr_cases)
  case (failed v)
  then show ?thesis by (simp add: initializeMap_no_svg)
next
  case (ready v)
  let ?m = "normalize (data c) (minValue c) (maxValue c)"
  let ?v = "v\<lparr>host := update_at [0] (render_svg (c\<lparr>mapData := ?m\<rparr>)) (host v)\<rparr>"
  have "render_svg (c'\<lparr>mapData := ?m\<rparr>) = render_svg (c\<lparr>mapData := ?m\<rparr>)"
    using ready(3) by (intro render_svg_cong) simp_all
  moreover have "mapContent c' = Some ?v" and "children (host ?v) \<noteq> []"
    using ready by simp_all
  ultimately show ?thesis
    using ready(3) initializeMap_svg [of c' ?v]
    by (simp add: update_at_0_twice del: update_at.simps)
qed

end
