(* ===== verification/Life_Cycle.thy ===== *)
theory Life_Cycle
  imports Countries_Map
begin

text \<open>
  The life of a component as a labelled transition system.
  \<^item> A \<open>system\<close> is the component, the flag \<open>dirty\<close> (the effect of the constructor is
    scheduled to run) and the dependencies \<open>deps\<close> of the effect: the inputs whose
    signals the last run of the effect has read. The constructor leaves the fields at
    their initialisers, the effect scheduled and no dependency recorded (\<open>initial\<close>).
  \<^item> \<open>reads\<close> gives the inputs that \<^verbatim>\<open>initializeMap\<close> reads on the path it takes in a
    state: none when the required view child is missing, the data always, the two bounds
    only inside \<^verbatim>\<open>if (data)\<close>, and the five colours only when the host has the SVG, since
    the assignment to \<^verbatim>\<open>svgMap.style\<close> raises before the first colour is read.
    \<open>tracked\<close> is the list of triggers of the specification: data, bounds and colours.
  \<^item> An \<open>action\<close> is what the host, the framework or the pointer does: the host writes an
    input (\<open>set_input\<close>; a write to a dependency schedules the effect), the view child
    comes into being, the scheduled effect runs \<^verbatim>\<open>initializeMap\<close> and records its
    dependencies anew, a click runs \<^verbatim>\<open>onMapSelect\<close> on the chain of its target, the
    pointer enters or leaves a node of the SVG and runs the handler bound there. A write
    schedules the effect whether or not the value written is new.
  \<^item> \<open>step\<close> is the transition relation, one rule per action and outcome: an exception
    of a handler ends the handler and leaves the state as it was at the throw.
    \<open>react\<close> is the same as a function, \<open>run\<close> folds it over a list of actions, and
    \<open>reachable\<close> are the states the system can be in.
  \<^item> \<open>invariant\<close> collects what holds in every reachable state: the keys of \<open>mapData\<close>
    are lower-case, the selection is well formed, the selection events emitted are well
    formed, the dependencies are among the triggers of the specification, and, whenever
    no effect is pending, the dependencies are those of the current state, \<open>mapData\<close>
    is the normalised data of the inputs and the document shows it (\<open>rendered\<close>).
  The invariant is proved by rule induction over \<open>reachable\<close> from one preservation lemma
  per rule of \<open>step\<close>; \<open>run_invariant\<close> transfers a property of steps to runs. The
  properties of the reachable states that follow from it are in \<open>Reachable_States\<close>.
\<close>

section \<open>Definitions\<close>

datatype input_change =
    SetData "CountriesData option"
  | SetCountryLabel string
  | SetValueLabel string
  | SetShowCaption bool
  | SetCaptionBelow bool
  | SetMinValue "jsnum option"
  | SetMaxValue "jsnum option"
  | SetMinColor string
  | SetMaxColor string
  | SetBackgroundColor string
  | SetNoDataColor string
  | SetExceptionColor string
  | SetLoading bool

fun set_input :: "input_change \<Rightarrow> component \<Rightarrow> component" where
  "set_input (SetData d) c = c\<lparr>data := d\<rparr>"
| "set_input (SetCountryLabel x) c = c\<lparr>countryLabel := x\<rparr>"
| "set_input (SetValueLabel x) c = c\<lparr>valueLabel := x\<rparr>"
| "set_input (SetShowCaption b) c = c\<lparr>showCaption := b\<rparr>"
| "set_input (SetCaptionBelow b) c = c\<lparr>captionBelow := b\<rparr>"
| "set_input (SetMinValue x) c = c\<lparr>minValue := x\<rparr>"
| "set_input (SetMaxValue x) c = c\<lparr>maxValue := x\<rparr>"
| "set_input (SetMinColor x) c = c\<lparr>minColor := x\<rparr>"
| "set_input (SetMaxColor x) c = c\<lparr>maxColor := x\<rparr>"
| "set_input (SetBackgroundColor x) c = c\<lparr>backgroundColor := x\<rparr>"
| "set_input (SetNoDataColor x) c = c\<lparr>noDataColor := x\<rparr>"
| "set_input (SetExceptionColor x) c = c\<lparr>exceptionColor := x\<rparr>"
| "set_input (SetLoading b) c = c\<lparr>loading := b\<rparr>"

fun tracked :: "input_change \<Rightarrow> bool" where
  "tracked (SetData d) = True"
| "tracked (SetMinValue x) = True"
| "tracked (SetMaxValue x) = True"
| "tracked (SetMinColor x) = True"
| "tracked (SetMaxColor x) = True"
| "tracked (SetBackgroundColor x) = True"
| "tracked (SetNoDataColor x) = True"
| "tracked (SetExceptionColor x) = True"
| "tracked i = False"

fun read_by_pass :: "bool \<Rightarrow> bool \<Rightarrow> input_change \<Rightarrow> bool" where
  "read_by_pass has_data has_svg (SetData d) = True"
| "read_by_pass has_data has_svg (SetMinValue x) = has_data"
| "read_by_pass has_data has_svg (SetMaxValue x) = has_data"
| "read_by_pass has_data has_svg (SetBackgroundColor x) = has_svg"
| "read_by_pass has_data has_svg (SetNoDataColor x) = has_svg"
| "read_by_pass has_data has_svg (SetExceptionColor x) = has_svg"
| "read_by_pass has_data has_svg (SetMinColor x) = has_svg"
| "read_by_pass has_data has_svg (SetMaxColor x) = has_svg"
| "read_by_pass has_data has_svg i = False"

definition reads :: "component \<Rightarrow> input_change \<Rightarrow> bool" where
  "reads c i =
     (case mapContent c of
        None \<Rightarrow> False
      | Some v \<Rightarrow> read_by_pass (data c \<noteq> None) (children (host v) \<noteq> []) i)"

record system =
  inst :: component
  dirty :: bool
  deps :: "input_change \<Rightarrow> bool"

definition initial :: "CountriesData option \<Rightarrow> (string \<Rightarrow> string option) \<Rightarrow> system" where
  "initial d gn = \<lparr>inst = init_component d gn, dirty = True, deps = (\<lambda>i. False)\<rparr>"

datatype action =
    Input input_change
  | ViewInit view
  | Effect
  | Click "path option"
  | Pointer pointer path

definition is_click :: "action \<Rightarrow> bool" where
  "is_click a = (case a of Click tgt \<Rightarrow> True | _ \<Rightarrow> False)"

definition click_chain :: "view \<Rightarrow> path option \<Rightarrow> node list" where
  "click_chain v tgt = (case tgt of None \<Rightarrow> [] | Some p \<Rightarrow> node_chain v p)"

definition dispatch :: "pointer \<Rightarrow> path \<Rightarrow> view \<Rightarrow> view" where
  "dispatch ev p v = v\<lparr>host := update_at [0] (fire ev p) (host v)\<rparr>"

inductive step :: "system \<Rightarrow> action \<Rightarrow> system \<Rightarrow> bool" where
  input: "step s (Input i) (s\<lparr>inst := set_input i (inst s), dirty := (dirty s \<or> deps s i)\<rparr>)"
| view_init:
    "mapContent (inst s) = None \<Longrightarrow>
     step s (ViewInit v) (s\<lparr>inst := (inst s)\<lparr>mapContent := Some v\<rparr>, dirty := True\<rparr>)"
| effect:
    "dirty s \<Longrightarrow> initializeMap (inst s) = Inr c' \<Longrightarrow>
     step s Effect \<lparr>inst = c', dirty = False, deps = reads (inst s)\<rparr>"
| effect_raises:
    "dirty s \<Longrightarrow> initializeMap (inst s) = Inl (e, c') \<Longrightarrow>
     step s Effect \<lparr>inst = c', dirty = False, deps = reads (inst s)\<rparr>"
| click:
    "mapContent (inst s) = Some v \<Longrightarrow> onMapSelect (click_chain v tgt) (inst s) = Inr c' \<Longrightarrow>
     step s (Click tgt) (s\<lparr>inst := c'\<rparr>)"
| click_raises:
    "mapContent (inst s) = Some v \<Longrightarrow> onMapSelect (click_chain v tgt) (inst s) = Inl e \<Longrightarrow>
     step s (Click tgt) s"
| pointer:
    "mapContent (inst s) = Some v \<Longrightarrow>
     step s (Pointer ev p) (s\<lparr>inst := (inst s)\<lparr>mapContent := Some (dispatch ev p v)\<rparr>\<rparr>)"

fun react :: "action \<Rightarrow> system \<Rightarrow> system option" where
  "react (Input i) s = Some (s\<lparr>inst := set_input i (inst s), dirty := (dirty s \<or> deps s i)\<rparr>)"
| "react (ViewInit v) s =
     (if mapContent (inst s) = None
      then Some (s\<lparr>inst := (inst s)\<lparr>mapContent := Some v\<rparr>, dirty := True\<rparr>) else None)"
| "react Effect s =
     (if dirty s
      then Some \<lparr>inst = (case initializeMap (inst s) of Inl (e, c') \<Rightarrow> c' | Inr c' \<Rightarrow> c'),
                 dirty = False, deps = reads (inst s)\<rparr>
      else None)"
| "react (Click tgt) s =
     (case mapContent (inst s) of
        None \<Rightarrow> None
      | Some v \<Rightarrow>
          Some (case onMapSelect (click_chain v tgt) (inst s) of
                  Inl e \<Rightarrow> s
                | Inr c' \<Rightarrow> s\<lparr>inst := c'\<rparr>))"
| "react (Pointer ev p) s =
     (case mapContent (inst s) of
        None \<Rightarrow> None
      | Some v \<Rightarrow> Some (s\<lparr>inst := (inst s)\<lparr>mapContent := Some (dispatch ev p v)\<rparr>\<rparr>))"

fun run :: "action list \<Rightarrow> system \<Rightarrow> system option" where
  "run [] s = Some s"
| "run (a # as) s = (case react a s of None \<Rightarrow> None | Some s' \<Rightarrow> run as s')"

inductive reachable :: "system \<Rightarrow> bool" where
  init: "reachable (initial d gn)"
| step: "reachable s \<Longrightarrow> step s a s' \<Longrightarrow> reachable s'"

definition keys_lower :: "component \<Rightarrow> bool" where
  "keys_lower c = (\<forall>k \<in> dom (mapData c). toLowerCase k = k)"

definition wf_event :: "out_event \<Rightarrow> bool" where
  "wf_event ev =
     (case ev of
        ChartSelect e \<Rightarrow>
          if ev_selected e then toUpperCase (ev_country e) = ev_country e \<and> ev_value e \<noteq> None
          else e = unselected_event
      | ChartError e \<Rightarrow> e = loading_error
      | ChartReady \<Rightarrow> True)"

definition in_sync :: "component \<Rightarrow> bool" where
  "in_sync c = (mapData c = normalize (data c) (minValue c) (maxValue c))"

definition rendered :: "component \<Rightarrow> element \<Rightarrow> bool" where
  "rendered c svgMap =
     (st_backgroundColor (at_style (attrs svgMap)) = backgroundColor c \<and>
      list_all
        (\<lambda>p. case attrs_at svgMap p of
                None \<Rightarrow> True
              | Some a \<Rightarrow>
                  st_fill (at_style a) = fill_of c a \<and>
                  at_onmouseenter a = Some (CountryHover True) \<and>
                  at_onmouseleave a = Some (CountryHover False))
        (querySelectorAll COUNTRY_CLASS svgMap))"

definition shown :: "component \<Rightarrow> bool" where
  "shown c =
     (case mapContent c of
        None \<Rightarrow> True
      | Some v \<Rightarrow> (case firstChild (host v) of None \<Rightarrow> True | Some svgMap \<Rightarrow> rendered c svgMap))"

definition invariant :: "system \<Rightarrow> bool" where
  "invariant s =
     (keys_lower (inst s) \<and> wf_selection (inst s) \<and> list_all wf_event (emitted (inst s)) \<and>
      (\<not> dirty s \<and> mapContent (inst s) \<noteq> None \<longrightarrow> in_sync (inst s) \<and> shown (inst s)) \<and>
      (\<forall>i. deps s i \<longrightarrow> tracked i) \<and> (\<not> dirty s \<longrightarrow> deps s = reads (inst s)))"

lemmas life_cycle_defs [cm_defs] =
  initial_def click_chain_def dispatch_def keys_lower_def wf_event_def in_sync_def
  rendered_def shown_def invariant_def

inductive_cases step_InputE: "step s (Input i) s'"
inductive_cases step_ViewInitE: "step s (ViewInit v) s'"
inductive_cases step_EffectE: "step s Effect s'"
inductive_cases step_ClickE: "step s (Click tgt) s'"
inductive_cases step_PointerE: "step s (Pointer ev p) s'"

section \<open>The transition function\<close>

lemma step_iff_react: "step s a s' \<longleftrightarrow> react a s = Some s'"
proof
  assume "step s a s'"
  then show "react a s = Some s'" by cases auto
next
  assume r: "react a s = Some s'"
  show "step s a s'"
  proof (cases a)
    case (Input i)
    with r step.input [of s i] show ?thesis by auto
  next
    case (ViewInit v)
    with r step.view_init [of s v] show ?thesis by (auto split: if_splits)
  next
    case Effect
    with r show ?thesis
      by (cases "initializeMap (inst s)") (auto split: if_splits intro: step.effect step.effect_raises)
  next
    case (Click tgt)
    with r show ?thesis
      by (auto split: option.splits sum.splits intro: step.click step.click_raises)
  next
    case (Pointer ev p)
    with r show ?thesis by (auto split: option.splits intro: step.pointer)
  qed
qed

lemma step_deterministic: "step s a s' \<Longrightarrow> step s a s'' \<Longrightarrow> s' = s''"
  by (simp add: step_iff_react)

section \<open>What a document shows\<close>

lemma rendered_iff:
  "rendered c svgMap \<longleftrightarrow>
     st_backgroundColor (at_style (attrs svgMap)) = backgroundColor c \<and>
     (\<forall>p a. p \<noteq> [] \<and> attrs_at svgMap p = Some a \<and> has_class COUNTRY_CLASS a \<longrightarrow>
        st_fill (at_style a) = fill_of c a \<and>
        at_onmouseenter a = Some (CountryHover True) \<and>
        at_onmouseleave a = Some (CountryHover False))"
  by (auto simp: rendered_def list_all_iff set_querySelectorAll)

lemma rendered_render_svg: "rendered c (render_svg c svgMap)"
  using attrs_at_render_svg [of c svgMap "[]"]
  by (auto simp: rendered_iff attrs_at_render_svg bind_item_def set_background_def
      has_class_def fill_of_def split: option.splits if_splits)

lemma fill_of_cong:
  assumes "mapData c = mapData c'" and "noDataColor c = noDataColor c'"
    and "exceptionColor c = exceptionColor c'" and "minColor c = minColor c'"
    and "maxColor c = maxColor c'"
  shows "fill_of c = fill_of c'"
  using assms by (simp add: fill_of_def fun_eq_iff Let_def)

lemma rendered_cong:
  assumes "mapData c = mapData c'" and "backgroundColor c = backgroundColor c'"
    and "noDataColor c = noDataColor c'" and "exceptionColor c = exceptionColor c'"
    and "minColor c = minColor c'" and "maxColor c = maxColor c'"
  shows "rendered c = rendered c'"
  unfolding rendered_def fun_eq_iff assms(2) fill_of_cong [OF assms(1,3-6)] by simp

lemma set_stroke_eqD:
  assumes "set_stroke h a = set_stroke h b"
  shows "at_id a = at_id b" and "at_classList a = at_classList b"
    and "st_fill (at_style a) = st_fill (at_style b)"
    and "st_backgroundColor (at_style a) = st_backgroundColor (at_style b)"
    and "at_onmouseenter a = at_onmouseenter b" and "at_onmouseleave a = at_onmouseleave b"
proof -
  have "at_id (set_stroke h a) = at_id (set_stroke h b)"
    "at_classList (set_stroke h a) = at_classList (set_stroke h b)"
    "st_fill (at_style (set_stroke h a)) = st_fill (at_style (set_stroke h b))"
    "st_backgroundColor (at_style (set_stroke h a)) = st_backgroundColor (at_style (set_stroke h b))"
    "at_onmouseenter (set_stroke h a) = at_onmouseenter (set_stroke h b)"
    "at_onmouseleave (set_stroke h a) = at_onmouseleave (set_stroke h b)"
    using assms by simp_all
  then show "at_id a = at_id b" and "at_classList a = at_classList b"
    and "st_fill (at_style a) = st_fill (at_style b)"
    and "st_backgroundColor (at_style a) = st_backgroundColor (at_style b)"
    and "at_onmouseenter a = at_onmouseenter b" and "at_onmouseleave a = at_onmouseleave b"
    by (simp_all add: set_stroke_def)
qed

lemma countryHover_mod_stroke:
  "map_option (set_stroke h) (attrs_at (countryHover item h') q) =
   map_option (set_stroke h) (attrs_at item q)"
  by (auto simp: attrs_at_countryHover split: option.split)

lemma fire_mod_stroke:
  "map_option (set_stroke h) (attrs_at (fire ev p svg) q) = map_option (set_stroke h) (attrs_at svg q)"
proof (cases "get_at svg p")
  case None
  then show ?thesis by (simp add: fire_def attrs_at_def)
next
  case (Some x)
  show ?thesis
  proof (cases "take (length p) q = p")
    case False
    with Some show ?thesis
      by (auto simp: fire_def attrs_at_update_at_sub split: option.split handler.split)
  next
    case True
    then have "q = p @ drop (length p) q" by (metis append_take_drop_id)
    then have "attrs_at svg q = attrs_at x (drop (length p) q)"
      using Some attrs_at_append [of svg p "drop (length p) q"] by simp
    with True Some show ?thesis
      by (auto simp: fire_def attrs_at_update_at_sub countryHover_mod_stroke
          split: option.split handler.split)
  qed
qed

lemma attrs_at_fire_cases:
  assumes "attrs_at (fire ev p svg) q = Some a"
  obtains b where "attrs_at svg q = Some b" and "set_stroke False a = set_stroke False b"
  using assms fire_mod_stroke [of False ev p svg q] by (cases "attrs_at svg q") auto

lemma rendered_fire:
  assumes "rendered c svgMap"
  shows "rendered c (fire ev p svgMap)"
  unfolding rendered_iff
proof (rule conjI)
  obtain b where "attrs_at svgMap [] = Some b"
    and "set_stroke False (attrs (fire ev p svgMap)) = set_stroke False b"
    by (rule attrs_at_fire_cases [of ev p svgMap "[]"]) simp_all
  with assms show "st_backgroundColor (at_style (attrs (fire ev p svgMap))) = backgroundColor c"
    by (auto simp: rendered_iff dest: set_stroke_eqD(4))
next
  show "\<forall>q a. q \<noteq> [] \<and> attrs_at (fire ev p svgMap) q = Some a \<and> has_class COUNTRY_CLASS a \<longrightarrow>
      st_fill (at_style a) = fill_of c a \<and>
      at_onmouseenter a = Some (CountryHover True) \<and> at_onmouseleave a = Some (CountryHover False)"
  proof (intro allI impI)
    fix q a
    assume q: "q \<noteq> [] \<and> attrs_at (fire ev p svgMap) q = Some a \<and> has_class COUNTRY_CLASS a"
    then obtain b where b: "attrs_at svgMap q = Some b"
      and e: "set_stroke False a = set_stroke False b"
      by (auto elim: attrs_at_fire_cases)
    from q set_stroke_eqD(2) [OF e] have "has_class COUNTRY_CLASS b" by (simp add: has_class_def)
    with assms q b have "st_fill (at_style b) = fill_of c b \<and>
        at_onmouseenter b = Some (CountryHover True) \<and> at_onmouseleave b = Some (CountryHover False)"
      unfolding rendered_iff by blast
    moreover have "fill_of c a = fill_of c b"
      using set_stroke_eqD(1) [OF e] by (simp add: fill_of_def)
    ultimately show "st_fill (at_style a) = fill_of c a \<and>
        at_onmouseenter a = Some (CountryHover True) \<and> at_onmouseleave a = Some (CountryHover False)"
      using set_stroke_eqD(3,5,6) [OF e] by simp
  qed
qed

section \<open>Preservation\<close>

lemma wf_selection_cong:
  "selection c = selection c' \<Longrightarrow> getName c = getName c' \<Longrightarrow> wf_selection c = wf_selection c'"
  by (simp add: wf_selection_def countryName_def cong: option.case_cong)

lemma shown_cong:
  assumes "mapContent c = mapContent c'" and "mapData c = mapData c'"
    and "backgroundColor c = backgroundColor c'"
    and "noDataColor c = noDataColor c'" and "exceptionColor c = exceptionColor c'"
    and "minColor c = minColor c'" and "maxColor c = maxColor c'"
  shows "shown c = shown c'"
  unfolding shown_def assms(1) rendered_cong [OF assms(2-7)] ..

lemma keys_lower_normalize: "mapData c = normalize d lo hi \<Longrightarrow> keys_lower c"
  by (auto simp: keys_lower_def dest: normalize_key_lower)

lemma set_input_frame [simp]:
  "mapData (set_input i c) = mapData c"
  "selection (set_input i c) = selection c"
  "getName (set_input i c) = getName c"
  "emitted (set_input i c) = emitted c"
  "mapContent (set_input i c) = mapContent c"
  by (cases i; simp)+

lemma reads_tracked: "reads c i \<Longrightarrow> tracked i"
  by (cases i) (auto simp: reads_def split: option.splits)

lemma reads_full:
  "mapContent c = Some v \<Longrightarrow> data c \<noteq> None \<Longrightarrow> children (host v) \<noteq> [] \<Longrightarrow> reads c = tracked"
proof
  fix i
  assume "mapContent c = Some v" "data c \<noteq> None" "children (host v) \<noteq> []"
  then show "reads c i = tracked i" by (cases i) (simp_all add: reads_def)
qed

lemma children_update_at_Nil [simp]:
  "children (update_at (i # p) f e) = [] \<longleftrightarrow> children e = []"
  using children_update_at_length [of i p f e] by (simp only: length_0_conv [symmetric])

lemma reads_cong:
  assumes "map_option (\<lambda>v. children (host v) = []) (mapContent c) =
      map_option (\<lambda>v. children (host v) = []) (mapContent c')"
    and "(data c = None) = (data c' = None)"
  shows "reads c = reads c'"
  using assms by (cases "mapContent c"; cases "mapContent c'") (auto simp: reads_def fun_eq_iff)

lemma reads_set_input: "\<not> reads c i \<Longrightarrow> reads (set_input i c) = reads c"
  by (cases i; cases "mapContent c") (simp_all add: reads_def fun_eq_iff)

lemma set_input_unread:
  assumes "\<not> reads c i" and "mapContent c \<noteq> None"
  shows "in_sync (set_input i c) = in_sync c" and "shown (set_input i c) = shown c"
proof -
  from assms(2) obtain v where v: "mapContent c = Some v" by auto
  with assms(1) show "in_sync (set_input i c) = in_sync c"
    by (cases i) (simp_all add: in_sync_def reads_def)
  show "shown (set_input i c) = shown c"
  proof (cases "children (host v) = []")
    case True
    with v show ?thesis by (simp add: shown_def firstChild_def)
  next
    case False
    with assms(1) v show ?thesis by (intro shown_cong; cases i) (simp_all add: reads_def)
  qed
qed

lemma initializeMap_Inl:
  "initializeMap c = Inl (e, c') \<longleftrightarrow> mapContent c = None \<and> e = ViewChildMissing \<and> c' = c\<lparr>loading := True\<rparr>"
  by (auto simp: initializeMap_def Let_def split: option.splits sum.splits)

lemma initializeMap_invariant:
  assumes "initializeMap c = Inr c'"
  shows "keys_lower c' \<and> in_sync c' \<and> shown c' \<and> selection c' = selection c \<and>
      getName c' = getName c \<and> (\<exists>ev. emitted c' = emitted c @ [ev] \<and> wf_event ev)"
  using assms
proof (cases rule: initializeMap_Inr_cases)
  case (failed v)
  then show ?thesis
    by (simp add: keys_lower_normalize in_sync_def shown_def firstChild_def wf_event_def)
next
  case (ready v)
  let ?c2 = "c\<lparr>mapData := normalize (data c) (minValue c) (maxValue c)\<rparr>"
  have "rendered c' = rendered ?c2" using ready(3) by (intro rendered_cong) simp_all
  with ready show ?thesis
    by (simp add: keys_lower_normalize in_sync_def shown_def firstChild_update_at_0
        rendered_render_svg wf_event_def del: update_at.simps split: option.split)
qed

lemma reads_initializeMap:
  assumes "initializeMap c = Inr c'"
  shows "reads c' = reads c"
  using assms
  by (cases rule: initializeMap_Inr_cases) (auto intro!: reads_cong simp del: update_at.simps)

lemma rendered_render_svg_id:
  assumes "rendered c svgMap"
  shows "render_svg c svgMap = svgMap"
proof (rule element_eqI)
  fix p
  from assms show "attrs_at (render_svg c svgMap) p = attrs_at svgMap p"
    unfolding rendered_iff attrs_at_render_svg
    by (cases "attrs_at svgMap p") (auto simp: set_background_def bind_item_def)
qed

lemma initializeMap_quiescent:
  assumes "initializeMap c = Inr c'" and "in_sync c" and "shown c"
  shows "mapData c' = mapData c" and "mapContent c' = mapContent c"
proof -
  from assms(1,2) show "mapData c' = mapData c"
    by (cases rule: initializeMap_Inr_cases) (simp_all add: in_sync_def)
  from assms(1) show "mapContent c' = mapContent c"
  proof (cases rule: initializeMap_Inr_cases)
    case (failed v)
    then show ?thesis by simp
  next
    case (ready v)
    then obtain svgMap rest where ch: "children (host v) = svgMap # rest"
      by (cases "children (host v)") auto
    let ?c2 = "c\<lparr>mapData := normalize (data c) (minValue c) (maxValue c)\<rparr>"
    from assms(2) have "rendered ?c2 = rendered c" by (intro rendered_cong) (simp_all add: in_sync_def)
    with assms(3) ready(1) ch have "render_svg ?c2 svgMap = svgMap"
      by (intro rendered_render_svg_id) (simp add: shown_def firstChild_def)
    with ch have "update_at [0] (render_svg ?c2) (host v) = host v"
      by (cases "host v") simp
    with ready show ?thesis by simp
  qed
qed

lemma onMapSelect_invariant:
  assumes "onMapSelect chain c = Inr c'"
  shows "c' = c\<lparr>selection := selection c', emitted := emitted c'\<rparr>" and "wf_selection c'"
    and "\<exists>ev. emitted c' = emitted c @ [ev] \<and> wf_event ev"
  using assms
  by (cases rule: onMapSelect_Inr_cases;
      simp add: emit_def wf_selection_def countryName_def wf_event_def selected_event_def
        unselected_event_def)+

lemma shown_dispatch:
  assumes "shown c" and "mapContent c = Some v"
  shows "shown (c\<lparr>mapContent := Some (dispatch ev p v)\<rparr>)"
proof -
  have "rendered (c\<lparr>mapContent := Some (dispatch ev p v)\<rparr>) = rendered c"
    by (intro rendered_cong) simp_all
  with assms show ?thesis
    by (auto simp: shown_def dispatch_def firstChild_update_at_0 rendered_fire
        simp del: update_at.simps split: option.splits)
qed

section \<open>The invariant\<close>

lemma invariant_initial: "invariant (initial d gn)"
  by (simp add: invariant_def initial_def init_component_def keys_lower_def wf_selection_def
      reads_def fun_eq_iff)

lemma invariantD:
  assumes "invariant s"
  shows "keys_lower (inst s)" and "wf_selection (inst s)" and "list_all wf_event (emitted (inst s))"
    and "\<not> dirty s \<Longrightarrow> mapContent (inst s) \<noteq> None \<Longrightarrow> in_sync (inst s)"
    and "\<not> dirty s \<Longrightarrow> mapContent (inst s) \<noteq> None \<Longrightarrow> shown (inst s)"
    and "deps s i \<Longrightarrow> tracked i"
    and "\<not> dirty s \<Longrightarrow> deps s = reads (inst s)"
  using assms by (simp_all add: invariant_def)

lemma invariantI:
  assumes "keys_lower (inst s)" and "wf_selection (inst s)" and "list_all wf_event (emitted (inst s))"
    and "\<not> dirty s \<Longrightarrow> mapContent (inst s) \<noteq> None \<Longrightarrow> in_sync (inst s) \<and> shown (inst s)"
    and "\<And>i. deps s i \<Longrightarrow> tracked i"
    and "\<not> dirty s \<Longrightarrow> deps s = reads (inst s)"
  shows "invariant s"
  using assms by (auto simp: invariant_def)

lemma keys_lower_cong: "mapData c = mapData c' \<Longrightarrow> keys_lower c = keys_lower c'"
  by (simp add: keys_lower_def)

lemma invariant_input:
  assumes "invariant s"
  shows "invariant (s\<lparr>inst := set_input i (inst s), dirty := (dirty s \<or> deps s i)\<rparr>)"
proof -
  have "keys_lower (set_input i (inst s)) = keys_lower (inst s)"
    "wf_selection (set_input i (inst s)) = wf_selection (inst s)"
    by (intro keys_lower_cong wf_selection_cong; simp)+
  moreover have "\<not> reads (inst s) i" if "\<not> dirty s" "\<not> deps s i"
    using that invariantD(7) [OF assms] by simp
  ultimately show ?thesis
    using invariantD [OF assms]
    by (intro invariantI) (simp_all add: set_input_unread reads_set_input)
qed

lemma invariant_view_init:
  assumes "invariant s"
  shows "invariant (s\<lparr>inst := (inst s)\<lparr>mapContent := Some v\<rparr>, dirty := True\<rparr>)"
proof -
  have "keys_lower ((inst s)\<lparr>mapContent := Some v\<rparr>) = keys_lower (inst s)"
    "wf_selection ((inst s)\<lparr>mapContent := Some v\<rparr>) = wf_selection (inst s)"
    by (intro keys_lower_cong wf_selection_cong; simp)+
  with invariantD [OF assms] show ?thesis by (intro invariantI) simp_all
qed

lemma invariant_effect:
  assumes "invariant s" and "initializeMap (inst s) = Inr c'"
  shows "invariant \<lparr>inst = c', dirty = False, deps = reads (inst s)\<rparr>"
proof -
  from initializeMap_invariant [OF assms(2)] obtain ev
    where *: "keys_lower c'" "in_sync c'" "shown c'" "selection c' = selection (inst s)"
      "getName c' = getName (inst s)" "emitted c' = emitted (inst s) @ [ev]" "wf_event ev"
    by blast
  with invariantD(1-3) [OF assms(1)] wf_selection_cong [OF *(4,5)] assms(2) show ?thesis
    by (intro invariantI) (simp_all add: reads_initializeMap reads_tracked)
qed

lemma invariant_effect_raises:
  assumes "invariant s" and "initializeMap (inst s) = Inl (e, c')"
  shows "invariant \<lparr>inst = c', dirty = False, deps = reads (inst s)\<rparr>"
proof -
  from assms(2) have c': "c' = (inst s)\<lparr>loading := True\<rparr>" "mapContent (inst s) = None"
    by (simp_all add: initializeMap_Inl)
  have "keys_lower c' = keys_lower (inst s)" "wf_selection c' = wf_selection (inst s)"
    "reads c' = reads (inst s)"
    unfolding c' by (intro keys_lower_cong wf_selection_cong reads_cong; simp)+
  with c' invariantD(1-3) [OF assms(1)] show ?thesis
    by (intro invariantI) (simp_all add: reads_tracked)
qed

lemma invariant_click:
  assumes "invariant s" and "onMapSelect chain (inst s) = Inr c'"
  shows "invariant (s\<lparr>inst := c'\<rparr>)"
proof -
  from onMapSelect_invariant [OF assms(2)] obtain ev sel
    where f: "c' = (inst s)\<lparr>selection := sel, emitted := emitted (inst s) @ [ev]\<rparr>"
      and w: "wf_selection c'" and e: "emitted c' = emitted (inst s) @ [ev]" "wf_event ev"
    by metis
  have "keys_lower c' = keys_lower (inst s)" "in_sync c' = in_sync (inst s)"
    "mapContent c' = mapContent (inst s)"
    unfolding f by (simp_all add: keys_lower_def in_sync_def)
  moreover have "shown c' = shown (inst s)" unfolding f by (intro shown_cong) simp_all
  moreover have "reads c' = reads (inst s)" unfolding f by (intro reads_cong) simp_all
  ultimately show ?thesis
    using invariantD [OF assms(1)] w e by (intro invariantI) simp_all
qed

lemma invariant_pointer:
  assumes "invariant s" and "mapContent (inst s) = Some v"
  shows "invariant (s\<lparr>inst := (inst s)\<lparr>mapContent := Some (dispatch ev p v)\<rparr>\<rparr>)"
proof -
  let ?c = "(inst s)\<lparr>mapContent := Some (dispatch ev p v)\<rparr>"
  have k: "keys_lower ?c = keys_lower (inst s)" "wf_selection ?c = wf_selection (inst s)"
    by (intro keys_lower_cong wf_selection_cong; simp)+
  have i: "in_sync ?c = in_sync (inst s)" by (simp add: in_sync_def)
  have r: "reads ?c = reads (inst s)"
    using assms(2) by (intro reads_cong) (simp_all add: dispatch_def del: update_at.simps)
  from assms(2) invariantD [OF assms(1)] shown_dispatch [of "inst s" v ev p] k i r show ?thesis
    by (intro invariantI) simp_all
qed

lemma step_invariant:
  assumes "step s a s'" and "invariant s"
  shows "invariant s'"
  using assms
  by (cases rule: step.cases)
    (simp_all add: invariant_input invariant_view_init invariant_effect invariant_effect_raises
      invariant_click invariant_pointer)

lemma reachable_invariant: "reachable s \<Longrightarrow> invariant s"
  by (induction rule: reachable.induct) (auto intro: invariant_initial step_invariant)

lemma reachable_run: "reachable s \<Longrightarrow> run as s = Some s' \<Longrightarrow> reachable s'"
proof (induction as arbitrary: s)
  case Nil
  then show ?case by simp
next
  case (Cons a as)
  then obtain t where "react a s = Some t" and "run as t = Some s'"
    by (auto split: option.splits)
  with Cons show ?case by (metis reachable.step step_iff_react)
qed

section \<open>Runs\<close>

lemma is_click_simps [simp]:
  "is_click (Click tgt)" "\<not> is_click (Input i)" "\<not> is_click (ViewInit v)" "\<not> is_click Effect"
  "\<not> is_click (Pointer ev p)"
  by (simp_all add: is_click_def)

lemma run_append: "run (xs @ ys) s = Option.bind (run xs s) (run ys)"
  by (induction xs arbitrary: s) (simp_all split: option.split)

lemma run_invariant:
  assumes r: "\<And>s a s'. step s a s' \<Longrightarrow> Q s \<Longrightarrow> P a \<Longrightarrow> Q s'"
    and "run as s = Some s'" and "Q s" and "\<forall>a \<in> set as. P a"
  shows "Q s'"
  using assms(2-)
proof (induction as arbitrary: s)
  case Nil
  then show ?case by simp
next
  case (Cons a as)
  then obtain t where t: "step s a t" and "run as t = Some s'"
    by (auto simp: step_iff_react split: option.splits)
  with Cons r [OF t] show ?case by simp
qed

lemma step_selection_frame:
  assumes "step s a s'" and "\<not> is_click a"
  shows "selection (inst s') = selection (inst s)"
  using assms
  by (cases rule: step.cases) (auto simp: initializeMap_Inl dest: initializeMap_invariant)

lemma step_Effect_data:
  assumes "step s Effect s'"
  shows "data (inst s') = data (inst s)"
  using assms
  by (cases rule: step.cases) (auto simp: initializeMap_Inl elim: initializeMap_Inr_cases)

lemma step_Effect_enabled: "dirty s \<Longrightarrow> \<exists>s'. step s Effect s'"
  by (cases "initializeMap (inst s)") (auto intro: step.effect step.effect_raises)


end
