(* ===== verification/Reachable_States.thy ===== *)
theory Reachable_States
  imports Life_Cycle
begin

text \<open>
  What holds of the component in every state it can reach, and along its runs.
  \<^item> \<open>announced_id\<close> is what a host that sees only the outputs knows of the selection:
    the country of the last selection event (\<open>last_select\<close>), when that event has
    \<open>selected\<close> true and a country.
  \<^item> \<open>example_start\<close> is a component created with data for France; \<open>example_run\<close>,
    \<open>example_clicks\<close> and \<open>example_no_data\<close> are runs, evaluated by the lemmas of the
    section on examples.
  The theorems state the invariant of \<open>Life_Cycle\<close> clause by clause (the document shows
  the data, the resolved map is in step with the inputs, the selection and the events
  are well formed), that the selection is the one the events have announced, that a
  pending effect completes, that a pass not scheduled is a pass not needed, and that
  only clicks change the selection.
\<close>

section \<open>Definitions\<close>

fun last_select :: "out_event list \<Rightarrow> ChartSelectEvent option" where
  "last_select [] = None"
| "last_select (ev # evs) =
     (case last_select evs of
        Some e \<Rightarrow> Some e
      | None \<Rightarrow> (case ev of ChartSelect e \<Rightarrow> Some e | _ \<Rightarrow> None))"

definition announced_id :: "out_event list \<Rightarrow> string option" where
  "announced_id evs =
     (case last_select evs of
        None \<Rightarrow> None
      | Some e \<Rightarrow> if ev_selected e \<and> ev_country e \<noteq> [] then Some (ev_country e) else None)"

definition announced :: "component \<Rightarrow> bool" where
  "announced c = (map_option sel_countryId (selection c) = announced_id (emitted c))"

definition example_start :: system where
  "example_start =
     initial (Some [(''FR'', \<lparr>cd_value = JNumber 42, cd_extra = Some [(''capital'', JString ''Paris'')]\<rparr>)])
       example_names"

definition example_run :: "action list" where
  "example_run = [ViewInit example_view, Effect, Click (Some [0, 1, 0])]"

definition example_no_data :: "action list" where
  "example_no_data = [ViewInit example_view, Effect, Input (SetMinValue (Some 5))]"

definition example_clicks :: "action list" where
  "example_clicks =
     example_run @ [Pointer MouseEnter [1], Input (SetData (Some [])), Click (Some [0, 0])]"

section \<open>The selection and the events\<close>

lemma last_select_snoc [simp]:
  "last_select (evs @ [ChartSelect e]) = Some e"
  "last_select (evs @ [ChartReady]) = last_select evs"
  "last_select (evs @ [ChartError err]) = last_select evs"
  by (induction evs) (simp_all split: option.split)

lemma announced_cong:
  "selection c = selection c' \<Longrightarrow> emitted c = emitted c' \<Longrightarrow> announced c = announced c'"
  by (simp add: announced_def)

lemma initializeMap_announced:
  assumes "initializeMap c = Inr c'"
  shows "announced c' = announced c"
  using assms by (cases rule: initializeMap_Inr_cases) (simp_all add: announced_def announced_id_def)

lemma onMapSelect_announced:
  assumes "onMapSelect chain c = Inr c'"
  shows "announced c'"
  using assms
  by (cases rule: onMapSelect_Inr_cases)
    (simp_all add: announced_def announced_id_def emit_def selected_event_def unselected_event_def)

lemma step_announced:
  assumes "step s a s'" and "announced (inst s)"
  shows "announced (inst s')"
  using assms
  by (cases rule: step.cases)
    (auto simp: initializeMap_announced initializeMap_Inl onMapSelect_announced
      intro: announced_cong [THEN iffD1, rotated -1])

section \<open>Evaluation on examples\<close>

lemmas life_cycle_eval =
  example_run_def example_clicks_def example_start_def initial_def click_chain_def dispatch_def
  init_component_def example_view_def initializeMap_def render_def firstChild_def reads_def
  onChartReady_def onChartError_def emit_def Let_def selection_eval render_eval normalizer_eval

lemma reachable_start: "reachable example_start"
  by (simp add: example_start_def reachable.init)

lemma example_run_result:
  "\<exists>s v svgMap a. run example_run example_start = Some s \<and> \<not> dirty s \<and>
     mapContent (inst s) = Some v \<and> firstChild (host v) = Some svgMap \<and>
     attrs_at svgMap [1] = Some a \<and> has_class COUNTRY_CLASS a \<and>
     st_fill (at_style a) = ColorMix ''oklch(55% 0.25 25)'' 0 ''oklch(100% 0 0)'' \<and>
     map_option sel_countryId (selection (inst s)) = Some ''FR''"
  by (simp add: life_cycle_eval)

lemma example_clicks_result:
  "\<exists>s. run example_clicks example_start = Some s \<and> dirty s \<and> selection (inst s) = None \<and>
     emitted (inst s) =
       [ChartReady,
        ChartSelect \<lparr>ev_selected = True, ev_value = Some 42, ev_country = ''FR'',
                     ev_extra = Some [(''capital'', JString ''Paris'')]\<rparr>,
        ChartSelect \<lparr>ev_selected = False, ev_value = None, ev_country = [], ev_extra = None\<rparr>]"
  by (simp add: life_cycle_eval)

section \<open>Properties of the reachable states\<close>

text \<open>
  C9: In every reachable state in which no effect is pending and the view exists, every
  element of the SVG with the country class has the fill that the fill policy gives for
  the \<open>mapData\<close> and the colours of that state, and carries the two hover handlers,
  whatever inputs were written, clicks made and pointers moved on the way.
\<close>
theorem reachable_shows_data:
  assumes "reachable s" and "\<not> dirty s"
    and "mapContent (inst s) = Some v" and "firstChild (host v) = Some svgMap"
    and "attrs_at svgMap p = Some a" and "p \<noteq> []" and "has_class COUNTRY_CLASS a"
  shows "st_fill (at_style a) = fill_of (inst s) a \<and>
     at_onmouseenter a = Some (CountryHover True) \<and> at_onmouseleave a = Some (CountryHover False)"
proof -
  from invariantD(5) [OF reachable_invariant [OF assms(1)] assms(2)] assms(3,4)
  have "rendered (inst s) svgMap" by (simp add: shown_def)
  with assms(5-7) show ?thesis unfolding rendered_iff by blast
qed

theorem reachable_shows_data_witness:
  "\<exists>s v svgMap a. run example_run example_start = Some s \<and> mapContent (inst s) = Some v \<and>
     firstChild (host v) = Some svgMap \<and> attrs_at svgMap [1] = Some a \<and>
     fill_of (inst s) a = ColorMix ''oklch(55% 0.25 25)'' 0 ''oklch(100% 0 0)''"
proof -
  from example_run_result obtain s v svgMap a
    where r: "run example_run example_start = Some s" and d: "\<not> dirty s"
      and v: "mapContent (inst s) = Some v" "firstChild (host v) = Some svgMap"
      and a: "attrs_at svgMap [1] = Some a" "has_class COUNTRY_CLASS a"
      and f: "st_fill (at_style a) = ColorMix ''oklch(55% 0.25 25)'' 0 ''oklch(100% 0 0)''"
    by blast
  from reachable_shows_data [OF reachable_run [OF reachable_start r] d v a(1) _ a(2)] f
  have "fill_of (inst s) a = ColorMix ''oklch(55% 0.25 25)'' 0 ''oklch(100% 0 0)''" by simp
  with r v a show ?thesis by blast
qed

text \<open>
  C17: In every reachable state in which no effect is pending and the view exists,
  \<open>mapData\<close> is the normalised data of the current inputs: after the effect has run,
  no click, pointer event or write to an input that \<^verbatim>\<open>initializeMap\<close> does not read makes
  \<open>mapData\<close> stale.
\<close>
theorem reachable_in_sync:
  assumes "reachable s" and "\<not> dirty s" and "mapContent (inst s) \<noteq> None"
  shows "mapData (inst s) = normalize (data (inst s)) (minValue (inst s)) (maxValue (inst s))"
  using invariantD(4) [OF reachable_invariant [OF assms(1)] assms(2,3)] by (simp add: in_sync_def)

theorem reachable_in_sync_witness:
  "\<exists>s. run example_run example_start = Some s \<and>
     mapData (inst s) = normalize (data (inst s)) (minValue (inst s)) (maxValue (inst s))"
proof -
  from example_run_result obtain s where r: "run example_run example_start = Some s"
    and d: "\<not> dirty s" "mapContent (inst s) \<noteq> None" by auto
  from reachable_in_sync [OF reachable_run [OF reachable_start r] d] r show ?thesis by blast
qed

text \<open>
  C31: In every reachable state the selection is well formed, that is, empty or a
  non-empty upper-case id with the display name of that id, and every key of \<open>mapData\<close>
  is in lower case.
\<close>
theorem reachable_selection_wf: "reachable s \<Longrightarrow> wf_selection (inst s) \<and> keys_lower (inst s)"
  using invariantD(1,2) [OF reachable_invariant] by simp

theorem reachable_selection_wf_witness:
  "\<exists>s. run example_run example_start = Some s \<and> selection (inst s) \<noteq> None \<and>
     wf_selection (inst s) \<and> keys_lower (inst s)"
proof -
  from example_run_result obtain s where r: "run example_run example_start = Some s"
    and d: "selection (inst s) \<noteq> None" by auto
  from reachable_selection_wf [OF reachable_run [OF reachable_start r]] r d show ?thesis by blast
qed

text \<open>
  C32: Every event a reachable state has emitted is well formed: a selection event with
  \<open>selected\<close> true carries an upper-case country and a value, one with \<open>selected\<close>
  false is the unselected event, and an error event is the loading error.
\<close>
theorem reachable_events_wf: "reachable s \<Longrightarrow> list_all wf_event (emitted (inst s))"
  using invariantD(3) [OF reachable_invariant] by simp

theorem reachable_events_wf_witness:
  "\<exists>s. run example_clicks example_start = Some s \<and> length (emitted (inst s)) = 3 \<and>
     list_all wf_event (emitted (inst s))"
proof -
  from example_clicks_result obtain s where r: "run example_clicks example_start = Some s"
    and l: "length (emitted (inst s)) = 3" by auto
  from reachable_events_wf [OF reachable_run [OF reachable_start r]] r l show ?thesis by blast
qed

text \<open>
  C33: A pending effect over a view whose host has the SVG as its first child completes:
  the effect can run, and the state after it has no effect pending, \<open>loading\<close> false,
  the ready event appended, \<open>mapData\<close> in step with the inputs and the document showing
  it.
\<close>
theorem effect_completes:
  assumes "dirty s" and "mapContent (inst s) = Some v" and "firstChild (host v) \<noteq> None"
  shows "\<exists>s'. step s Effect s' \<and> \<not> dirty s' \<and> \<not> loading (inst s') \<and>
     emitted (inst s') = emitted (inst s) @ [ChartReady] \<and> in_sync (inst s') \<and> shown (inst s')"
proof -
  from assms(3) have ch: "children (host v) \<noteq> []" by (auto simp: firstChild_def split: list.splits)
  from initializeMap_svg [OF assms(2) ch] obtain c' where c': "initializeMap (inst s) = Inr c'"
    and l: "\<not> loading c'" "emitted c' = emitted (inst s) @ [ChartReady]" by simp
  from step.effect [OF assms(1) c'] initializeMap_invariant [OF c'] l show ?thesis
    by (intro exI [of _ "\<lparr>inst = c', dirty = False, deps = reads (inst s)\<rparr>"]) simp
qed

theorem effect_completes_witness:
  "\<exists>s'. step \<lparr>inst = example_map, dirty = True, deps = (\<lambda>i. False)\<rparr> Effect s' \<and> \<not> dirty s' \<and>
     \<not> loading (inst s') \<and> emitted (inst s') = [ChartReady]"
  using effect_completes [of "\<lparr>inst = example_map, dirty = True, deps = (\<lambda>i. False)\<rparr>"
      "\<lparr>host = Element (plain_attrs ''map'' []) [example_svg],
        above = [plain_attrs ''countries-map'' []], attached = True\<rparr>"]
  by (simp add: example_map_def init_component_def firstChild_def) blast

section \<open>Properties of runs\<close>

lemma example_no_data_result:
  "\<exists>s. run example_no_data (initial None example_names) = Some s \<and> \<not> dirty s \<and>
     minValue (inst s) = Some 5 \<and> emitted (inst s) = [ChartReady] \<and>
     (\<exists>v. mapContent (inst s) = Some v \<and> children (host v) \<noteq> [])"
  by (simp add: example_no_data_def initial_def init_component_def initializeMap_def render_def
      firstChild_def reads_def example_view_def Let_def onChartReady_def emit_def
      del: update_at.simps)

text \<open>
  C13: A pass not scheduled is a pass not needed. Whenever no effect is pending in a
  reachable state, running \<^verbatim>\<open>initializeMap\<close> would change neither the resolved map nor the
  document nor the selection: the dependencies that the effect records on each run, the
  signals read on the path taken, are enough. So the writes that the specification lists
  as triggers and that schedule nothing (a bound while there is no data, a colour while
  the host has no SVG) lose nothing but the notification. Every dependency is one of the
  triggers of the specification, and with data and the SVG present the dependencies are
  exactly these triggers.
\<close>
theorem quiescent_pass_changes_nothing:
  assumes "reachable s" and "\<not> dirty s" and "initializeMap (inst s) = Inr c'"
  shows "mapData c' = mapData (inst s) \<and> mapContent c' = mapContent (inst s) \<and>
     selection c' = selection (inst s) \<and> (\<forall>i. deps s i \<longrightarrow> tracked i) \<and>
     (data (inst s) \<noteq> None \<and> (\<exists>v. mapContent (inst s) = Some v \<and> children (host v) \<noteq> []) \<longrightarrow>
        deps s = tracked)"
proof -
  note inv = reachable_invariant [OF assms(1)]
  from assms(3) have v: "mapContent (inst s) \<noteq> None" by (auto elim: initializeMap_Inr_cases)
  from initializeMap_quiescent [OF assms(3) invariantD(4,5) [OF inv assms(2) v]]
    initializeMap_invariant [OF assms(3)] invariantD(6) [OF inv]
  have "mapData c' = mapData (inst s) \<and> mapContent c' = mapContent (inst s) \<and>
     selection c' = selection (inst s) \<and> (\<forall>i. deps s i \<longrightarrow> tracked i)" by blast
  with invariantD(7) [OF inv assms(2)] show ?thesis by (auto simp: reads_full)
qed

theorem quiescent_pass_changes_nothing_witness:
  "\<exists>s c'. run example_no_data (initial None example_names) = Some s \<and> \<not> dirty s \<and>
     minValue (inst s) = Some 5 \<and> initializeMap (inst s) = Inr c' \<and>
     mapData c' = mapData (inst s) \<and> mapContent c' = mapContent (inst s)"
proof -
  from example_no_data_result obtain s v
    where r: "run example_no_data (initial None example_names) = Some s" and d: "\<not> dirty s"
      and m: "minValue (inst s) = Some 5"
      and v: "mapContent (inst s) = Some v" "children (host v) \<noteq> []"
    by blast
  from initializeMap_svg [OF v] obtain c' where c': "initializeMap (inst s) = Inr c'" by auto
  from quiescent_pass_changes_nothing [OF reachable_run [OF reachable.init r] d c'] r d m c'
  show ?thesis by blast
qed

text \<open>
  C21: Only a click changes the selection. Along any run without clicks (writes to
  inputs, the view coming into being, render passes, pointer events) the selection stays
  what it was. So a selection outlives its country: after the data is replaced, the
  selected id, the display name and the extra fields are those of the time of the click,
  while \<open>selectionValue\<close> is read from the new data.
\<close>
theorem selection_only_by_click:
  assumes "run as s = Some s'" and "\<forall>a \<in> set as. \<not> is_click a"
  shows "selection (inst s') = selection (inst s)"
  by (rule run_invariant [where Q = "\<lambda>t. selection (inst t) = selection (inst s)"
        and P = "\<lambda>a. \<not> is_click a", OF _ assms(1) refl assms(2)])
    (simp add: step_selection_frame)

theorem selection_only_by_click_witness:
  "\<exists>s s'. run example_run example_start = Some s \<and>
     run [Input (SetData (Some [])), Effect] s = Some s' \<and> data (inst s') = Some [] \<and>
     map_option sel_countryId (selection (inst s')) = Some ''FR'' \<and>
     selectionValue (inst s') = Inr None"
proof -
  from example_run_result obtain s v where s: "run example_run example_start = Some s"
    and nd: "\<not> dirty s" and v: "mapContent (inst s) = Some v"
    and sel: "map_option sel_countryId (selection (inst s)) = Some ''FR''"
    by blast
  from invariantD(7) [OF reachable_invariant [OF reachable_run [OF reachable_start s]] nd] v
  have d: "deps s (SetData (Some []))" by (simp add: reads_def)
  let ?t = "s\<lparr>inst := (inst s)\<lparr>data := Some []\<rparr>, dirty := True\<rparr>"
  from step_Effect_enabled [of ?t] obtain s' where e: "step ?t Effect s'" by auto
  with d have r: "run [Input (SetData (Some [])), Effect] s = Some s'"
    by (simp add: step_iff_react)
  from step_Effect_data [OF e] have "data (inst s') = Some []" by simp
  moreover from selection_only_by_click [OF r] sel
  have "map_option sel_countryId (selection (inst s')) = Some ''FR''" by simp
  ultimately show ?thesis using s r by (auto simp: selectionValue_def get_prop_def)
qed

text \<open>
  C24: The outputs tell the selection. In every reachable state the selected id is the
  country of the last selection event emitted, if that event has \<open>selected\<close> true and a
  non-empty country, and nothing is selected otherwise: whatever render passes, writes
  to inputs, pointer events and raising clicks lie between, a host that listens to
  \<^verbatim>\<open>chartSelect\<close> always knows which country is selected.
\<close>
theorem reachable_selection_announced:
  "reachable s \<Longrightarrow>
   map_option sel_countryId (selection (inst s)) = announced_id (emitted (inst s))"
proof (induction rule: reachable.induct)
  case (init d gn)
  show ?case by (simp add: initial_def init_component_def announced_id_def)
next
  case (step s a s')
  with step_announced [of s a s'] show ?case by (simp add: announced_def)
qed

theorem reachable_selection_announced_witness:
  "\<exists>s. run example_run example_start = Some s \<and>
     announced_id (emitted (inst s)) = Some ''FR'' \<and>
     map_option sel_countryId (selection (inst s)) = Some ''FR''"
proof -
  from example_run_result obtain s where r: "run example_run example_start = Some s"
    and sel: "map_option sel_countryId (selection (inst s)) = Some ''FR''" by blast
  from reachable_selection_announced [OF reachable_run [OF reachable_start r]] r sel
  show ?thesis by auto
qed

end
