(* ===== verification/Dom_Heap.thy ===== *)
theory Dom_Heap
  imports Selection_Controller
begin

text \<open>
  The walk of \<^verbatim>\<open>onMapSelect\<close> on a store. In the source the loop
  \<^verbatim>\<open>while (newItem && !newItem.classList.contains(COUNTRY_CLASS)) newItem = newItem.parentNode\<close>
  follows references: whether it ends depends on the nodes the references lead to.
  \<^item> A \<open>dom_heap\<close> maps an address to a node and to the address of its parent, if any.
    Nothing is assumed of it: a heap can hold a cycle.
  \<^item> \<open>walk_up\<close> is the loop, defined as a partial function: its value is \<open>None\<close> when
    the loop does not end, and otherwise the result of the loop, which is the address
    of the element found, no address, or the \<open>TypeError\<close> raised at the document.
    \<open>onMapSelect_heap\<close> is the handler with this loop in the place of
    \<open>closest_country\<close>.
  \<^item> \<open>ancestry\<close> relates an address to the list of addresses that the references lead
    through up to a node without parent; \<open>stops\<close> holds of an address from which the
    loop reaches a node at which it ends; \<open>parent_rel\<close> is the relation between a node
    and its parent.
  \<^item> \<open>heap_of\<close> is the heap of a view: the nodes of the host by their paths, the
    ancestors of the host, and the document.
  The lemmas show that the loop ends exactly from the addresses that satisfy \<open>stops\<close>,
  hence on every heap whose parent relation is well founded and on the heap of every
  view, and that it does not end on a cycle of elements without the country class. The
  theorems state termination of the handler and that, on the heap of a view, the handler
  with the loop over references is the handler over the chain of ancestors.
\<close>

section \<open>Definitions\<close>

record 'a dom_node =
  nd_node :: node
  parentNode :: "'a option"

type_synonym 'a dom_heap = "'a \<Rightarrow> 'a dom_node"

partial_function (option) walk_up :: "'a dom_heap \<Rightarrow> 'a option \<Rightarrow> (js_error, 'a option) result option" where
  "walk_up h newItem =
     (case newItem of
        None \<Rightarrow> Some (Inr None)
      | Some a \<Rightarrow>
          (case nd_node (h a) of
             DocumentNode \<Rightarrow> Some (Inl TypeError)
           | ElementNode item \<Rightarrow>
               if has_class COUNTRY_CLASS item then Some (Inr (Some a))
               else walk_up h (parentNode (h a))))"

definition elem_attrs :: "'a dom_heap \<Rightarrow> 'a \<Rightarrow> attrs option" where
  "elem_attrs h a = (case nd_node (h a) of ElementNode item \<Rightarrow> Some item | DocumentNode \<Rightarrow> None)"

definition deref :: "'a dom_heap \<Rightarrow> (js_error, 'a option) result \<Rightarrow> (js_error, attrs option) result" where
  "deref h r = map_sum id (\<lambda>newItem. Option.bind newItem (elem_attrs h)) r"

definition heap_target_id :: "'a dom_heap \<Rightarrow> 'a option \<Rightarrow> string option" where
  "heap_target_id h target = map_option at_id (Option.bind target (elem_attrs h))"

definition onMapSelect_heap ::
  "'a dom_heap \<Rightarrow> 'a option \<Rightarrow> component \<Rightarrow> (js_error, component) result option" where
  "onMapSelect_heap h target c =
     (if heap_target_id h target = Some OCEAN_ID
      then Some (and_then (selectCountry None c) (select_item None))
      else map_option
             (\<lambda>r. and_then r (\<lambda>newItem. select_item (Option.bind newItem (elem_attrs h)) c))
             (walk_up h target))"

primrec ancestry :: "'a dom_heap \<Rightarrow> 'a option \<Rightarrow> 'a list \<Rightarrow> bool" where
  "ancestry h x [] \<longleftrightarrow> x = None"
| "ancestry h x (a # as) \<longleftrightarrow> x = Some a \<and> ancestry h (parentNode (h a)) as"

definition parent_rel :: "'a dom_heap \<Rightarrow> ('a \<times> 'a) set" where
  "parent_rel h = {(p, a). parentNode (h a) = Some p}"

inductive stops :: "'a dom_heap \<Rightarrow> 'a option \<Rightarrow> bool" for h where
  at_null: "stops h None"
| at_document: "nd_node (h a) = DocumentNode \<Longrightarrow> stops h (Some a)"
| at_country: "nd_node (h a) = ElementNode item \<Longrightarrow> has_class COUNTRY_CLASS item \<Longrightarrow> stops h (Some a)"
| further:
    "nd_node (h a) = ElementNode item \<Longrightarrow> \<not> has_class COUNTRY_CLASS item \<Longrightarrow>
     stops h (parentNode (h a)) \<Longrightarrow> stops h (Some a)"

datatype vaddr = InHost path | Above nat | Doc

definition top_of :: "view \<Rightarrow> nat \<Rightarrow> vaddr option" where
  "top_of v i =
     (if i < length (above v) then Some (Above i) else if attached v then Some Doc else None)"

definition heap_of :: "view \<Rightarrow> vaddr dom_heap" where
  "heap_of v a =
     (case a of
        InHost p \<Rightarrow>
          \<lparr>nd_node = (case attrs_at (host v) p of
                        Some item \<Rightarrow> ElementNode item | None \<Rightarrow> DocumentNode),
           parentNode = (if p = [] then top_of v 0 else Some (InHost (butlast p)))\<rparr>
      | Above i \<Rightarrow>
          \<lparr>nd_node = (if i < length (above v) then ElementNode (above v ! i) else DocumentNode),
           parentNode = top_of v (Suc i)\<rparr>
      | Doc \<Rightarrow> \<lparr>nd_node = DocumentNode, parentNode = None\<rparr>)"

definition above_addrs :: "view \<Rightarrow> nat \<Rightarrow> vaddr list" where
  "above_addrs v i = map Above [i..<length (above v)] @ (if attached v then [Doc] else [])"

definition host_addrs :: "path \<Rightarrow> vaddr list" where
  "host_addrs p = map (\<lambda>k. InHost (take k p)) (rev [0..<Suc (length p)])"

definition rank :: "view \<Rightarrow> vaddr \<Rightarrow> nat" where
  "rank v a =
     (case a of
        InHost p \<Rightarrow> length p + length (above v) + 2
      | Above i \<Rightarrow> length (above v) - i + 1
      | Doc \<Rightarrow> 0)"


section \<open>The walk on a chain of ancestors\<close>

lemma ancestry_unique: "ancestry h x as \<Longrightarrow> ancestry h x bs \<Longrightarrow> as = bs"
  by (induction as arbitrary: x bs) (case_tac bs; auto)+

lemma walk_up_None [simp]: "walk_up h None = Some (Inr None)"
  by (subst walk_up.simps) simp

lemma walk_up_Some:
  "walk_up h (Some a) =
     (case nd_node (h a) of
        DocumentNode \<Rightarrow> Some (Inl TypeError)
      | ElementNode item \<Rightarrow>
          if has_class COUNTRY_CLASS item then Some (Inr (Some a))
          else walk_up h (parentNode (h a)))"
  by (subst walk_up.simps) simp

lemma walk_up_ancestry:
  "ancestry h x as \<Longrightarrow>
   map_option (deref h) (walk_up h x) = Some (closest_country (map (\<lambda>a. nd_node (h a)) as))"
proof (induction as arbitrary: x)
  case Nil
  then show ?case by (simp add: deref_def)
next
  case (Cons a as)
  then have x: "x = Some a" and IH: "map_option (deref h) (walk_up h (parentNode (h a))) =
      Some (closest_country (map (\<lambda>a. nd_node (h a)) as))" by simp_all
  show ?case
  proof (cases "nd_node (h a)")
    case (ElementNode item)
    with x IH show ?thesis by (simp add: walk_up_Some deref_def elem_attrs_def)
  next
    case DocumentNode
    with x show ?thesis by (simp add: walk_up_Some deref_def)
  qed
qed

lemma stops_ancestry: "ancestry h x as \<Longrightarrow> stops h x"
proof (induction as arbitrary: x)
  case Nil
  then show ?case by (simp add: stops.at_null)
next
  case (Cons a as)
  then show ?case
    by (cases "nd_node (h a)") (auto intro: stops.intros)
qed

lemma walk_up_stops: "stops h x \<Longrightarrow> \<exists>r. walk_up h x = Some r"
  by (induction rule: stops.induct) (simp_all add: walk_up_Some)

lemma stops_walk_up: "walk_up h x = Some r \<Longrightarrow> stops h x"
proof (induction rule: walk_up.raw_induct [rotated 1, consumes 1])
  case (1 walk_up' h x r)
  then show ?case
    by (auto split: option.splits node.splits if_splits intro: stops.intros)
qed

lemma walk_up_terminates_iff: "(\<exists>r. walk_up h x = Some r) \<longleftrightarrow> stops h x"
  by (auto intro: stops_walk_up walk_up_stops)

lemma wf_stops:
  assumes "wf (parent_rel h)"
  shows "stops h x"
proof (cases x)
  case None
  then show ?thesis by (simp add: stops.at_null)
next
  case (Some a)
  have "stops h (Some a)"
    using assms
  proof (induction a rule: wf_induct_rule)
    case (less a)
    show ?case
    proof (cases "nd_node (h a)")
      case DocumentNode
      then show ?thesis by (rule stops.at_document)
    next
      case (ElementNode item)
      have "stops h (parentNode (h a))"
        using less by (cases "parentNode (h a)") (auto simp: parent_rel_def stops.at_null)
      with ElementNode show ?thesis
        by (cases "has_class COUNTRY_CLASS item") (auto intro: stops.intros)
    qed
  qed
  with Some show ?thesis by simp
qed

lemma walk_up_cycle:
  assumes "nd_node (h a) = ElementNode item" and "\<not> has_class COUNTRY_CLASS item"
    and "parentNode (h a) = Some a"
  shows "walk_up h (Some a) = None"
proof -
  have "stops h x \<Longrightarrow> x \<noteq> Some a" for x
    by (induction rule: stops.induct) (use assms in auto)
  then have "\<not> stops h (Some a)" by blast
  then show ?thesis using stops_walk_up [of h "Some a"] by (cases "walk_up h (Some a)") auto
qed

section \<open>The heap of a view\<close>

lemma heap_of_simps [simp]:
  "heap_of v (InHost p) =
     \<lparr>nd_node = (case attrs_at (host v) p of
                   Some item \<Rightarrow> ElementNode item | None \<Rightarrow> DocumentNode),
      parentNode = (if p = [] then top_of v 0 else Some (InHost (butlast p)))\<rparr>"
  "heap_of v (Above i) =
     \<lparr>nd_node = (if i < length (above v) then ElementNode (above v ! i) else DocumentNode),
      parentNode = top_of v (Suc i)\<rparr>"
  "heap_of v Doc = \<lparr>nd_node = DocumentNode, parentNode = None\<rparr>"
  by (simp_all add: heap_of_def)

lemma ancestry_above:
  "i \<le> length (above v) \<Longrightarrow> ancestry (heap_of v) (top_of v i) (above_addrs v i)"
proof (induction "length (above v) - i" arbitrary: i)
  case 0
  then show ?case by (simp add: above_addrs_def top_of_def)
next
  case (Suc n)
  then have i: "i < length (above v)" and "ancestry (heap_of v) (top_of v (Suc i)) (above_addrs v (Suc i))"
    by simp_all
  then show ?case
    by (simp add: above_addrs_def top_of_def upt_conv_Cons)
qed

lemma host_addrs_Nil [simp]: "host_addrs [] = [InHost []]"
  by (simp add: host_addrs_def)

lemma host_addrs_snoc [simp]: "host_addrs (p @ [i]) = InHost (p @ [i]) # host_addrs p"
  by (simp add: host_addrs_def)

lemma ancestry_host:
  "ancestry (heap_of v) (Some (InHost p)) (host_addrs p @ above_addrs v 0)"
proof (induction p rule: rev_induct)
  case Nil
  show ?case using ancestry_above [of 0 v] by simp
next
  case (snoc i p)
  then show ?case by simp
qed

lemma nodes_above:
  "map (\<lambda>a. nd_node (heap_of v a)) (above_addrs v 0) =
     map ElementNode (above v) @ (if attached v then [DocumentNode] else [])"
  by (auto simp: above_addrs_def intro: nth_equalityI)

lemma elements_along_snoc:
  "get_at e (p @ [i]) = Some x \<Longrightarrow> elements_along e (p @ [i]) = elements_along e p @ [x]"
  by (induction p arbitrary: e) (auto split: if_splits)

lemma get_at_butlast: "get_at e (p @ [i]) \<noteq> None \<Longrightarrow> get_at e p \<noteq> None"
  by (induction p arbitrary: e) (auto split: if_splits)

lemma nodes_host:
  "get_at (host v) p \<noteq> None \<Longrightarrow>
   map (\<lambda>a. nd_node (heap_of v a)) (host_addrs p) =
     map (\<lambda>e. ElementNode (attrs e)) (rev (elements_along (host v) p))"
proof (induction p rule: rev_induct)
  case Nil
  show ?case by simp
next
  case (snoc i p)
  then obtain x where x: "get_at (host v) (p @ [i]) = Some x" by auto
  with snoc get_at_butlast [of "host v" p i] show ?case
    by (simp add: elements_along_snoc attrs_at_def)
qed

lemma nodes_chain:
  "get_at (host v) p \<noteq> None \<Longrightarrow>
   map (\<lambda>a. nd_node (heap_of v a)) (host_addrs p @ above_addrs v 0) = node_chain v p"
  by (simp add: nodes_host nodes_above node_chain_def)

lemma and_then_deref:
  "and_then r (\<lambda>newItem. f (Option.bind newItem (elem_attrs h))) = and_then (deref h r) f"
  by (cases r) (simp_all add: deref_def)

lemma onMapSelect_select_item:
  "onMapSelect chain c =
     (if target_id chain = Some OCEAN_ID then and_then (selectCountry None c) (select_item None)
      else and_then (closest_country chain) (\<lambda>newItem. select_item newItem c))"
  by (cases "closest_country chain") (simp_all add: onMapSelect_def)

lemma heap_target_id_view:
  "get_at (host v) p \<noteq> None \<Longrightarrow>
   heap_target_id (heap_of v) (Some (InHost p)) = target_id (node_chain v p)"
proof (induction p rule: rev_induct)
  case Nil
  show ?case by (simp add: heap_target_id_def elem_attrs_def target_id_def node_chain_def)
next
  case (snoc i p)
  then obtain x where x: "get_at (host v) (p @ [i]) = Some x" by auto
  then show ?case
    by (simp add: heap_target_id_def elem_attrs_def target_id_def node_chain_def
        elements_along_snoc attrs_at_def)
qed

lemma wf_heap_of: "wf (parent_rel (heap_of v))"
proof (rule wf_subset [OF wf_measure [of "rank v"]])
  show "parent_rel (heap_of v) \<subseteq> measure (rank v)"
    by (auto simp: parent_rel_def rank_def top_of_def diff_less_mono2 split: vaddr.splits if_splits)
qed

lemma onMapSelect_heap_stops:
  "stops h target \<Longrightarrow> \<exists>r. onMapSelect_heap h target c = Some r"
  using walk_up_stops [of h target] by (auto simp: onMapSelect_heap_def)

section \<open>Properties of the walk\<close>

text \<open>
  C7: The click handler terminates on every heap whose parent relation is well founded,
  whatever the target: the loop that follows \<^verbatim>\<open>parentNode\<close> ends, with an element, with
  no element or with the exception at the document, and the handler returns or raises.
  The heap of a view is such a heap.
\<close>
theorem onMapSelect_heap_terminates:
  "wf (parent_rel h) \<Longrightarrow> \<exists>r. onMapSelect_heap h target c = Some r"
  by (simp add: onMapSelect_heap_stops wf_stops)

theorem onMapSelect_heap_terminates_witness:
  "\<exists>r. onMapSelect_heap (heap_of example_view) (Some (InHost [0, 1, 0])) (example_loaded ''FR'') = Some r"
  using onMapSelect_heap_terminates [of "heap_of example_view"] by (simp add: wf_heap_of)


text \<open>
  C14: On the heap of a view, the handler with the loop over references is the handler
  over the chain of ancestors: for a target in the host, \<open>onMapSelect_heap\<close> returns,
  and what it returns is \<open>onMapSelect\<close> on the chain of nodes from the target to the
  top of the view.
\<close>
theorem click_heap_refines:
  assumes "get_at (host v) p \<noteq> None"
  shows "onMapSelect_heap (heap_of v) (Some (InHost p)) c = Some (onMapSelect (node_chain v p) c)"
proof -
  from walk_up_ancestry [OF ancestry_host, of v p] nodes_chain [OF assms]
  have "map_option (deref (heap_of v)) (walk_up (heap_of v) (Some (InHost p))) =
      Some (closest_country (node_chain v p))"
    by simp
  then obtain r where "walk_up (heap_of v) (Some (InHost p)) = Some r"
    and "deref (heap_of v) r = closest_country (node_chain v p)" by auto
  with assms and_then_deref [where r = r and h = "heap_of v" and f = "\<lambda>newItem. select_item newItem c"]
  show ?thesis
    by (simp add: onMapSelect_heap_def heap_target_id_view onMapSelect_select_item)
qed

theorem click_heap_refines_witness:
  "onMapSelect_heap (heap_of example_view) (Some (InHost [0, 1, 0])) (example_loaded ''FR'') =
     Some (onMapSelect (node_chain example_view [0, 1, 0]) (example_loaded ''FR''))"
  using click_heap_refines [of example_view "[0, 1, 0]" "example_loaded ''FR''"]
  by (simp add: example_view_def leaf_def)

end
