(* ===== verification/Selection_Spec.thy ===== *)
theory Selection_Spec
  imports Selection_Controller
begin

text \<open>
  The selection state machine as the specification states it, and the refinement of it by
  the click handler.
  \<^item> The abstract machine has the states \<open>Unselected\<close> and \<open>Selected id\<close>. Its input is what
    a click resolves to: the background, a place outside every country, or the country
    element with a given id. \<open>spec_click\<close> is its transition with the event it emits,
    \<open>spec_run\<close> the run over a sequence of clicks.
  \<^item> \<open>resolution_of\<close> reads the resolution from the chain of a click without running the
    handler: the first node of the chain that is an element with the country class.
  \<^item> \<open>abs_state\<close>, \<open>abs_event\<close> and \<open>abs_component\<close> are the abstraction: the selection
    is read as its id, an event of the component as an event of the machine (the extra
    fields, which the component emits as the object of the record, as the list of pairs
    of key and value that the specification describes).
  \<^item> \<open>clicks\<close> is a sequence of calls of \<^verbatim>\<open>onMapSelect\<close>, as the event loop makes them one
    after the other; the first call that raises ends it.
  The theorems show that every sequence of clicks that returns is a run of the abstract
  machine, for clicks that resolve to elements with a non-empty id, and that the bound on
  the id is needed.
\<close>

section \<open>Definitions\<close>

datatype sel_state = Unselected | Selected string

datatype resolution = Background | Outside | Country string

datatype spec_event = NotSelected | IsSelected string jsnum "SelectionExtra list option"

definition spec_click :: "DrawableCountries \<Rightarrow> resolution \<Rightarrow> sel_state \<times> spec_event" where
  "spec_click resolved r =
     (case r of
        Country ident \<Rightarrow>
          (case resolved ident of
             Some found \<Rightarrow>
               (Selected (toUpperCase ident),
                IsSelected (toUpperCase ident) (countryNum found)
                  (map_option extra_pairs (cd_extra found)))
           | None \<Rightarrow> (Unselected, NotSelected))
      | _ \<Rightarrow> (Unselected, NotSelected))"

fun spec_run ::
  "DrawableCountries \<Rightarrow> resolution list \<Rightarrow> sel_state \<times> spec_event list \<Rightarrow> sel_state \<times> spec_event list"
where
  "spec_run resolved [] s = s"
| "spec_run resolved (r # rs) s =
     spec_run resolved rs (fst (spec_click resolved r), snd s @ [snd (spec_click resolved r)])"

definition is_country :: "node \<Rightarrow> bool" where
  "is_country n = (case n of ElementNode a \<Rightarrow> has_class COUNTRY_CLASS a | DocumentNode \<Rightarrow> False)"

definition resolution_of :: "node list \<Rightarrow> resolution" where
  "resolution_of chain =
     (if target_id chain = Some OCEAN_ID then Background
      else case find is_country chain of
             Some (ElementNode a) \<Rightarrow> Country (at_id a)
           | _ \<Rightarrow> Outside)"

definition abs_state :: "component \<Rightarrow> sel_state" where
  "abs_state c = (case selection c of None \<Rightarrow> Unselected | Some sel \<Rightarrow> Selected (sel_countryId sel))"

definition abs_event :: "ChartSelectEvent \<Rightarrow> spec_event" where
  "abs_event e =
     (if ev_selected e
      then IsSelected (ev_country e) (case ev_value e of None \<Rightarrow> NaN | Some x \<Rightarrow> x)
             (map_option extra_pairs (ev_extra e))
      else NotSelected)"

definition select_events :: "out_event list \<Rightarrow> spec_event list" where
  "select_events evs =
     List.map_filter (\<lambda>ev. case ev of ChartSelect e \<Rightarrow> Some (abs_event e) | _ \<Rightarrow> None) evs"

definition abs_component :: "component \<Rightarrow> sel_state \<times> spec_event list" where
  "abs_component c = (abs_state c, select_events (emitted c))"

fun clicks :: "node list list \<Rightarrow> component \<Rightarrow> (js_error, component) result" where
  "clicks [] c = Inr c"
| "clicks (chain # rest) c = and_then (onMapSelect chain c) (clicks rest)"

definition nonempty_ids :: "node list \<Rightarrow> bool" where
  "nonempty_ids chain = (\<forall>ident. resolution_of chain = Country ident \<longrightarrow> ident \<noteq> [])"

lemmas spec_defs =
  spec_click_def resolution_of_def abs_state_def abs_event_def is_country_def nonempty_ids_def

section \<open>The resolution of a click\<close>

lemma find_is_country:
  "closest_country chain = Inr newItem \<Longrightarrow> find is_country chain = map_option ElementNode newItem"
  by (induction chain rule: closest_country.induct) (auto simp: is_country_def split: if_splits)

lemma resolution_of_walk:
  assumes "target_id chain \<noteq> Some OCEAN_ID" and "closest_country chain = Inr newItem"
  shows "resolution_of chain = (case newItem of None \<Rightarrow> Outside | Some a \<Rightarrow> Country (at_id a))"
  using assms by (cases newItem) (simp_all add: resolution_of_def find_is_country)

lemma select_events_snoc [simp]:
  "select_events (evs @ [ChartSelect e]) = select_events evs @ [abs_event e]"
  by (simp add: select_events_def map_filter_def)

section \<open>One click\<close>

lemma abs_component_emit [simp]:
  "abs_component (emit (ChartSelect e) c) = (abs_state c, snd (abs_component c) @ [abs_event e])"
  by (simp add: abs_component_def abs_state_def)

lemma abs_state_selection [simp]:
  "abs_state (emit ev c) = abs_state c"
  "abs_state (c\<lparr>selection := None\<rparr>) = Unselected"
  "abs_state (c\<lparr>selection := Some sel\<rparr>) = Selected (sel_countryId sel)"
  by (simp_all add: abs_state_def)

lemma abs_component_selection [simp]:
  "snd (abs_component (c\<lparr>selection := sel\<rparr>)) = snd (abs_component c)"
  by (simp add: abs_component_def)

lemma abs_event_simps [simp]:
  "abs_event unselected_event = NotSelected"
  "abs_event (selected_event item found) =
     IsSelected (toUpperCase (at_id item)) (countryNum found) (map_option extra_pairs (cd_extra found))"
  "ev_country (selected_event item found) = toUpperCase (at_id item)"
  by (simp_all add: abs_event_def unselected_event_def selected_event_def)

lemma spec_click_simps [simp]:
  "spec_click resolved Background = (Unselected, NotSelected)"
  "spec_click resolved Outside = (Unselected, NotSelected)"
  "resolved ident = None \<Longrightarrow> spec_click resolved (Country ident) = (Unselected, NotSelected)"
  "resolved ident = Some found \<Longrightarrow>
   spec_click resolved (Country ident) =
     (Selected (toUpperCase ident),
      IsSelected (toUpperCase ident) (countryNum found) (map_option extra_pairs (cd_extra found)))"
  by (simp_all add: spec_click_def)

lemma onMapSelect_refines:
  assumes "onMapSelect chain c = Inr c'" and "nonempty_ids chain"
  shows "abs_component c' =
     (fst (spec_click (mapData c) (resolution_of chain)),
      snd (abs_component c) @ [snd (spec_click (mapData c) (resolution_of chain))])"
proof (cases "target_id chain = Some OCEAN_ID")
  case True
  with assms(1) show ?thesis by (auto simp: onMapSelect_ocean resolution_of_def)
next
  case False
  with assms(1) obtain newItem where w: "closest_country chain = Inr newItem"
    and s: "select_item newItem c = Inr c'"
    by (auto simp: onMapSelect_def and_then_Inr_iff)
  note r = resolution_of_walk [OF False w]
  show ?thesis
  proof (cases "case newItem of None \<Rightarrow> None | Some item \<Rightarrow> mapData c (at_id item)")
    case None
    with s r show ?thesis by (cases newItem) (auto simp: select_item_def)
  next
    case (Some found)
    then obtain item where i: "newItem = Some item" "mapData c (at_id item) = Some found"
      by (cases newItem) auto
    with r assms(2) have "at_id item \<noteq> []" by (simp add: nonempty_ids_def)
    with s i r show ?thesis
      by (auto simp: select_item_def selectCountry_truthy and_then_Inr_iff)
  qed
qed

section \<open>Sequences of clicks\<close>

lemma clicks_Cons_Inr:
  assumes "clicks (chain # rest) c = Inr c'"
  obtains c1 where "onMapSelect chain c = Inr c1" and "clicks rest c1 = Inr c'"
  using assms by (auto simp: and_then_Inr_iff)

lemma clicks_append:
  "clicks (xs @ ys) c = and_then (clicks xs c) (clicks ys)"
proof (induction xs arbitrary: c)
  case Nil
  show ?case by simp
next
  case (Cons chain xs)
  then show ?case by (cases "onMapSelect chain c") simp_all
qed

lemma spec_run_append:
  "spec_run resolved (xs @ ys) s = spec_run resolved ys (spec_run resolved xs s)"
  by (induction xs arbitrary: s) simp_all

lemma fst_spec_run:
  "fst (spec_run resolved rs s) = (if rs = [] then fst s else fst (spec_click resolved (last rs)))"
  by (induction rs arbitrary: s) simp_all

lemma snd_spec_run:
  "snd (spec_run resolved rs s) = snd s @ map (\<lambda>r. snd (spec_click resolved r)) rs"
  by (induction rs arbitrary: s) simp_all

lemmas spec_eval =
  spec_defs abs_component_def select_events_def map_filter_def

text \<open>
  C6: The click handler refines the selection state machine of the specification. For a
  sequence of clicks that all return, and that resolve to country elements with a
  non-empty id only, the selection at the end and the selection events emitted are those
  of the run of the abstract machine on the resolutions of the clicks, over the resolved
  map, from the abstraction of the state before: a click on the background, outside every
  country or on a country without a record gives \<open>Unselected\<close> and the event with
  \<open>selected\<close> false, a click on a country with a record gives \<open>Selected\<close> with the
  upper-cased id and the event with the parsed value and the extra fields of the record.
\<close>
theorem selection_refines_spec:
  assumes "clicks cs c = Inr c'" and "\<forall>chain \<in> set cs. nonempty_ids chain"
  shows "abs_component c' = spec_run (mapData c) (map resolution_of cs) (abs_component c)"
  using assms
proof (induction cs arbitrary: c)
  case Nil
  then show ?case by simp
next
  case (Cons chain rest)
  from Cons.prems(1) obtain c1 where 1: "onMapSelect chain c = Inr c1"
    and 2: "clicks rest c1 = Inr c'" by (rule clicks_Cons_Inr)
  from Cons.prems(2) have "nonempty_ids chain" by simp
  from onMapSelect_refines [OF 1 this] Cons.IH [OF 2] Cons.prems(2) onMapSelect_frame(1) [OF 1]
  show ?case by simp
qed

theorem selection_refines_spec_witness:
  "\<exists>c'. clicks [node_chain example_view [0, 1, 0], node_chain example_view [0, 2],
              node_chain example_view [0, 1], node_chain example_view [0, 0]]
          (example_loaded ''FR'') = Inr c' \<and>
     abs_component c' =
       (Unselected,
        [IsSelected ''FR'' 42 (Some [\<lparr>se_key = ''capital'', se_val = JString ''Paris''\<rparr>]),
         NotSelected,
         IsSelected ''FR'' 42 (Some [\<lparr>se_key = ''capital'', se_val = JString ''Paris''\<rparr>]),
         NotSelected])"
proof -
  let ?cs = "[node_chain example_view [0, 1, 0], node_chain example_view [0, 2],
              node_chain example_view [0, 1], node_chain example_view [0, 0]]"
  have "\<exists>c'. clicks ?cs (example_loaded ''FR'') = Inr c'"
    by (simp add: selection_eval)
  then obtain c' where r: "clicks ?cs (example_loaded ''FR'') = Inr c'" ..
  have n: "\<forall>chain \<in> set ?cs. nonempty_ids chain"
    by (simp add: spec_eval selection_eval)
  have "spec_run (mapData (example_loaded ''FR'')) (map resolution_of ?cs)
      (abs_component (example_loaded ''FR'')) =
    (Unselected,
        [IsSelected ''FR'' 42 (Some [\<lparr>se_key = ''capital'', se_val = JString ''Paris''\<rparr>]),
         NotSelected,
         IsSelected ''FR'' 42 (Some [\<lparr>se_key = ''capital'', se_val = JString ''Paris''\<rparr>]),
         NotSelected])"
    by (simp add: spec_eval selection_eval)
  with selection_refines_spec [OF r n] r show ?thesis by simp
qed

text \<open>
  C34: The bound on the id is needed. A click on a country element whose id is empty and
  that has a record under the empty key emits the event of a selection, with \<open>selected\<close>
  true and the value of the record, and leaves nothing selected, because
  \<^verbatim>\<open>selectCountry\<close> takes the empty code for no country: the state of the component and
  the event it has emitted disagree, and no transition of the abstract machine does that.
\<close>
theorem empty_id_selects_nothing:
  assumes "target_id chain \<noteq> Some OCEAN_ID"
    and "closest_country chain = Inr (Some item)" and "at_id item = []"
    and "mapData c [] = Some found"
  shows "\<exists>c'. onMapSelect chain c = Inr c' \<and> abs_state c' = Unselected \<and>
     last (snd (abs_component c')) =
       IsSelected [] (countryNum found) (map_option extra_pairs (cd_extra found)) \<and>
     abs_component c' \<noteq>
       (fst (spec_click (mapData c) (resolution_of chain)),
        snd (abs_component c) @ [snd (spec_click (mapData c) (resolution_of chain))])"
  using assms resolution_of_walk [OF assms(1,2)]
  by (simp add: onMapSelect_def select_item_def)

theorem empty_id_selects_nothing_witness:
  "\<exists>c'. onMapSelect [ElementNode (plain_attrs [] [''countryxx''])]
       ((example_loaded ''FR'')\<lparr>mapData := [[] \<mapsto>
           \<lparr>cd_value = JNumber 7, cd_extra = None, percentage = 0\<rparr>]\<rparr>) = Inr c' \<and>
     abs_state c' = Unselected \<and>
     last (snd (abs_component c')) = IsSelected [] 7 None"
  using empty_id_selects_nothing [of "[ElementNode (plain_attrs [] [''countryxx''])]"
      "plain_attrs [] [''countryxx'']"
      "(example_loaded ''FR'')\<lparr>mapData := [[] \<mapsto>
           \<lparr>cd_value = JNumber 7, cd_extra = None, percentage = 0\<rparr>]\<rparr>"
      "\<lparr>cd_value = JNumber 7, cd_extra = None, percentage = 0\<rparr>"]
  by (auto simp: selection_eval)

end
