(* ===== verification/Spec2Isabelle.thy ===== *)
theory Spec2Isabelle
  imports Reachable_States Dom_Heap Selection_Spec
begin

text \<open>
  \<^bold>\<open>A verification development for the countries-map component.\<close>

  The program (\<^verbatim>\<open>src/projects/countries-map/src/lib/countries-map.component.ts\<close>, with the
  events of \<^verbatim>\<open>chart-events.ts\<close>) is an Angular component that shades the countries of an
  SVG world map by a numeric value, highlights the country under the pointer and reports
  clicks as selection events. Its logic is in three parts that share the fields of the
  component:
  \<^item> the value normaliser (the first half of \<^verbatim>\<open>initializeMap\<close>): bounds from the data or
    from the inputs, a percentage per country, the resolved map \<^verbatim>\<open>mapData\<close> keyed by
    lower-cased country code;
  \<^item> the render binder (the second half of \<^verbatim>\<open>initializeMap\<close>, and \<^verbatim>\<open>countryHover\<close>): a fill
    per country element, hover handlers, the ready and error notifications;
  \<^item> the selection controller (\<^verbatim>\<open>onMapSelect\<close>, \<^verbatim>\<open>selectCountry\<close>, \<^verbatim>\<open>getExtraSelected\<close>,
    \<^verbatim>\<open>selectionValue\<close>): the walk from the click target to a country element, the lookup
    in \<^verbatim>\<open>mapData\<close>, the selection signal and the emitted event.
  The normaliser writes \<^verbatim>\<open>mapData\<close>; the render binder and the selection controller read
  it, the first under the lower-cased id of an element, the second under the id as it
  is. The effect of the constructor runs \<^verbatim>\<open>initializeMap\<close> whenever an input that its last
  run has read is written.

  \<^bold>\<open>Theories.\<close> Each theory states its definitions first, in the order of the source,
  then helper lemmas, then its properties.
  \<^item> \<open>CM_Prelude\<close>: fact collections, optional values, results of operations that may
    raise (\<open>and_then\<close>), maps built by assignments in order (\<open>assign_entries\<close>), running
    minima and maxima.
  \<^item> \<open>JS_Number\<close>: JavaScript numbers as \<open>NaN\<close> or a real (\<open>jsnum\<close>), with the
    operators and comparisons the component uses as an instance of the arithmetic type
    classes, truthiness (\<open>falsy\<close>, \<open>js_or\<close>), and \<^verbatim>\<open>parseInt(x.toString(), 10)\<close> on
    numbers (\<open>parseInt_number\<close>).
  \<^item> \<open>JS_String\<close>: \<^verbatim>\<open>toLowerCase\<close> and \<^verbatim>\<open>toUpperCase\<close> on ASCII letters, \<^verbatim>\<open>parseInt\<close> with
    radix 10 on strings.
  \<^item> \<open>Data_Types\<close>: the records of \<^verbatim>\<open>data-types.ts\<close> and \<^verbatim>\<open>chart-events.ts\<close>; objects as
    association lists in the order of \<^verbatim>\<open>Object.entries\<close>.
  \<^item> \<open>Value_Normalizer\<close>: \<open>exists\<close>, \<open>countryNum\<close> and lines 109 to 152 of
    \<^verbatim>\<open>initializeMap\<close>: \<open>scan_step\<close> and \<open>scan_values\<close> (the loop over the values),
    \<open>compute_bounds\<close>, \<open>range_of\<close>, \<open>percentage_of\<close>, \<open>drawable\<close>, \<open>build_mapData\<close>
    (the loop over the entries) and \<open>normalize\<close>. Its specification is \<open>spec_bounds\<close>
    (the minimum and maximum of the values that parse), \<open>clamp_pct\<close>, \<open>pct_ok\<close> and
    \<open>spec_normalize\<close> (the resolved map as a finite map, with no loop and no
    accumulator). The theorems show the invariant of the percentage, the refinement of
    the specification by the two loops, the keys of the resolved map, the join up to
    case, monotonicity, the degenerate range, what a one-sided or \<open>NaN\<close> bound does, and
    what number is read from a value.
  \<^item> \<open>Svg_Dom\<close>: the document as a tree of elements, a node being addressed by its
    path from the root; \<open>querySelectorAll\<close> by class, updates at a path, and the
    extensionality of trees in the data of their nodes (\<open>element_eqI\<close>), on which the
    equalities of documents rest.
  \<^item> \<open>Component_State\<close>: the fields of \<^verbatim>\<open>CountriesMapComponent\<close> as the record
    \<open>component\<close>, the view child with its document, the outputs as the list of emitted
    events, \<open>onChartReady\<close> and \<open>onChartError\<close>.
  \<^item> \<open>Render_Binder\<close>: the constants, \<open>getStrokeWidth\<close>, \<open>getStrokeColor\<close>, lines 154
    to 178 of \<^verbatim>\<open>initializeMap\<close> (\<open>fill_of\<close>, \<open>bind_item\<close>, \<open>render_svg\<close>, \<open>render\<close>),
    \<open>countryHover\<close>, and the dispatch of a pointer event to the bound handler (\<open>fire\<close>).
    The theorems show the fill policy, what a render overwrites and what it keeps, that
    the handlers are bound, and that hovering is idempotent and touches strokes only.
  \<^item> \<open>Selection_Controller\<close>: \<open>countryName\<close>, \<open>selectionValue\<close>, \<open>getExtraSelected\<close>,
    \<open>selectCountry\<close>, \<open>onMapSelect\<close> with its loop \<open>closest_country\<close>. The theorems
    give the handler on every branch, the error paths included, exactly when it
    raises, the round trip of a selection, and the effect of a click on the state.
  \<^item> \<open>Selection_Spec\<close>: the state machine of the specification (\<open>sel_state\<close>,
    \<open>spec_click\<close>, \<open>spec_run\<close>), the abstraction of the component to it
    (\<open>abs_component\<close>, \<open>resolution_of\<close>) and sequences of clicks (\<open>clicks\<close>). The
    theorems show that every sequence of clicks that returns is a run of the machine,
    and where this ends: at a country element with an empty id.
  \<^item> \<open>Dom_Heap\<close>: the document as a store of nodes with references to their parents
    (\<open>dom_heap\<close>), the loop of \<^verbatim>\<open>onMapSelect\<close> over these references as a partial function
    (\<open>walk_up\<close>), the handler over the store (\<open>onMapSelect_heap\<close>) and the store of a
    view (\<open>heap_of\<close>). The theorems show that the handler returns whenever the parent
    relation is well founded, that the loop does not end on a cycle, and that on the
    store of a view the handler is \<open>onMapSelect\<close> on the chain of the target.
  \<^item> \<open>Countries_Map\<close>: \<open>initializeMap\<close> as a whole, on its three paths (ready, caught
    failure, uncaught exception), and its idempotence.
  \<^item> \<open>Life_Cycle\<close>: the component under its environment as a transition system
    (\<open>step\<close>, \<open>react\<close>, \<open>run\<close>, \<open>reachable\<close>) whose state holds the dependencies of
    the effect (\<open>reads\<close>, the signals \<^verbatim>\<open>initializeMap\<close> reads on the path it takes), and the
    invariant of its reachable states, proved from one preservation lemma per rule.
  \<^item> \<open>Reachable_States\<close>: the theorems on reachable states and runs: with no effect
    pending the document shows the data, a pass not scheduled would change nothing, only
    clicks change the selection, the selection is the one the selection events have
    announced, and a pending effect completes.
  \<^item> This theory: the properties that span the components, from the data to the fill of
    an element, from a click back to the data, the component as a whole as an
    implementation of the state machine of the selection (\<open>spec_react\<close>,
    \<open>step_refines_spec\<close>), and the example of the specification.

  \<^bold>\<open>Correspondence.\<close> A field of the class is a field of \<open>component\<close> under the same
  name; a signal is the value it holds. A method is a function from the state before to
  the state after; a method that can raise returns a \<open>result\<close>, \<open>Inl\<close> being the
  exception. A loop over a collection is a recursive function over the list of its
  elements, in the order of the source, and terminates with the list. The walk to the
  ancestors is modelled twice: in \<open>Selection_Controller\<close> as a recursion over the finite
  chain of ancestors of the target, which is what a document gives, and in \<open>Dom_Heap\<close>
  as the loop over the references \<^verbatim>\<open>parentNode\<close> of an arbitrary store, where it is a
  partial function whose termination is a theorem; the two agree on the store of a view.
  The mutation of the document is the replacement of the tree held in the view.

  \<^bold>\<open>Idealisations.\<close>
  \<^item> Numbers are \<open>NaN\<close> or a real: no rounding, no infinities, no negative zero. A
    division by zero, which the component never performs because the range is never
    zero, is \<open>NaN\<close>. The decimal string of a number is modelled through its integer
    part, and through its leading digit where JavaScript prints an exponent (at
    \<^verbatim>\<open>1e21\<close> and above, below \<^verbatim>\<open>1e-6\<close>).
  \<^item> Case mapping is that of the ASCII letters, which covers country codes.
  \<^item> A country's value is \<^verbatim>\<open>undefined\<close>, a number or a string; an entry of the data is an
    object. Values of other types and \<^verbatim>\<open>null\<close> entries are not modelled. An object has its
    own properties only: a lookup never finds a property inherited from
    \<^verbatim>\<open>Object.prototype\<close>, so ids such as \<^verbatim>\<open>constructor\<close> are ordinary missing keys.
  \<^item> A write to an input that is a dependency schedules the effect whether or not the
    value written is new; the framework skips the notification for an identical value.
    Since a write of the same value leaves the state as it was, every state the component
    reaches is a reachable state of the model.
  \<^item> The document is a finite tree; a click is given by the path of its target below the
    host of the base map. Only the properties of an element that the component reads or
    writes are kept: id, classes, fill, the two properties of the stroke, the
    background colour, the two handlers.
  \<^item> There is no fuel and no bound on the size of the data or of the document. Every
    function is total except \<open>walk_up\<close>, whose value is \<open>None\<close> when the loop does not
    end; it ends on every store with a well-founded parent relation, and so on the store
    of every view.

  \<^bold>\<open>Not modelled.\<close> The template and the style sheet of the component, the static SVG
  of \<^verbatim>\<open>CountriesMapBaseComponent\<close> (an empty class: the document is a parameter of the
  model), the re-exports of \<^verbatim>\<open>public-api.ts\<close>, the decorator and the imports, the table of
  \<^verbatim>\<open>country-list\<close> (its lookup is a parameter of the state), the change notification that
  the model signal \<^verbatim>\<open>loading\<close> sends to the host when it is set, the meaning of
  \<^verbatim>\<open>color-mix\<close> (a fill is kept as the two colours and the percentage), and the change
  detection of the framework beyond the scheduling of the one effect. These are all the
  lines of the sources that no definition translates; none of them holds logic of the
  component.
\<close>

section \<open>Definitions\<close>

definition spec_react ::
  "component \<Rightarrow> action \<Rightarrow> sel_state \<times> spec_event list \<Rightarrow> sel_state \<times> spec_event list"
where
  "spec_react c a \<sigma> =
     (case a of
        Click tgt \<Rightarrow>
          (case mapContent c of
             None \<Rightarrow> \<sigma>
           | Some v \<Rightarrow>
               (fst (spec_click (mapData c) (resolution_of (click_chain v tgt))),
                snd \<sigma> @ [snd (spec_click (mapData c) (resolution_of (click_chain v tgt)))]))
      | _ \<Rightarrow> \<sigma>)"

definition example_shown :: system where
  "example_shown =
     \<lparr>inst = (example_loaded ''FR'')\<lparr>mapContent := Some example_view\<rparr>, dirty = False,
      deps = tracked\<rparr>"

section \<open>From the data to the document\<close>

text \<open>
  C2: The join of the data and the document is insensitive to case and respects the fill
  policy from end to end. Let the country codes of the data be distinct up to case and
  the supplied bounds not be \<open>NaN\<close>. After a render pass over a view with the SVG, an
  element with the country class whose id agrees up to case with a country code of the
  data has the exception colour when the value of that country does not parse, and
  otherwise the mix of the maximum and minimum colours at the percentage of the resolved
  record, which then is within 0 and 100.
\<close>
theorem data_to_fill:
  assumes "mapContent c = Some v" and "firstChild (host v) = Some svgMap"
    and "attrs_at svgMap p = Some a" and "p \<noteq> []" and "has_class COUNTRY_CLASS a"
    and "data c = Some d" and "distinct (map (toLowerCase \<circ> fst) d)"
    and "(k, entry) \<in> set d" and "toLowerCase (at_id a) = toLowerCase k"
    and "finite_bound (minValue c)" and "finite_bound (maxValue c)"
  shows "\<exists>c' v'. initializeMap c = Inr c' \<and> mapContent c' = Some v' \<and>
     map_option (\<lambda>b. st_fill (at_style b)) (attrs_at (host v') (0 # p)) =
       Some (if isNaN (countryNum entry) then Plain (exceptionColor c)
             else ColorMix (maxColor c)
                    (percentage (resolve d (minValue c) (maxValue c) entry)) (minColor c)) \<and>
     (isNaN (countryNum entry) \<or>
      Num 0 \<le> percentage (resolve d (minValue c) (maxValue c) entry) \<and>
      percentage (resolve d (minValue c) (maxValue c) entry) \<le> Num 100)"
proof -
  let ?c2 = "c\<lparr>mapData := normalize (data c) (minValue c) (maxValue c)\<rparr>"
  let ?r = "resolve d (minValue c) (maxValue c) entry"
  have ok: "pct_ok (percentage ?r)" using assms(10,11) by (rule pct_ok_resolve)
  then have range: "isNaN (countryNum entry) \<or> Num 0 \<le> percentage ?r \<and> percentage ?r \<le> Num 100"
    using exception_resolve [of d "minValue c" "maxValue c" entry]
    by (cases "percentage ?r") auto
  have "mapData ?c2 (toLowerCase (at_id a)) = Some ?r"
    using assms(6-9) by (simp add: normalize_lookup)
  from fill_of_pct_ok [OF this ok] have "fill_of ?c2 a =
      (if isNaN (countryNum entry) then Plain (exceptionColor c)
       else ColorMix (maxColor c) (percentage ?r) (minColor c))"
    by (simp add: exception_resolve)
  with range show ?thesis by (auto intro: fill_after_pass [OF assms(1-5)])
qed

theorem data_to_fill_witness:
  "\<exists>c' v'. initializeMap example_map = Inr c' \<and> mapContent c' = Some v' \<and>
     map_option (\<lambda>b. st_fill (at_style b)) (attrs_at (host v') [0, 2]) =
       Some (ColorMix ''oklch(55% 0.25 25)'' 100 ''oklch(100% 0 0)'')"
proof -
  let ?v = "\<lparr>host = Element (plain_attrs ''map'' []) [example_svg],
             above = [plain_attrs ''countries-map'' []], attached = True\<rparr>"
  let ?e = "\<lparr>cd_value = JNumber 90, cd_extra = None\<rparr>"
  have "percentage (resolve example_data None None ?e) = 100" "\<not> isNaN (countryNum ?e)"
    by (simp_all add: resolve_def example_data_def normalizer_eval)
  with data_to_fill [of example_map ?v example_svg "[2]" "plain_attrs ''de'' [''countryxx'']"
      example_data "''DE''" ?e]
  show ?thesis
    by (simp add: example_map_def init_component_def firstChild_def dom_eval example_data_def
        finite_bound_def case_defs char_class_defs)
qed

text \<open>
  After a render pass over a view with the SVG, an element with the country class
  whose id agrees with no country code of the data, even up to case, has the no-data
  colour; so has every such element when there is no data.
\<close>
lemma no_data_fill:
  assumes "mapContent c = Some v" and "firstChild (host v) = Some svgMap"
    and "attrs_at svgMap p = Some a" and "p \<noteq> []" and "has_class COUNTRY_CLASS a"
    and "\<forall>d. data c = Some d \<longrightarrow> toLowerCase (at_id a) \<notin> toLowerCase ` fst ` set d"
  shows "\<exists>c' v'. initializeMap c = Inr c' \<and> mapContent c' = Some v' \<and>
     map_option (\<lambda>b. st_fill (at_style b)) (attrs_at (host v') (0 # p)) =
       Some (Plain (noDataColor c))"
proof -
  let ?c2 = "c\<lparr>mapData := normalize (data c) (minValue c) (maxValue c)\<rparr>"
  have "mapData ?c2 (toLowerCase (at_id a)) = None"
    using assms(6) by (cases "data c") (simp_all add: normalize_None_iff)
  then have "fill_of ?c2 a = Plain (noDataColor c)" by (simp add: fill_of_no_record)
  then show ?thesis by (auto intro: fill_after_pass [OF assms(1-5)])
qed

section \<open>From the document back to the data\<close>

text \<open>
  C23: The lookup of a click is sensitive to case where the render is not. After a render
  pass, a click on a country element whose id has an upper-case letter finds no record,
  because \<open>mapData\<close> is keyed in lower case and \<^verbatim>\<open>onMapSelect\<close> reads it under the id as
  it is: the click clears the selection and emits the unselected event, although the
  render has filled the same element from the data under its lower-cased id.
\<close>
theorem click_is_case_sensitive:
  assumes "initializeMap c = Inr c'"
    and "target_id chain \<noteq> Some OCEAN_ID"
    and "closest_country chain = Inr (Some item)"
    and "toLowerCase (at_id item) \<noteq> at_id item"
  shows "onMapSelect chain c' =
     Inr (c'\<lparr>selection := None, emitted := emitted c' @ [ChartSelect unselected_event]\<rparr>)"
proof -
  from assms(1) have "mapData c' = normalize (data c) (minValue c) (maxValue c)"
    by (cases rule: initializeMap_Inr_cases) simp_all
  with assms(4) have "mapData c' (at_id item) = None"
    using normalize_key_lower [of "data c" "minValue c" "maxValue c" "at_id item"]
    by (cases "mapData c' (at_id item)") auto
  with assms(2,3) show ?thesis by (simp add: onMapSelect_walk emit_def)
qed

theorem click_is_case_sensitive_witness:
  "\<exists>c'. initializeMap example_map = Inr c' \<and>
     onMapSelect [ElementNode (plain_attrs ''FR'' [''countryxx''])] c' =
       Inr (c'\<lparr>selection := None, emitted := [ChartReady, ChartSelect unselected_event]\<rparr>)"
proof -
  obtain c' where r: "initializeMap example_map = Inr c'" and e: "emitted c' = [ChartReady]"
    by (simp add: example_map_def init_component_def initializeMap_def render_def firstChild_def
        Let_def onChartReady_def emit_def)
  from click_is_case_sensitive [OF r, of "[ElementNode (plain_attrs ''FR'' [''countryxx''])]"
      "plain_attrs ''FR'' [''countryxx'']"] r e
  show ?thesis
    by (simp add: target_id_def plain_attrs_def has_class_def COUNTRY_CLASS_def OCEAN_ID_def
        case_defs char_class_defs)
qed

section \<open>The example of the specification\<close>

text \<open>
  The example of the specification: for the data \<^verbatim>\<open>{FR: 10, DE: 90, XX: 'n/a'}\<close> and no
  supplied bounds, the bounds are 10 and 90, France resolves to 0, Germany to 100 and
  \<^verbatim>\<open>XX\<close> to the exception marker -1; and with both bounds supplied as 0, a value of 5
  resolves to 100.
\<close>
lemma spec_example:
  "compute_bounds [(''FR'', \<lparr>cd_value = JNumber 10, cd_extra = None\<rparr>),
                   (''DE'', \<lparr>cd_value = JNumber 90, cd_extra = None\<rparr>),
                   (''XX'', \<lparr>cd_value = JString ''n/a'', cd_extra = None\<rparr>)] None None = (10, 90) \<and>
   map (\<lambda>k. map_option percentage
          (normalize (Some [(''FR'', \<lparr>cd_value = JNumber 10, cd_extra = None\<rparr>),
                            (''DE'', \<lparr>cd_value = JNumber 90, cd_extra = None\<rparr>),
                            (''XX'', \<lparr>cd_value = JString ''n/a'', cd_extra = None\<rparr>)]) None None k))
     [''fr'', ''de'', ''xx'', ''FR''] = [Some 0, Some 100, Some (- 1), None] \<and>
   map_option percentage
     (normalize (Some [(''FR'', \<lparr>cd_value = JNumber 5, cd_extra = None\<rparr>)]) (Some 0) (Some 0) ''fr'') =
     Some 100"
  by (simp add: normalizer_eval)

section \<open>The component and the state machine of the selection\<close>

lemma abs_component_cong:
  "selection c = selection c' \<Longrightarrow> emitted c = emitted c' \<Longrightarrow>
   abs_component c = abs_component c'"
  by (simp add: abs_component_def abs_state_def)

lemma select_events_other [simp]:
  "select_events (evs @ [ChartReady]) = select_events evs"
  "select_events (evs @ [ChartError err]) = select_events evs"
  by (simp_all add: select_events_def map_filter_def)

lemma initializeMap_abs:
  assumes "initializeMap c = Inr c'"
  shows "abs_component c' = abs_component c"
  using assms
  by (cases rule: initializeMap_Inr_cases) (simp_all add: abs_component_def abs_state_def)

text \<open>
  C28: The component as a whole implements the state machine of the selection. The
  abstraction of the state, the selected id with the selection events emitted, moves with
  every step of the component as the state machine of the specification moves: a click
  is the transition of the machine on what the click resolves to, over the resolved map
  of the moment, and every other step (a write to an input, the view coming into being,
  a render pass, a pointer event) leaves the abstract state as it is. This holds for
  clicks that do not raise and that resolve to elements with a non-empty id only.
\<close>
theorem step_refines_spec:
  assumes "step s a s'"
    and "\<And>tgt v. a = Click tgt \<Longrightarrow> mapContent (inst s) = Some v \<Longrightarrow>
      nonempty_ids (click_chain v tgt) \<and> (\<forall>e. onMapSelect (click_chain v tgt) (inst s) \<noteq> Inl e)"
  shows "abs_component (inst s') = spec_react (inst s) a (abs_component (inst s))"
  using assms(1)
proof (cases rule: step.cases)
  case (click v tgt c')
  with assms(2) onMapSelect_refines [OF click(4)] show ?thesis by (simp add: spec_react_def)
next
  case (click_raises v tgt e)
  with assms(2) show ?thesis by blast
next
  case (effect c')
  then show ?thesis by (simp add: spec_react_def initializeMap_abs)
qed (auto simp: spec_react_def initializeMap_Inl intro: abs_component_cong)

theorem step_refines_spec_witness:
  "\<exists>s'. step example_shown (Click (Some [0, 1, 0])) s' \<and>
     abs_component (inst s') =
       (Selected ''FR'',
        [IsSelected ''FR'' 42 (Some [\<lparr>se_key = ''capital'', se_val = JString ''Paris''\<rparr>])])"
proof -
  have "\<exists>c'. onMapSelect (click_chain example_view (Some [0, 1, 0])) (inst example_shown) = Inr c'"
    by (simp add: example_shown_def click_chain_def selection_eval)
  then obtain c' where c': "onMapSelect (click_chain example_view (Some [0, 1, 0])) (inst example_shown) = Inr c'" ..
  have v: "mapContent (inst example_shown) = Some example_view" by (simp add: example_shown_def)
  from step.click [OF v c'] have st: "step example_shown (Click (Some [0, 1, 0])) (example_shown\<lparr>inst := c'\<rparr>)" .
  have n: "nonempty_ids (click_chain example_view (Some [0, 1, 0]))"
    by (simp add: click_chain_def spec_eval selection_eval)
  have "spec_react (inst example_shown) (Click (Some [0, 1, 0])) (abs_component (inst example_shown)) =
      (Selected ''FR'',
        [IsSelected ''FR'' 42 (Some [\<lparr>se_key = ''capital'', se_val = JString ''Paris''\<rparr>])])"
    by (simp add: spec_react_def example_shown_def click_chain_def spec_eval selection_eval)
  moreover have "nonempty_ids (click_chain w tgt) \<and>
      (\<forall>e. onMapSelect (click_chain w tgt) (inst example_shown) \<noteq> Inl e)"
    if "Click (Some [0, 1, 0]) = Click tgt" "mapContent (inst example_shown) = Some w" for tgt w
    using that v c' n by auto
  note step_refines_spec [OF st this]
  ultimately show ?thesis using st by (intro exI [of _ "example_shown\<lparr>inst := c'\<rparr>"]) simp
qed

end
